theory Spec2Isabelle
  imports Complex_Main "HOL-Library.Sublist"
begin

section \<open>Go values: errors, panics, decimal integers\<close>

text \<open>
  A Go \<^verbatim>\<open>error\<close> value is a \<open>go_error\<close>; \<^verbatim>\<open>nil\<close> is \<open>None\<close> of
  \<open>go_error option\<close> or the \<open>Inr\<close> side of \<open>go_error + 'a\<close>.  A function of the
  program ends in one of three further ways besides returning normally: it returns an
  error, it panics (an index out of range), or it leaves the process through
  \<^verbatim>\<open>log.Fatalf\<close>.
\<close>

datatype go_error =
    Error string
  | FailedPrecondition string

datatype failure =
    Returned go_error
  | Panic string
  | Fatal string

text \<open>\<^verbatim>\<open>strconv.Itoa\<close>: the decimal digits, with a minus sign for a negative number.\<close>

fun utoa :: "nat \<Rightarrow> string" where
  "utoa n = (if n < 10 then [''0123456789'' ! n]
             else utoa (n div 10) @ [''0123456789'' ! (n mod 10)])"

definition Itoa :: "int \<Rightarrow> string" where
  "Itoa i = (if i < 0 then CHR ''-'' # utoa (nat (- i)) else utoa (nat i))"

text \<open>\<^verbatim>\<open>strings.Split(s, sep)\<close> for a one-byte separator; the empty string gives one
  empty piece.\<close>

fun Split :: "string \<Rightarrow> char \<Rightarrow> string list" where
  "Split [] sep = [[]]"
| "Split (c # cs) sep =
     (if c = sep then [] # Split cs sep
      else (case Split cs sep of [] \<Rightarrow> [[c]] | x # xs \<Rightarrow> (c # x) # xs))"

text \<open>\<^verbatim>\<open>strings.Join(xs, sep)\<close>.\<close>

fun Join :: "string list \<Rightarrow> string \<Rightarrow> string" where
  "Join [] sep = []"
| "Join [x] sep = x"
| "Join (x # y # ys) sep = x @ sep @ Join (y # ys) sep"

text \<open>
  \<^verbatim>\<open>strconv.Atoi\<close> with its error discarded, as every call site does
  (\<^verbatim>\<open>x, _ = strconv.Atoi(s)\<close>): an optional sign and decimal digits; a syntax error
  gives 0, a value outside the 64-bit range gives the nearest bound.
\<close>

definition is_digit :: "char \<Rightarrow> bool" where
  "is_digit c = (c \<in> set ''0123456789'')"

definition digit_val :: "char \<Rightarrow> nat" where
  "digit_val c = of_char c - 48"

definition atou :: "string \<Rightarrow> nat" where
  "atou ds = foldl (\<lambda>a c. 10 * a + digit_val c) 0 ds"

definition Atoi :: "string \<Rightarrow> int" where
  "Atoi s =
    (let neg = (case s of [] \<Rightarrow> False | c # cs \<Rightarrow> c = CHR ''-'');
         ds = (case s of [] \<Rightarrow> [] | c # cs \<Rightarrow> if c = CHR ''-'' \<or> c = CHR ''+'' then cs else s)
     in if ds = [] \<or> \<not> list_all is_digit ds then 0
        else if neg then max (- (2 ^ 63)) (- int (atou ds))
        else min (2 ^ 63 - 1) (int (atou ds)))"

section \<open>Messages of the Manager API (pkg/api)\<close>

text \<open>
  The message types are generated code outside the two source files; each record has the
  fields the program reads or writes.  A reply is taken as the Manager builds it, with
  its sub-messages present.
\<close>

datatype State = State_PENDING | State_RUNNING | State_COMPLETED | State_KILLED

datatype ParameterType = ParameterType_UNKNOWN_TYPE | ParameterType_DOUBLE | ParameterType_INT | ParameterType_DISCRETE | ParameterType_CATEGORICAL

datatype OptimizationType = OptimizationType_UNKNOWN_OPTIMIZATION | OptimizationType_MINIMIZE | OptimizationType_MAXIMIZE

record Worker =
  WorkerId :: string
  w_TrialId :: string
  Status :: State

record Parameter =
  p_Name :: string
  p_Type :: ParameterType
  p_Value :: string

record FeasibleSpace =
  fs_Max :: string
  fs_Min :: string
  fs_List :: "string list"

record ParameterConfig =
  pc_Name :: string
  pc_Type :: ParameterType
  pc_Feasible :: FeasibleSpace

record StudyConfig =
  Configs :: "ParameterConfig list"
  sc_ObjectiveValueName :: string
  OptimizationType :: OptimizationType

record Trial =
  TrialId :: string
  StudyId :: string
  ParameterSet :: "Parameter list"

record SuggestionParameter =
  sp_Name :: string
  sp_Value :: string

record MetricsLog =
  ml_Name :: string
  Values :: "string list"

record MetricsLogSet =
  mls_WorkerId :: string
  MetricsLogs :: "MetricsLog list"
  WorkerStatus :: State

record GetSuggestionsRequest =
  in_StudyId :: string
  in_SuggestionAlgorithm :: string
  in_ParamId :: string

section \<open>Hyperband suggestion service (pkg/suggestion)\<close>

subsection \<open>Data\<close>

text \<open>\<^verbatim>\<open>Evals\<close>; \<open>'f\<close> is \<^verbatim>\<open>float64\<close>.\<close>

record 'f Evals =
  ev_id :: string
  ev_value :: 'f

text \<open>
  \<^verbatim>\<open>Bracket\<close> is a slice: \<open>items\<close> are its elements, \<open>spare\<close> the elements of the
  backing array between its length and its capacity, which \<^verbatim>\<open>b[:n]\<close> can reach.
\<close>

record 'f Bracket =
  items :: "'f Evals list"
  spare :: "'f Evals list"

text \<open>\<^verbatim>\<open>HyperBandParameters\<close>; the fields \<^verbatim>\<open>r\<close> and \<^verbatim>\<open>n\<close> are \<open>hb_r\<close> and
  \<open>hb_n\<close>.  A Go \<^verbatim>\<open>int\<close> is read as an integer.\<close>

record 'f HyperBandParameters =
  eta :: 'f
  sMax :: int
  b_l :: 'f
  r_l :: 'f
  hb_r :: 'f
  hb_n :: int
  shloopitr :: int
  currentS :: int
  ResourceName :: string
  ObjectiveValueName :: string
  evaluatingTrials :: "string list"

subsection \<open>What the program takes from the Go library and from the Manager\<close>

text \<open>
  The program computes on \<^verbatim>\<open>float64\<close> with \<^verbatim>\<open>strconv\<close>, \<^verbatim>\<open>math\<close> and the
  arithmetic of the language, sorts with \<^verbatim>\<open>sort.Sort\<close> and grows slices with
  \<^verbatim>\<open>append\<close>.  None of this is code of the repository; the functions of the model take
  it as a record of operations on a type \<open>'f\<close> of floating-point values, and the theorems
  hold for every such record.
  \<^item> \<open>ParseFloat s\<close> is the value \<^verbatim>\<open>strconv.ParseFloat(s, 64)\<close> returns, its error
    discarded as at every call site; \<open>FormatFloat x\<close> is
    \<^verbatim>\<open>strconv.FormatFloat(x, 'f', 4, 64)\<close>;
  \<^item> \<open>float64 i\<close> and \<open>to_int x\<close> are the conversions \<^verbatim>\<open>float64(i)\<close> and
    \<^verbatim>\<open>int(x)\<close>;
  \<^item> \<open>sort_Sort lt xs\<close> is the slice after \<^verbatim>\<open>sort.Sort\<close> with the given
    \<^verbatim>\<open>Less\<close>;
  \<^item> \<open>append_spare k\<close> is the spare capacity \<^verbatim>\<open>append\<close> leaves when it grows a
    full slice of \<open>k\<close> elements by one.
\<close>

record 'f stdlib =
  ParseFloat :: "string \<Rightarrow> 'f"
  FormatFloat :: "'f \<Rightarrow> string"
  float64 :: "int \<Rightarrow> 'f"
  to_int :: "'f \<Rightarrow> int"
  f_add :: "'f \<Rightarrow> 'f \<Rightarrow> 'f"
  f_mul :: "'f \<Rightarrow> 'f \<Rightarrow> 'f"
  f_div :: "'f \<Rightarrow> 'f \<Rightarrow> 'f"
  f_le :: "'f \<Rightarrow> 'f \<Rightarrow> bool"
  f_eq :: "'f \<Rightarrow> 'f \<Rightarrow> bool"
  f_gt :: "'f \<Rightarrow> 'f \<Rightarrow> bool"
  math_Log :: "'f \<Rightarrow> 'f"
  math_Trunc :: "'f \<Rightarrow> 'f"
  math_Ceil :: "'f \<Rightarrow> 'f"
  math_Pow :: "'f \<Rightarrow> 'f \<Rightarrow> 'f"
  sort_Sort :: "('f Evals \<Rightarrow> 'f Evals \<Rightarrow> bool) \<Rightarrow> 'f Evals list \<Rightarrow> 'f Evals list"
  append_spare :: "nat \<Rightarrow> nat"

text \<open>
  The Manager is outside the program.  Its state, together with that of the random
  sampler of \<^verbatim>\<open>RandomSuggestService\<close> (embedded in the service, defined outside the two
  source files, taken here as two operations \<open>IntRandom\<close> and \<open>DoubelRandom\<close> that
  return a value), is a value of an arbitrary type \<open>'w\<close>.  \<open>Dial\<close> is the connection
  to the Manager.  Every request sent to the Manager is recorded, in order.
\<close>

datatype mgr_call =
    M_GetStudy string
  | M_CreateTrial Trial
  | M_GetTrials string
  | M_GetWorkers string string
  | M_GetMetrics string "string list" "string list"
  | M_GetSuggestionParameters string
  | M_SetSuggestionParameters string string string "SuggestionParameter list"

record ('w, 'f) manager =
  Dial :: "'w \<Rightarrow> go_error option \<times> 'w"
  GetStudy :: "string \<Rightarrow> 'w \<Rightarrow> (go_error + StudyConfig) \<times> 'w"
  CreateTrial :: "Trial \<Rightarrow> 'w \<Rightarrow> (go_error + string) \<times> 'w"
  GetTrials :: "string \<Rightarrow> 'w \<Rightarrow> (go_error + Trial list) \<times> 'w"
  GetWorkers :: "string \<Rightarrow> string \<Rightarrow> 'w \<Rightarrow> (go_error + Worker list) \<times> 'w"
  GetMetrics :: "string \<Rightarrow> string list \<Rightarrow> string list \<Rightarrow> 'w \<Rightarrow> (go_error + MetricsLogSet list) \<times> 'w"
  GetSuggestionParameters :: "string \<Rightarrow> 'w \<Rightarrow> (go_error + SuggestionParameter list) \<times> 'w"
  SetSuggestionParameters ::
    "string \<Rightarrow> string \<Rightarrow> string \<Rightarrow> SuggestionParameter list \<Rightarrow> 'w \<Rightarrow> go_error option \<times> 'w"
  IntRandom :: "int \<Rightarrow> int \<Rightarrow> 'w \<Rightarrow> int \<times> 'w"
  DoubelRandom :: "'f \<Rightarrow> 'f \<Rightarrow> 'w \<Rightarrow> 'f \<times> 'w"

type_synonym 'w mworld = "'w \<times> mgr_call list"

text \<open>\<open>invoke c f\<close> sends the request \<open>c\<close>: it records \<open>c\<close> and applies the operation
  \<open>f\<close> to the outside state.  \<open>quietly f\<close> applies \<open>f\<close> without a record.\<close>

definition invoke :: "'c \<Rightarrow> ('w \<Rightarrow> 'a \<times> 'w) \<Rightarrow> 'w \<times> 'c list \<Rightarrow> 'a \<times> ('w \<times> 'c list)" where
  "invoke c f s = (case f (fst s) of (r, w') \<Rightarrow> (r, (w', snd s @ [c])))"

definition quietly :: "('w \<Rightarrow> 'a \<times> 'w) \<Rightarrow> 'w \<times> 'c list \<Rightarrow> 'a \<times> ('w \<times> 'c list)" where
  "quietly f s = (case f (fst s) of (r, w') \<Rightarrow> (r, (w', snd s)))"

text \<open>The trials a run has registered and the parameter lists it has persisted, read off
  the record of its requests.\<close>

fun createdTrials :: "mgr_call list \<Rightarrow> Trial list" where
  "createdTrials [] = []"
| "createdTrials (M_CreateTrial t # cs) = t # createdTrials cs"
| "createdTrials (c # cs) = createdTrials cs"

fun persisted :: "mgr_call list \<Rightarrow> SuggestionParameter list list" where
  "persisted [] = []"
| "persisted (M_SetSuggestionParameters studyId algorithm paramId sp # cs) = sp # persisted cs"
| "persisted (c # cs) = persisted cs"

subsection \<open>makeMasterBracket\<close>

text \<open>The value written for the resource parameter, in both bracket generators.\<close>

definition resourceValue :: "'f stdlib \<Rightarrow> ParameterType \<Rightarrow> 'f \<Rightarrow> string" where
  "resourceValue F ty r = (if ty = ParameterType_INT then Itoa (to_int F r) else FormatFloat F r)"

text \<open>The inner loop over the parameter configs: one parameter for each config.
  Indexing the feasible list outside its bounds is a panic.\<close>

fun sampleParameters ::
  "('w, 'f) manager \<Rightarrow> 'f stdlib \<Rightarrow> string \<Rightarrow> 'f \<Rightarrow> ParameterConfig list \<Rightarrow> 'w mworld \<Rightarrow>
     (failure + Parameter list) \<times> 'w mworld" where
  "sampleParameters M F resName r [] s = (Inr [], s)"
| "sampleParameters M F resName r (pc # pcs) s =
    (case (if pc_Name pc = resName then (Inr (resourceValue F (pc_Type pc) r), s)
           else (case pc_Type pc of
               ParameterType_INT \<Rightarrow>
                 (case quietly (IntRandom M (Atoi (fs_Min (pc_Feasible pc)))
                                  (Atoi (fs_Max (pc_Feasible pc)))) s of
                    (v, s) \<Rightarrow> (Inr (Itoa v), s))
             | ParameterType_DOUBLE \<Rightarrow>
                 (case quietly (DoubelRandom M (ParseFloat F (fs_Min (pc_Feasible pc)))
                                  (ParseFloat F (fs_Max (pc_Feasible pc)))) s of
                    (v, s) \<Rightarrow> (Inr (FormatFloat F v), s))
             | ParameterType_CATEGORICAL \<Rightarrow>
                 (case quietly (IntRandom M 0 (int (length (fs_List (pc_Feasible pc))) - 1)) s of
                    (k, s) \<Rightarrow>
                      if 0 \<le> k \<and> k < int (length (fs_List (pc_Feasible pc)))
                      then (Inr (fs_List (pc_Feasible pc) ! nat k), s)
                      else (Inl (Panic ''index out of range''), s))
             | _ \<Rightarrow> (Inr [], s))) of
       (Inl e, s) \<Rightarrow> (Inl e, s)
     | (Inr v, s) \<Rightarrow>
         (case sampleParameters M F resName r pcs s of
            (Inl e, s) \<Rightarrow> (Inl e, s)
          | (Inr ps, s) \<Rightarrow>
              (Inr (\<lparr> p_Name = pc_Name pc, p_Type = pc_Type pc, p_Value = v \<rparr> # ps), s)))"

text \<open>The loop \<^verbatim>\<open>for i := 0; i < n; i++\<close> over the indices \<open>is\<close>.\<close>

fun masterLoop ::
  "('w, 'f) manager \<Rightarrow> 'f stdlib \<Rightarrow> string \<Rightarrow> StudyConfig \<Rightarrow> 'f \<Rightarrow> string \<Rightarrow> nat list \<Rightarrow>
     string list \<Rightarrow> Trial option list \<Rightarrow> 'w mworld \<Rightarrow>
     (failure + string list \<times> Trial option list) \<times> 'w mworld" where
  "masterLoop M F studyId sconf r resName [] tids ts s = (Inr (tids, ts), s)"
| "masterLoop M F studyId sconf r resName (i # is) tids ts s =
    (case sampleParameters M F resName r (Configs sconf) s of
       (Inl e, s) \<Rightarrow> (Inl e, s)
     | (Inr ps, s) \<Rightarrow>
    (case invoke (M_CreateTrial \<lparr> TrialId = [], StudyId = studyId, ParameterSet = ps \<rparr>)
            (CreateTrial M \<lparr> TrialId = [], StudyId = studyId, ParameterSet = ps \<rparr>) s of
       (Inl err, s) \<Rightarrow> (Inl (Returned err), s)
     | (Inr tid, s) \<Rightarrow>
         masterLoop M F studyId sconf r resName is (tids[i := tid])
           (ts[i := Some \<lparr> TrialId = tid, StudyId = studyId, ParameterSet = ps \<rparr>]) s))"

definition makeMasterBracket ::
  "('w, 'f) manager \<Rightarrow> 'f stdlib \<Rightarrow> string \<Rightarrow> int \<Rightarrow> 'f \<Rightarrow> 'f HyperBandParameters \<Rightarrow> 'w mworld \<Rightarrow>
     (failure + string list \<times> Trial option list) \<times> 'w mworld" where
  "makeMasterBracket M F studyId n r hbparam s =
    (case invoke (M_GetStudy studyId) (GetStudy M studyId) s of
       (Inl err, s) \<Rightarrow> (Inl (Returned err), s)
     | (Inr sconf, s) \<Rightarrow>
         if n < 0 then (Inl (Panic ''makeslice: len out of range''), s)
         else masterLoop M F studyId sconf r (ResourceName hbparam) [0..<nat n]
                (replicate (nat n) []) (replicate (nat n) None) s)"

subsection \<open>makeChildBracket\<close>

text \<open>\<^verbatim>\<open>parent[n:]\<close> and \<^verbatim>\<open>parent[:n]\<close>; a bound outside the slice is a panic.  The
  lower bound is checked against the length, the upper bound against the capacity.\<close>

definition slice_from :: "'f Bracket \<Rightarrow> int \<Rightarrow> failure + 'f Evals list" where
  "slice_from parent n =
    (if 0 \<le> n \<and> n \<le> int (length (items parent)) then Inr (drop (nat n) (items parent))
     else Inl (Panic ''slice bounds out of range''))"

definition slice_to :: "'f Bracket \<Rightarrow> int \<Rightarrow> failure + 'f Evals list" where
  "slice_to parent n =
    (if 0 \<le> n \<and> n \<le> int (length (items parent) + length (spare parent))
     then Inr (take (nat n) (items parent @ spare parent))
     else Inl (Panic ''slice bounds out of range''))"

text \<open>The trial of the reply whose parameter set the new trial takes: the loop over
  \<^verbatim>\<open>gtrep.Trials\<close> keeps the last one with the survivor's id.\<close>

fun lastMatch :: "Trial list \<Rightarrow> string \<Rightarrow> nat option" where
  "lastMatch [] tid = None"
| "lastMatch (pt # pts) tid =
    (case lastMatch pts tid of
       Some j \<Rightarrow> Some (Suc j)
     | None \<Rightarrow> if TrialId pt = tid then Some 0 else None)"

definition rewriteResource ::
  "'f stdlib \<Rightarrow> string \<Rightarrow> ParameterType \<Rightarrow> 'f \<Rightarrow> Parameter list \<Rightarrow> Parameter list" where
  "rewriteResource F resName rtype r_i ps =
     map (\<lambda>p. if p_Name p = resName then p \<lparr> p_Value := resourceValue F rtype r_i \<rparr> else p) ps"

text \<open>
  The loop \<^verbatim>\<open>for i, tid := range child\<close>.  The new trial shares its parameter set with
  the trial of the reply, so the rewriting of the resource parameter changes the reply
  \<open>trials\<close> as well.  The trial is registered before \<^verbatim>\<open>tids[i]\<close> is written, and
  writing beyond the \<open>n\<close> allocated entries is a panic.
\<close>

fun childLoop ::
  "('w, 'f) manager \<Rightarrow> 'f stdlib \<Rightarrow> string \<Rightarrow> string \<Rightarrow> ParameterType \<Rightarrow> 'f \<Rightarrow> nat \<Rightarrow>
     'f Evals list \<Rightarrow> Trial list \<Rightarrow> string list \<Rightarrow> Trial option list \<Rightarrow> 'w mworld \<Rightarrow>
     (failure + string list \<times> Trial option list) \<times> 'w mworld" where
  "childLoop M F studyId resName rtype r_i i [] trials tids ts s = (Inr (tids, ts), s)"
| "childLoop M F studyId resName rtype r_i i (tid # child) trials tids ts s =
    (let ps = (case lastMatch trials (ev_id tid) of
                 None \<Rightarrow> []
               | Some j \<Rightarrow> rewriteResource F resName rtype r_i (ParameterSet (trials ! j)));
         trials = (case lastMatch trials (ev_id tid) of
                 None \<Rightarrow> trials
               | Some j \<Rightarrow> trials[j := (trials ! j) \<lparr> ParameterSet := ps \<rparr>])
     in case invoke (M_CreateTrial \<lparr> TrialId = [], StudyId = studyId, ParameterSet = ps \<rparr>)
               (CreateTrial M \<lparr> TrialId = [], StudyId = studyId, ParameterSet = ps \<rparr>) s of
          (Inl err, s) \<Rightarrow> (Inl (Returned err), s)
        | (Inr ret, s) \<Rightarrow>
            if i < length tids
            then childLoop M F studyId resName rtype r_i (Suc i) child trials (tids[i := ret])
                   (ts[i := Some \<lparr> TrialId = ret, StudyId = studyId, ParameterSet = ps \<rparr>]) s
            else (Inl (Panic ''index out of range''), s))"

definition makeChildBracket ::
  "('w, 'f) manager \<Rightarrow> 'f stdlib \<Rightarrow> 'f Bracket \<Rightarrow> string \<Rightarrow> int \<Rightarrow> 'f \<Rightarrow> 'f HyperBandParameters \<Rightarrow>
     'w mworld \<Rightarrow> (failure + string list \<times> Trial option list) \<times> 'w mworld" where
  "makeChildBracket M F parent studyId n r_i hbparam s =
    (case invoke (M_GetStudy studyId) (GetStudy M studyId) s of
       (Inl err, s) \<Rightarrow> (Inl (Returned err), s)
     | (Inr sconf, s) \<Rightarrow>
    (case (if OptimizationType sconf = OptimizationType_MINIMIZE then slice_from parent n
           else if OptimizationType sconf = OptimizationType_MAXIMIZE then slice_to parent n
           else Inr []) of
       Inl e \<Rightarrow> (Inl e, s)
     | Inr child \<Rightarrow>
    (case invoke (M_GetTrials studyId) (GetTrials M studyId) s of
       (Inl err, s) \<Rightarrow> (Inl (Returned err), s)
     | (Inr trials, s) \<Rightarrow>
         if n < 0 then (Inl (Panic ''makeslice: len out of range''), s)
         else childLoop M F studyId (ResourceName hbparam)
                (foldl (\<lambda>rtype pc. if pc_Name pc = ResourceName hbparam then pc_Type pc else rtype)
                   ParameterType_UNKNOWN_TYPE (Configs sconf))
                r_i 0 child trials (replicate (nat n) []) (replicate (nat n) None) s)))"

subsection \<open>purseSuggestionParameters, saveSuggestionParameters\<close>

definition setParameter ::
  "'f stdlib \<Rightarrow> 'f HyperBandParameters \<Rightarrow> SuggestionParameter \<Rightarrow> 'f HyperBandParameters" where
  "setParameter F p sp =
    (if sp_Name sp = ''eta'' then p \<lparr> eta := ParseFloat F (sp_Value sp) \<rparr>
     else if sp_Name sp = ''r_l'' then p \<lparr> r_l := ParseFloat F (sp_Value sp) \<rparr>
     else if sp_Name sp = ''ResourceName'' then p \<lparr> ResourceName := sp_Value sp \<rparr>
     else if sp_Name sp = ''ObjectiveValueName'' then p \<lparr> ObjectiveValueName := sp_Value sp \<rparr>
     else if sp_Name sp = ''b_l'' then p \<lparr> b_l := ParseFloat F (sp_Value sp) \<rparr>
     else if sp_Name sp = ''sMax'' then p \<lparr> sMax := Atoi (sp_Value sp) \<rparr>
     else if sp_Name sp = ''r'' then p \<lparr> hb_r := ParseFloat F (sp_Value sp) \<rparr>
     else if sp_Name sp = ''n'' then p \<lparr> hb_n := Atoi (sp_Value sp) \<rparr>
     else if sp_Name sp = ''shloopitr'' then p \<lparr> shloopitr := Atoi (sp_Value sp) \<rparr>
     else if sp_Name sp = ''currentS'' then p \<lparr> currentS := Atoi (sp_Value sp) \<rparr>
     else if sp_Name sp = ''evaluatingTrials''
       then p \<lparr> evaluatingTrials := Split (sp_Value sp) CHR '','' \<rparr>
     else p)"

definition unsetParameters :: "'f stdlib \<Rightarrow> 'f HyperBandParameters" where
  "unsetParameters F =
    \<lparr> eta = float64 F (- 1), sMax = - 1, b_l = float64 F (- 1), r_l = float64 F (- 1),
      hb_r = float64 F (- 1), hb_n = - 1, shloopitr = - 1, currentS = - 1,
      ResourceName = [], ObjectiveValueName = [], evaluatingTrials = [] \<rparr>"

text \<open>The defaults derived after the required fields and the objective name are settled
  (the tail of \<^verbatim>\<open>purseSuggestionParameters\<close>, in its order).\<close>

definition deriveDefaults :: "'f stdlib \<Rightarrow> 'f HyperBandParameters \<Rightarrow> 'f HyperBandParameters" where
  "deriveDefaults F p =
    (let p = (if sMax p = - 1
              then p \<lparr> sMax := to_int F (math_Trunc F (f_div F (math_Log F (r_l p)) (math_Log F (eta p)))) \<rparr>
              else p);
         p = (if f_eq F (b_l p) (float64 F (- 1))
              then p \<lparr> b_l := f_mul F (float64 F (sMax p + 1)) (r_l p) \<rparr>
              else p);
         p = (if hb_n p = - 1
              then p \<lparr> hb_n := to_int F (math_Ceil F
                     (f_mul F (f_div F (b_l p) (r_l p))
                        (f_div F (math_Pow F (eta p) (float64 F (sMax p))) (float64 F (sMax p + 1))))) \<rparr>
              else p);
         p = (if currentS p = - 1 then p \<lparr> currentS := sMax p \<rparr> else p);
         p = (if shloopitr p = - 1 then p \<lparr> shloopitr := 0 \<rparr> else p);
         p = (if f_eq F (hb_r p) (float64 F (- 1))
              then p \<lparr> hb_r := f_mul F (r_l p) (math_Pow F (eta p) (float64 F (- sMax p))) \<rparr>
              else p)
     in p)"

definition purseSuggestionParameters ::
  "('w, 'f) manager \<Rightarrow> 'f stdlib \<Rightarrow> string \<Rightarrow> SuggestionParameter list \<Rightarrow> 'w mworld \<Rightarrow>
     (failure + 'f HyperBandParameters) \<times> 'w mworld" where
  "purseSuggestionParameters M F studyId sparam s =
    (let p = foldl (setParameter F) (unsetParameters F) sparam
     in if f_le F (r_l p) (float64 F 0) \<or> ResourceName p = []
        then (Inl (Returned (Error ''Suggestion Parameter set Error'')), s)
        else
          (let p = (if f_le F (eta p) (float64 F 0) then p \<lparr> eta := float64 F 3 \<rparr> else p)
           in if ObjectiveValueName p = []
              then (case invoke (M_GetStudy studyId) (GetStudy M studyId) s of
                      (Inl err, s) \<Rightarrow> (Inl (Returned err), s)
                    | (Inr sconf, s) \<Rightarrow>
                        (Inr (deriveDefaults F (p \<lparr> ObjectiveValueName := sc_ObjectiveValueName sconf \<rparr>)), s))
              else (Inr (deriveDefaults F p), s)))"

definition encodeParameters :: "'f stdlib \<Rightarrow> 'f HyperBandParameters \<Rightarrow> SuggestionParameter list" where
  "encodeParameters F hbparam =
    [\<lparr> sp_Name = ''eta'', sp_Value = FormatFloat F (eta hbparam) \<rparr>,
     \<lparr> sp_Name = ''sMax'', sp_Value = Itoa (sMax hbparam) \<rparr>,
     \<lparr> sp_Name = ''b_l'', sp_Value = FormatFloat F (b_l hbparam) \<rparr>,
     \<lparr> sp_Name = ''r_l'', sp_Value = FormatFloat F (r_l hbparam) \<rparr>,
     \<lparr> sp_Name = ''r'', sp_Value = FormatFloat F (hb_r hbparam) \<rparr>,
     \<lparr> sp_Name = ''shloopitr'', sp_Value = Itoa (shloopitr hbparam) \<rparr>,
     \<lparr> sp_Name = ''n'', sp_Value = Itoa (hb_n hbparam) \<rparr>,
     \<lparr> sp_Name = ''currentS'', sp_Value = Itoa (currentS hbparam) \<rparr>,
     \<lparr> sp_Name = ''ResourceName'', sp_Value = ResourceName hbparam \<rparr>,
     \<lparr> sp_Name = ''evaluatingTrials'', sp_Value = Join (evaluatingTrials hbparam) '','' \<rparr>]"

definition saveSuggestionParameters ::
  "('w, 'f) manager \<Rightarrow> 'f stdlib \<Rightarrow> string \<Rightarrow> string \<Rightarrow> string \<Rightarrow> 'f HyperBandParameters \<Rightarrow>
     'w mworld \<Rightarrow> go_error option \<times> 'w mworld" where
  "saveSuggestionParameters M F studyId algorithm paramId hbparam s =
     invoke (M_SetSuggestionParameters studyId algorithm paramId (encodeParameters F hbparam))
       (SetSuggestionParameters M studyId algorithm paramId (encodeParameters F hbparam)) s"

subsection \<open>evalWorkers\<close>

text \<open>The inner loop over the metrics log sets of one trial; \<open>Inr None\<close> is the return
  \<^verbatim>\<open>nil, nil\<close> at a worker that is not completed.  \<^verbatim>\<open>ml.MetricsLogs[0]\<close> and the
  last of its \<^verbatim>\<open>Values\<close> are read without a check of the lengths.\<close>

fun sumLastValues :: "'f stdlib \<Rightarrow> MetricsLogSet list \<Rightarrow> 'f \<Rightarrow> failure + 'f option" where
  "sumLastValues F [] vs = Inr (Some vs)"
| "sumLastValues F (ml # mls) vs =
    (if WorkerStatus ml \<noteq> State_COMPLETED then Inr None
     else (case MetricsLogs ml of
             [] \<Rightarrow> Inl (Panic ''index out of range'')
           | ml0 # _ \<Rightarrow>
               if Values ml0 = [] then Inl (Panic ''index out of range'')
               else sumLastValues F mls (f_add F vs (ParseFloat F (last (Values ml0))))))"

definition bracket_append :: "'f stdlib \<Rightarrow> 'f Bracket \<Rightarrow> 'f Evals \<Rightarrow> 'f Bracket" where
  "bracket_append F b e =
    (case spare b of
       [] \<Rightarrow> \<lparr> items = items b @ [e],
              spare = replicate (append_spare F (length (items b)))
                        \<lparr> ev_id = [], ev_value = float64 F 0 \<rparr> \<rparr>
     | _ # sp \<Rightarrow> \<lparr> items = items b @ [e], spare = sp \<rparr>)"

fun evalLoop ::
  "('w, 'f) manager \<Rightarrow> 'f stdlib \<Rightarrow> string \<Rightarrow> string \<Rightarrow> string list \<Rightarrow> 'f Bracket \<Rightarrow> 'w mworld \<Rightarrow>
     (failure + 'f Bracket option) \<times> 'w mworld" where
  "evalLoop M F studyId objName [] bracket s = (Inr (Some bracket), s)"
| "evalLoop M F studyId objName (tid # tids) bracket s =
    (case invoke (M_GetWorkers studyId tid) (GetWorkers M studyId tid) s of
       (Inl err, s) \<Rightarrow> (Inl (Returned err), s)
     | (Inr workers, s) \<Rightarrow>
    (case invoke (M_GetMetrics studyId (map WorkerId workers) [objName])
            (GetMetrics M studyId (map WorkerId workers) [objName]) s of
       (Inl err, s) \<Rightarrow> (Inl (Returned err), s)
     | (Inr sets, s) \<Rightarrow>
    (case sumLastValues F sets (float64 F 0) of
       Inl e \<Rightarrow> (Inl e, s)
     | Inr None \<Rightarrow> (Inr None, s)
     | Inr (Some vs) \<Rightarrow>
    (case workers of
       [] \<Rightarrow> (Inr None, s)
     | w0 # _ \<Rightarrow>
         evalLoop M F studyId objName tids
           (bracket_append F bracket
              \<lparr> ev_id = w_TrialId w0,
                ev_value = f_div F vs (float64 F (int (length workers))) \<rparr>) s))))"

text \<open>\<^verbatim>\<open>Bracket.Less\<close>: the order of the sort is descending by value.\<close>

definition Less :: "'f stdlib \<Rightarrow> 'f Evals \<Rightarrow> 'f Evals \<Rightarrow> bool" where
  "Less F a b = f_gt F (ev_value a) (ev_value b)"

definition evalWorkers ::
  "('w, 'f) manager \<Rightarrow> 'f stdlib \<Rightarrow> string \<Rightarrow> 'f HyperBandParameters \<Rightarrow> 'w mworld \<Rightarrow>
     (failure + 'f Bracket option) \<times> 'w mworld" where
  "evalWorkers M F studyId hbparam s =
    (case evalLoop M F studyId (ObjectiveValueName hbparam) (evaluatingTrials hbparam)
            \<lparr> items = [], spare = [] \<rparr> s of
       (Inl e, s) \<Rightarrow> (Inl e, s)
     | (Inr None, s) \<Rightarrow> (Inr None, s)
     | (Inr (Some bracket), s) \<Rightarrow>
         (Inr (Some (bracket \<lparr> items := sort_Sort F (Less F) (items bracket) \<rparr>)), s))"

subsection \<open>makeBracket and the loop parameters\<close>

text \<open>\<open>Inr None\<close> is the return \<^verbatim>\<open>nil, nil, nil\<close>.\<close>

definition makeBracket ::
  "('w, 'f) manager \<Rightarrow> 'f stdlib \<Rightarrow> string \<Rightarrow> int \<Rightarrow> 'f \<Rightarrow> 'f HyperBandParameters \<Rightarrow> 'w mworld \<Rightarrow>
     (failure + (string list \<times> Trial option list) option) \<times> 'w mworld" where
  "makeBracket M F studyId n r hbparam s =
    (if length (evaluatingTrials hbparam) = 0 \<or> shloopitr hbparam = 0
     then (case makeMasterBracket M F studyId n r hbparam s of
             (Inl e, s) \<Rightarrow> (Inl e, s)
           | (Inr res, s) \<Rightarrow> (Inr (Some res), s))
     else (case evalWorkers M F studyId hbparam s of
             (Inl e, s) \<Rightarrow> (Inl e, s)
           | (Inr None, s) \<Rightarrow> (Inr None, s)
           | (Inr (Some b), s) \<Rightarrow>
               (case makeChildBracket M F b studyId n r hbparam s of
                  (Inl e, s) \<Rightarrow> (Inl e, s)
                | (Inr res, s) \<Rightarrow> (Inr (Some res), s))))"

definition hbLoopParamUpdate :: "'f stdlib \<Rightarrow> 'f HyperBandParameters \<Rightarrow> 'f HyperBandParameters" where
  "hbLoopParamUpdate F hbparam =
     hbparam \<lparr> shloopitr := 0,
       hb_n := to_int F (math_Trunc F
                 (f_mul F (f_div F (b_l hbparam) (r_l hbparam))
                    (f_div F (math_Pow F (eta hbparam) (float64 F (currentS hbparam)))
                       (float64 F (currentS hbparam + 1))))),
       hb_r := f_mul F (r_l hbparam) (math_Pow F (eta hbparam) (float64 F (- currentS hbparam))) \<rparr>"

definition getLoopParam :: "'f stdlib \<Rightarrow> 'f HyperBandParameters \<Rightarrow> int \<times> 'f" where
  "getLoopParam F hbparam =
     (to_int F (math_Trunc F
        (f_mul F (float64 F (hb_n hbparam))
           (math_Pow F (eta hbparam) (float64 F (- shloopitr hbparam))))),
      f_mul F (hb_r hbparam) (math_Pow F (eta hbparam) (float64 F (shloopitr hbparam))))"

definition shLoopParamUpdate :: "'f HyperBandParameters \<Rightarrow> 'f HyperBandParameters" where
  "shLoopParamUpdate hbparam =
    (let hbparam = hbparam \<lparr> shloopitr := shloopitr hbparam + 1 \<rparr>
     in if shloopitr hbparam > currentS hbparam
        then hbparam \<lparr> currentS := currentS hbparam - 1 \<rparr>
        else hbparam)"

subsection \<open>GetSuggestions\<close>

text \<open>The reply of a run that returns a nil error is its list of trials; an entry of the
  list is a pointer and may be nil.  The error of \<^verbatim>\<open>saveSuggestionParameters\<close> is
  assigned and never read.\<close>

definition GetSuggestions ::
  "('w, 'f) manager \<Rightarrow> 'f stdlib \<Rightarrow> GetSuggestionsRequest \<Rightarrow> 'w mworld \<Rightarrow>
     (failure + Trial option list) \<times> 'w mworld" where
  "GetSuggestions M F req s =
    (case quietly (Dial M) s of
       (Some err, s) \<Rightarrow> (Inl (Fatal ''could not connect''), s)
     | (None, s) \<Rightarrow>
    (case invoke (M_GetSuggestionParameters (in_ParamId req))
            (GetSuggestionParameters M (in_ParamId req)) s of
       (Inl err, s) \<Rightarrow> (Inl (Fatal ''GetParameter failed''), s)
     | (Inr sparam, s) \<Rightarrow>
    (case purseSuggestionParameters M F (in_StudyId req) sparam s of
       (Inl e, s) \<Rightarrow> (Inl e, s)
     | (Inr hbparam, s) \<Rightarrow>
         if currentS hbparam \<le> 0 then (Inr [], s)
         else
          (let hbparam = (if shloopitr hbparam > currentS hbparam
                          then hbLoopParamUpdate F hbparam else hbparam)
           in case makeBracket M F (in_StudyId req) (fst (getLoopParam F hbparam))
                     (snd (getLoopParam F hbparam)) hbparam s of
                (Inl e, s) \<Rightarrow> (Inl e, s)
              | (Inr None, s) \<Rightarrow>
                  (Inl (Returned (FailedPrecondition ''Previous workers are not completed.'')), s)
              | (Inr (Some (tids, ts)), s) \<Rightarrow>
                  (case saveSuggestionParameters M F (in_StudyId req) (in_SuggestionAlgorithm req)
                          (in_ParamId req)
                          (shLoopParamUpdate (hbparam \<lparr> evaluatingTrials := tids \<rparr>)) s of
                     (_, s) \<Rightarrow> (Inr ts, s))))))"

section \<open>Worker lifecycle controller (pkg/manager/worker/kubernetes)\<close>

subsection \<open>Data\<close>

record Toleration =
  tol_Key :: string
  tol_Operator :: string
  tol_Value :: string
  tol_Effect :: string

record MountConf =
  Pvc :: string
  Path :: string

text \<open>\<^verbatim>\<open>api.WorkerConfig\<close>.  Its declaration is generated code outside the two source
  files; \<open>Cpu\<close> and \<open>Gpu\<close> are integers that the code widens with \<^verbatim>\<open>int(...)\<close>, the
  two maps are Go maps, \<open>Mount\<close> is a pointer that may be nil.\<close>

record WorkerConfig =
  Image :: string
  Command :: "string list"
  Gpu :: int
  Scheduler :: string
  Mount :: "MountConf option"
  PullSecret :: string
  Cpu :: int
  Memory :: string
  Labels :: "string \<rightharpoonup> string"
  Annotations :: "string \<rightharpoonup> string"
  Tolerations :: "Toleration list"

record Volume =
  vol_Name :: string
  vol_ClaimName :: string

record VolumeMount =
  vm_Name :: string
  vm_MountPath :: string

text \<open>The container of the pod template; \<open>'q\<close> is \<^verbatim>\<open>resource.Quantity\<close>.\<close>

record 'q Container =
  c_Image :: string
  c_Name :: string
  c_Command :: "string list"
  c_ImagePullPolicy :: string
  c_VolumeMounts :: "VolumeMount list"
  c_Limits :: "string \<rightharpoonup> 'q"

text \<open>\<^verbatim>\<open>batchv1.Job\<close>, flattened to the fields the generator sets.\<close>

record 'q Job =
  job_Kind :: string
  job_Name :: string
  job_Labels :: "string \<rightharpoonup> string"
  tmpl_Labels :: "string \<rightharpoonup> string"
  tmpl_Annotations :: "string \<rightharpoonup> string"
  spec_SchedulerName :: string
  spec_Containers :: "'q Container list"
  spec_RestartPolicy :: string
  spec_ImagePullSecrets :: "string list"
  spec_Tolerations :: "Toleration list"
  spec_Volumes :: "Volume list"

record Pod =
  pod_Name :: string
  pod_Phase :: string

subsection \<open>The cluster and the database\<close>

text \<open>
  The cluster orchestrator and the database are outside the program.  Their state is a
  value of an arbitrary type \<open>'w\<close>; each operation of the two client interfaces reads and
  changes it and gives the reply.  Every operation the program invokes is recorded, in
  order, so that a theorem can say which requests a run has issued.
\<close>

datatype 'q kube_call =
    Pods_List string
  | Pods_GetLogs string "nat option"
  | Pods_Delete string
  | Jobs_Get string
  | Jobs_Delete string
  | Jobs_Create "'q Job"
  | DB_GetWorkerList string string
  | DB_UpdateWorker string State
  | DB_GetWorkerTimestamp string
  | DB_StoreWorkerLogs string "string list"

record ('w, 'q) kube =
  pods_List :: "string \<Rightarrow> 'w \<Rightarrow> (Pod list \<times> go_error option) \<times> 'w"
  pods_GetLogs :: "string \<Rightarrow> nat option \<Rightarrow> 'w \<Rightarrow> (go_error + string) \<times> 'w"
  pods_Delete :: "string \<Rightarrow> 'w \<Rightarrow> go_error option \<times> 'w"
  jobs_Get :: "string \<Rightarrow> 'w \<Rightarrow> (go_error + int) \<times> 'w"
  jobs_Delete :: "string \<Rightarrow> 'w \<Rightarrow> go_error option \<times> 'w"
  jobs_Create :: "'q Job \<Rightarrow> 'w \<Rightarrow> (go_error + string) \<times> 'w"
  db_GetWorkerList :: "string \<Rightarrow> string \<Rightarrow> 'w \<Rightarrow> (go_error + Worker list) \<times> 'w"
  db_UpdateWorker :: "string \<Rightarrow> State \<Rightarrow> 'w \<Rightarrow> go_error option \<times> 'w"
  db_GetWorkerTimestamp :: "string \<Rightarrow> 'w \<Rightarrow> (go_error + nat option) \<times> 'w"
  db_StoreWorkerLogs :: "string \<Rightarrow> string list \<Rightarrow> 'w \<Rightarrow> go_error option \<times> 'w"

type_synonym ('w, 'q) kworld = "'w \<times> 'q kube_call list"

subsection \<open>genJobManifest\<close>

definition katib_labels :: "string \<Rightarrow> (string \<rightharpoonup> string)" where
  "katib_labels wid = [''katib-version'' \<mapsto> ''alpha-0.2.0'', ''worker-id'' \<mapsto> wid]"

definition genJobManifest ::
  "(string \<Rightarrow> go_error + 'q) \<Rightarrow> string \<Rightarrow> WorkerConfig \<Rightarrow> go_error + 'q Job" where
  "genJobManifest ParseQuantity wid conf =
    (let container = \<lparr> c_Image = Image conf, c_Name = wid, c_Command = Command conf,
                        c_ImagePullPolicy = ''Always'', c_VolumeMounts = [],
                        c_Limits = Map.empty \<rparr>;
         labels = (if Labels conf \<noteq> Map.empty then katib_labels wid ++ Labels conf
                   else katib_labels wid);
         annotations = (if Annotations conf \<noteq> Map.empty then Annotations conf
                        else Map.empty);
         tolerations = (if length (Tolerations conf) > 0
                        then map (\<lambda>t. \<lparr> tol_Key = tol_Key t, tol_Operator = tol_Operator t,
                                        tol_Value = tol_Value t, tol_Effect = tol_Effect t \<rparr>)
                                 (Tolerations conf)
                        else []);
         mounted = (case Mount conf of
                      None \<Rightarrow> False
                    | Some m \<Rightarrow> Pvc m \<noteq> [] \<and> Path m \<noteq> []);
         volumes = (case Mount conf of
                      None \<Rightarrow> []
                    | Some m \<Rightarrow> if mounted
                        then [\<lparr> vol_Name = ''pvc-mount-point'', vol_ClaimName = Pvc m \<rparr>]
                        else []);
         container = (case Mount conf of
                      None \<Rightarrow> container
                    | Some m \<Rightarrow> if mounted
                        then container \<lparr> c_VolumeMounts :=
                               [\<lparr> vm_Name = ''pvc-mount-point'', vm_MountPath = Path m \<rparr>] \<rparr>
                        else container)
     in case ParseQuantity (Itoa (Cpu conf)) of
          Inl err \<Rightarrow> Inl err
        | Inr cpuReq \<Rightarrow>
     (case ParseQuantity (Memory conf) of
          Inl err \<Rightarrow> Inl err
        | Inr memoryReq \<Rightarrow>
     (let container = container \<lparr> c_Limits := [''cpu'' \<mapsto> cpuReq, ''memory'' \<mapsto> memoryReq] \<rparr>;
          template = \<lparr> job_Kind = ''Job'', job_Name = wid, job_Labels = labels,
                       tmpl_Labels = labels, tmpl_Annotations = annotations,
                       spec_SchedulerName = Scheduler conf, spec_Containers = [container],
                       spec_RestartPolicy = ''OnFailure'',
                       spec_ImagePullSecrets = [PullSecret conf],
                       spec_Tolerations = tolerations, spec_Volumes = volumes \<rparr>
      in if Gpu conf > 0
         then (case ParseQuantity (Itoa (Gpu conf)) of
                 Inl err \<Rightarrow> Inl err
               | Inr gpuReq \<Rightarrow>
                   Inr (template \<lparr> spec_Containers :=
                          [container \<lparr> c_Limits := (c_Limits container)(''nvidia.com/gpu'' \<mapsto> gpuReq) \<rparr>] \<rparr>))
         else Inr template)))"

subsection \<open>StoreWorkerLog, IsWorkerComplete\<close>

definition StoreWorkerLog ::
  "('w, 'q) kube \<Rightarrow> string \<Rightarrow> ('w, 'q) kworld \<Rightarrow> go_error option \<times> ('w, 'q) kworld" where
  "StoreWorkerLog d wID s =
    (case invoke (Pods_List (''job-name='' @ wID)) (pods_List d (''job-name='' @ wID)) s of
       ((pl, _), s) \<Rightarrow>
    (case pl of
       [] \<Rightarrow> (Some (Error (''No Pods are found in Job '' @ wID)), s)
     | pod0 # _ \<Rightarrow>
    (case invoke (DB_GetWorkerTimestamp wID) (db_GetWorkerTimestamp d wID) s of
       (Inl err, s) \<Rightarrow> (Some err, s)
     | (Inr mt, s) \<Rightarrow>
    (case invoke (Pods_GetLogs (pod_Name pod0) mt) (pods_GetLogs d (pod_Name pod0) mt) s of
       (Inl err, s) \<Rightarrow> (Some err, s)
     | (Inr logs, s) \<Rightarrow>
         if length logs = 0 then (None, s)
         else invoke (DB_StoreWorkerLogs wID (Split logs CHR 0x0A))
                (db_StoreWorkerLogs d wID (Split logs CHR 0x0A)) s))))"

definition IsWorkerComplete ::
  "('w, 'q) kube \<Rightarrow> string \<Rightarrow> ('w, 'q) kworld \<Rightarrow> (go_error + bool) \<times> ('w, 'q) kworld" where
  "IsWorkerComplete d wID s =
    (case invoke (Jobs_Get wID) (jobs_Get d wID) s of
       (Inl err, s) \<Rightarrow> (Inl err, s)
     | (Inr succeeded, s) \<Rightarrow>
         if succeeded = 0 then (Inr False, s)
         else
    (case invoke (Pods_List (''job-name='' @ wID)) (pods_List d (''job-name='' @ wID)) s of
       ((pl, _), s) \<Rightarrow>
    (case pl of
       [] \<Rightarrow> (Inl (Error (''No Pods are found in Job '' @ wID)), s)
     | pod0 # _ \<Rightarrow>
         if pod_Phase pod0 = ''Succeeded'' then (Inr True, s) else (Inr False, s))))"

subsection \<open>The teardown of one worker\<close>

text \<open>
  The three teardown paths delete the job, list its pods and delete
  \<^verbatim>\<open>pl.Items[0]\<close>.  Indexing an empty \<^verbatim>\<open>Items\<close> is a run-time panic.
\<close>

definition deleteJobAndPod ::
  "('w, 'q) kube \<Rightarrow> string \<Rightarrow> ('w, 'q) kworld \<Rightarrow> (failure + unit) \<times> ('w, 'q) kworld" where
  "deleteJobAndPod d wid s =
    (case invoke (Jobs_Delete wid) (jobs_Delete d wid) s of (_, s) \<Rightarrow>
    (case invoke (Pods_List (''job-name='' @ wid)) (pods_List d (''job-name='' @ wid)) s of
       ((pl, _), s) \<Rightarrow>
    (case pl of
       [] \<Rightarrow> (Inl (Panic ''index out of range''), s)
     | pod0 # _ \<Rightarrow>
    (case invoke (Pods_Delete (pod_Name pod0)) (pods_Delete d (pod_Name pod0)) s of
       (_, s) \<Rightarrow> (Inr (), s)))))"

subsection \<open>UpdateWorkerStatus, SpawnWorker, CleanWorkers, StopWorkers\<close>

text \<open>A \<^verbatim>\<open>for ... range\<close> loop whose body may return from the function.\<close>

fun forEach :: "('a \<Rightarrow> 's \<Rightarrow> (failure + unit) \<times> 's) \<Rightarrow> 'a list \<Rightarrow> 's \<Rightarrow> (failure + unit) \<times> 's" where
  "forEach body [] s = (Inr (), s)"
| "forEach body (x # xs) s =
     (case body x s of
        (Inl e, s') \<Rightarrow> (Inl e, s')
      | (Inr _, s') \<Rightarrow> forEach body xs s')"

definition updateWorker ::
  "('w, 'q) kube \<Rightarrow> Worker \<Rightarrow> ('w, 'q) kworld \<Rightarrow> (failure + unit) \<times> ('w, 'q) kworld" where
  "updateWorker d w s =
    (if Status w = State_PENDING then
       (case StoreWorkerLog d (WorkerId w) s of
          (Some err, s) \<Rightarrow> (Inr (), s)
        | (None, s) \<Rightarrow>
       (case invoke (DB_UpdateWorker (WorkerId w) State_RUNNING) (db_UpdateWorker d (WorkerId w) State_RUNNING) s of
          (Some err, s) \<Rightarrow> (Inl (Returned err), s)
        | (None, s) \<Rightarrow> (Inr (), s)))
     else if Status w = State_RUNNING then
       (case IsWorkerComplete d (WorkerId w) s of
          (Inl err, s) \<Rightarrow> (Inl (Returned err), s)
        | (Inr c, s) \<Rightarrow>
       (case StoreWorkerLog d (WorkerId w) s of
          (Some err, s) \<Rightarrow> (Inl (Returned err), s)
        | (None, s) \<Rightarrow>
           if c then
             (case invoke (DB_UpdateWorker (WorkerId w) State_COMPLETED)
                     (db_UpdateWorker d (WorkerId w) State_COMPLETED) s of
                (Some err, s) \<Rightarrow> (Inl (Returned err), s)
              | (None, s) \<Rightarrow> deleteJobAndPod d (WorkerId w) s)
           else (Inr (), s)))
     else (Inr (), s))"

definition UpdateWorkerStatus ::
  "('w, 'q) kube \<Rightarrow> string \<Rightarrow> ('w, 'q) kworld \<Rightarrow> (failure + unit) \<times> ('w, 'q) kworld" where
  "UpdateWorkerStatus d studyId s =
    (case invoke (DB_GetWorkerList studyId []) (db_GetWorkerList d studyId []) s of
       (Inl err, s) \<Rightarrow> (Inl (Returned err), s)
     | (Inr ws, s) \<Rightarrow> forEach (updateWorker d) ws s)"

definition SpawnWorker ::
  "('w, 'q) kube \<Rightarrow> (string \<Rightarrow> go_error + 'q) \<Rightarrow> string \<Rightarrow> WorkerConfig \<Rightarrow>
     ('w, 'q) kworld \<Rightarrow> go_error option \<times> ('w, 'q) kworld" where
  "SpawnWorker d ParseQuantity wid workerConf s =
    (case genJobManifest ParseQuantity wid workerConf of
       Inl err \<Rightarrow> (Some err, s)
     | Inr job \<Rightarrow>
    (case invoke (Jobs_Create job) (jobs_Create d job) s of
       (Inl err, s) \<Rightarrow> (Some err, s)
     | (Inr result, s) \<Rightarrow> (None, s)))"

definition cleanWorker ::
  "('w, 'q) kube \<Rightarrow> Worker \<Rightarrow> ('w, 'q) kworld \<Rightarrow> (failure + unit) \<times> ('w, 'q) kworld" where
  "cleanWorker d w s =
    (if Status w = State_RUNNING then
       (case deleteJobAndPod d (WorkerId w) s of
          (Inl e, s) \<Rightarrow> (Inl e, s)
        | (Inr _, s) \<Rightarrow>
       (case invoke (DB_UpdateWorker (WorkerId w) State_KILLED) (db_UpdateWorker d (WorkerId w) State_KILLED) s of
          (Some err, s) \<Rightarrow> (Inl (Returned err), s)
        | (None, s) \<Rightarrow> (Inr (), s)))
     else (Inr (), s))"

definition CleanWorkers ::
  "('w, 'q) kube \<Rightarrow> string \<Rightarrow> ('w, 'q) kworld \<Rightarrow> (failure + unit) \<times> ('w, 'q) kworld" where
  "CleanWorkers d studyId s =
    (case invoke (DB_GetWorkerList studyId []) (db_GetWorkerList d studyId []) s of
       (Inl err, s) \<Rightarrow> (Inl (Returned err), s)
     | (Inr ws, s) \<Rightarrow> forEach (cleanWorker d) ws s)"

text \<open>The body of the inner loop of \<^verbatim>\<open>StopWorkers\<close>.  Here the error of the pod
  listing is returned, before \<^verbatim>\<open>pl.Items[0]\<close> is read.\<close>

definition stopWorker ::
  "('w, 'q) kube \<Rightarrow> bool \<Rightarrow> Worker \<Rightarrow> string \<Rightarrow> ('w, 'q) kworld \<Rightarrow>
     (failure + unit) \<times> ('w, 'q) kworld" where
  "stopWorker d iscomplete w wid s =
    (if Status w = State_RUNNING \<and> WorkerId w = wid then
       (case invoke (Jobs_Delete wid) (jobs_Delete d wid) s of (_, s) \<Rightarrow>
       (case invoke (Pods_List (''job-name='' @ wid)) (pods_List d (''job-name='' @ wid)) s of
          ((pl, Some err), s) \<Rightarrow> (Inl (Returned err), s)
        | ((pl, None), s) \<Rightarrow>
       (case pl of
          [] \<Rightarrow> (Inl (Panic ''index out of range''), s)
        | pod0 # _ \<Rightarrow>
       (case invoke (Pods_Delete (pod_Name pod0)) (pods_Delete d (pod_Name pod0)) s of
          (_, s) \<Rightarrow>
       (case (if iscomplete
              then invoke (DB_UpdateWorker wid State_COMPLETED) (db_UpdateWorker d wid State_COMPLETED) s
              else invoke (DB_UpdateWorker wid State_KILLED) (db_UpdateWorker d wid State_KILLED) s) of
          (Some err, s) \<Rightarrow> (Inl (Returned err), s)
        | (None, s) \<Rightarrow> (Inr (), s))))))
     else (Inr (), s))"

definition StopWorkers ::
  "('w, 'q) kube \<Rightarrow> string \<Rightarrow> string list \<Rightarrow> bool \<Rightarrow> ('w, 'q) kworld \<Rightarrow>
     (failure + unit) \<times> ('w, 'q) kworld" where
  "StopWorkers d studyId wIDs iscomplete s =
    (case invoke (DB_GetWorkerList studyId []) (db_GetWorkerList d studyId []) s of
       (Inl err, s) \<Rightarrow> (Inl (Returned err), s)
     | (Inr ws, s) \<Rightarrow>
         forEach (\<lambda>w. forEach (stopWorker d iscomplete w) wIDs) ws s)"

section \<open>Concrete surroundings for runs of the model\<close>

text \<open>
  The theorems below hold for every library record, every Manager and every cluster.
  To run the model on a concrete input, the following instances fix them.

  \<open>exact_stdlib\<close> reads a finite \<^verbatim>\<open>float64\<close> as the real number it denotes and
  computes without rounding.  Its \<open>FormatFloat\<close> writes four decimals, rounding half to
  even; its \<open>ParseFloat\<close> reads an optional sign, digits and an optional fraction, and
  gives 0 for any other text.  It serves on the plain decimal texts the program itself
  writes.
\<close>

definition round_half_even :: "real \<Rightarrow> int" where
  "round_half_even x =
    (if x - of_int \<lfloor>x\<rfloor> < 1 / 2 then \<lfloor>x\<rfloor>
     else if x - of_int \<lfloor>x\<rfloor> > 1 / 2 then \<lfloor>x\<rfloor> + 1
     else if even \<lfloor>x\<rfloor> then \<lfloor>x\<rfloor> else \<lfloor>x\<rfloor> + 1)"

definition format_f4 :: "real \<Rightarrow> string" where
  "format_f4 x =
    (let q = nat (round_half_even (\<bar>x\<bar> * 10000));
         frac = utoa (q mod 10000)
     in (if x < 0 then ''-'' else []) @ utoa (q div 10000) @ ''.''
          @ drop (length frac) ''0000'' @ frac)"

definition parse_decimal :: "string \<Rightarrow> real" where
  "parse_decimal s =
    (let neg = (case s of [] \<Rightarrow> False | c # cs \<Rightarrow> c = CHR ''-'');
         body = (case s of [] \<Rightarrow> [] | c # cs \<Rightarrow> if c = CHR ''-'' \<or> c = CHR ''+'' then cs else s);
         ip = takeWhile (\<lambda>c. c \<noteq> CHR ''.'') body;
         fp = drop 1 (dropWhile (\<lambda>c. c \<noteq> CHR ''.'') body)
     in if ip @ fp = [] \<or> \<not> list_all is_digit (ip @ fp) then 0
        else (if neg then - 1 else 1)
             * (real (atou ip) + real (atou fp) / 10 ^ length fp))"

fun insert_by :: "('a \<Rightarrow> 'a \<Rightarrow> bool) \<Rightarrow> 'a \<Rightarrow> 'a list \<Rightarrow> 'a list" where
  "insert_by lt x [] = [x]"
| "insert_by lt x (y # ys) = (if lt y x then y # insert_by lt x ys else x # y # ys)"

definition sort_by :: "('a \<Rightarrow> 'a \<Rightarrow> bool) \<Rightarrow> 'a list \<Rightarrow> 'a list" where
  "sort_by lt xs = foldr (insert_by lt) xs []"

definition exact_stdlib :: "real stdlib" where
  "exact_stdlib =
    \<lparr> ParseFloat = parse_decimal,
      FormatFloat = format_f4,
      float64 = of_int,
      to_int = (\<lambda>x. if 0 \<le> x then \<lfloor>x\<rfloor> else \<lceil>x\<rceil>),
      f_add = (+), f_mul = (*), f_div = (/),
      f_le = (\<le>), f_eq = (=), f_gt = (>),
      math_Log = ln,
      math_Trunc = (\<lambda>x. if 0 \<le> x then of_int \<lfloor>x\<rfloor> else of_int \<lceil>x\<rceil>),
      math_Ceil = (\<lambda>x. of_int \<lceil>x\<rceil>),
      math_Pow = (\<lambda>x y. if y = of_int \<lfloor>y\<rfloor> then x powi \<lfloor>y\<rfloor> else x powr y),
      sort_Sort = sort_by,
      append_spare = (\<lambda>k. k - 1) \<rparr>"

text \<open>
  \<open>plain_manager\<close> is a Manager that answers every request from fixed tables and
  numbers the trials it registers: its state is the count of trials registered so far.
  Its sampler returns the lower bound.
\<close>

definition plain_manager ::
  "StudyConfig \<Rightarrow> Trial list \<Rightarrow> (string \<Rightarrow> go_error + Worker list) \<Rightarrow>
     (string list \<Rightarrow> go_error + MetricsLogSet list) \<Rightarrow> SuggestionParameter list \<Rightarrow>
     (nat, real) manager" where
  "plain_manager sconf trials workers metrics sparam =
    \<lparr> Dial = (\<lambda>w. (None, w)),
      GetStudy = (\<lambda>studyId w. (Inr sconf, w)),
      CreateTrial = (\<lambda>t w. (Inr (''trial-'' @ utoa w), Suc w)),
      GetTrials = (\<lambda>studyId w. (Inr trials, w)),
      GetWorkers = (\<lambda>studyId trialId w. (workers trialId, w)),
      GetMetrics = (\<lambda>studyId workerIds names w. (metrics workerIds, w)),
      GetSuggestionParameters = (\<lambda>paramId w. (Inr sparam, w)),
      SetSuggestionParameters = (\<lambda>studyId algorithm paramId sp w. (None, w)),
      IntRandom = (\<lambda>lo hi w. (lo, w)),
      DoubelRandom = (\<lambda>lo hi w. (lo, w)) \<rparr>"

text \<open>
  \<open>plain_cluster\<close> is a cluster and database that answer every request the same way:
  the pod listing with \<open>pods\<close>, the log fetch with \<open>logs\<close>, the worker list with
  \<open>ws\<close>; every job has succeeded once, no timestamp is stored, nothing fails.
\<close>

definition plain_cluster :: "Pod list \<Rightarrow> string \<Rightarrow> Worker list \<Rightarrow> (unit, string) kube" where
  "plain_cluster pods logs ws =
    \<lparr> pods_List = (\<lambda>selector w. ((pods, None), w)),
      pods_GetLogs = (\<lambda>name since w. (Inr logs, w)),
      pods_Delete = (\<lambda>name w. (None, w)),
      jobs_Get = (\<lambda>wid w. (Inr 1, w)),
      jobs_Delete = (\<lambda>wid w. (None, w)),
      jobs_Create = (\<lambda>job w. (Inr (job_Name job), w)),
      db_GetWorkerList = (\<lambda>studyId trialId w. (Inr ws, w)),
      db_UpdateWorker = (\<lambda>wid st w. (None, w)),
      db_GetWorkerTimestamp = (\<lambda>wid w. (Inr None, w)),
      db_StoreWorkerLogs = (\<lambda>wid ls w. (None, w)) \<rparr>"

text \<open>A quantity parser for runs: the quantity is its text, the empty text is refused.\<close>

definition text_quantity :: "string \<Rightarrow> go_error + string" where
  "text_quantity q = (if q = [] then Inl (Error ''quantities must match the regular expression'') else Inr q)"

text \<open>The worker config of scenario W1 and the manifest generated from it.\<close>

definition conf_W1 :: WorkerConfig where
  "conf_W1 = \<lparr> Image = ''mnist:latest'', Command = [''python'', ''train.py''], Gpu = 1,
     Scheduler = [], Mount = None, PullSecret = ''regcred'', Cpu = 2, Memory = ''4Gi'',
     Labels = Map.empty, Annotations = Map.empty, Tolerations = [] \<rparr>"

definition job_W1 :: "string Job" where
  "job_W1 =
     \<lparr> job_Kind = ''Job'', job_Name = ''w1'', job_Labels = katib_labels ''w1'',
       tmpl_Labels = katib_labels ''w1'', tmpl_Annotations = Map.empty,
       spec_SchedulerName = [],
       spec_Containers = [\<lparr> c_Image = ''mnist:latest'', c_Name = ''w1'',
          c_Command = [''python'', ''train.py''], c_ImagePullPolicy = ''Always'',
          c_VolumeMounts = [],
          c_Limits = [''cpu'' \<mapsto> ''2'', ''memory'' \<mapsto> ''4Gi'', ''nvidia.com/gpu'' \<mapsto> ''1''] \<rparr>],
       spec_RestartPolicy = ''OnFailure'', spec_ImagePullSecrets = [''regcred''],
       spec_Tolerations = [], spec_Volumes = [] \<rparr>"


section \<open>Notions used in the statements and proofs\<close>

text \<open>The parameter set a new trial of the child bracket takes from the reply \<open>trials\<close>
  for the survivor \<open>e\<close>.\<close>

definition inherited ::
  "'f stdlib \<Rightarrow> string \<Rightarrow> ParameterType \<Rightarrow> 'f \<Rightarrow> Trial list \<Rightarrow> 'f Evals \<Rightarrow> Parameter list" where
  "inherited F resName rtype r_i trials e =
    (case lastMatch trials (ev_id e) of
       None \<Rightarrow> []
     | Some j \<Rightarrow> rewriteResource F resName rtype r_i (ParameterSet (trials ! j)))"

text \<open>Two replies that differ only by rewritten resource parameters.\<close>

definition same_upto_rewrite ::
  "'f stdlib \<Rightarrow> string \<Rightarrow> ParameterType \<Rightarrow> 'f \<Rightarrow> Trial list \<Rightarrow> Trial list \<Rightarrow> bool" where
  "same_upto_rewrite F resName rtype r_i a b \<longleftrightarrow>
     map TrialId a = map TrialId b \<and>
     map (\<lambda>t. rewriteResource F resName rtype r_i (ParameterSet t)) a
       = map (\<lambda>t. rewriteResource F resName rtype r_i (ParameterSet t)) b"

text \<open>The two result slices of a bracket generator after the requests \<open>reqs\<close> were
  registered in order: entry \<open>j\<close> holds the \<open>j\<close>-th registered trial with the id the
  Manager issued for it, the entries beyond are the zero values of \<^verbatim>\<open>make\<close>.\<close>

definition filled :: "Trial list \<Rightarrow> string list \<Rightarrow> Trial option list \<Rightarrow> bool" where
  "filled reqs tids ts \<longleftrightarrow>
     length tids = length ts \<and> length reqs \<le> length ts \<and>
     (\<forall>j<length ts. if j < length reqs
                     then ts ! j = Some ((reqs ! j) \<lparr> TrialId := tids ! j \<rparr>)
                     else ts ! j = None \<and> tids ! j = [])"

text \<open>
  \<open>unready M studyId objName tid\<close>: whenever the Manager lists the workers of trial \<open>tid\<close>
  and reports the metrics of these workers, some log set of the report has a status
  other than COMPLETED.  \<open>series_present M studyId objName tids\<close>: in every such report
  for one of the trials \<open>tids\<close>, each log set with the status COMPLETED has a first series
  with at least one value.  \<open>reads_succeed M studyId objName tids\<close>: for the trials
  \<open>tids\<close> the two requests never fail.
\<close>

definition unready :: "('w, 'f) manager \<Rightarrow> string \<Rightarrow> string \<Rightarrow> string \<Rightarrow> bool" where
  "unready M studyId objName tid \<longleftrightarrow>
     (\<forall>x workers x'. GetWorkers M studyId tid x = (Inr workers, x') \<longrightarrow>
        (\<forall>y sets y'. GetMetrics M studyId (map WorkerId workers) [objName] y = (Inr sets, y') \<longrightarrow>
           (\<exists>ml\<in>set sets. WorkerStatus ml \<noteq> State_COMPLETED)))"

definition series_present :: "('w, 'f) manager \<Rightarrow> string \<Rightarrow> string \<Rightarrow> string list \<Rightarrow> bool" where
  "series_present M studyId objName tids \<longleftrightarrow>
     (\<forall>tid\<in>set tids. \<forall>x workers x'. GetWorkers M studyId tid x = (Inr workers, x') \<longrightarrow>
        (\<forall>y sets y'. GetMetrics M studyId (map WorkerId workers) [objName] y = (Inr sets, y') \<longrightarrow>
           (\<forall>ml\<in>set sets. WorkerStatus ml = State_COMPLETED \<longrightarrow>
              MetricsLogs ml \<noteq> [] \<and> Values (hd (MetricsLogs ml)) \<noteq> [])))"

definition reads_succeed :: "('w, 'f) manager \<Rightarrow> string \<Rightarrow> string \<Rightarrow> string list \<Rightarrow> bool" where
  "reads_succeed M studyId objName tids \<longleftrightarrow>
     (\<forall>tid\<in>set tids. \<forall>x. \<exists>workers x'. GetWorkers M studyId tid x = (Inr workers, x') \<and>
        (\<forall>y. \<exists>sets y'. GetMetrics M studyId (map WorkerId workers) [objName] y = (Inr sets, y')))"

text \<open>
  \<open>wire_exact F s\<close>: the state \<open>s\<close> passes the checks of the decoder, none of its numeric
  fields is at the value that makes the decoder derive a default, its four
  floating-point fields are read back unchanged from their four-decimal text, its
  integers are 64-bit, and its list of trial ids is not empty and has no comma inside an
  id.
\<close>

definition wire_exact :: "'f stdlib \<Rightarrow> 'f HyperBandParameters \<Rightarrow> bool" where
  "wire_exact F s \<longleftrightarrow>
     \<not> f_le F (r_l s) (float64 F 0) \<and> ResourceName s \<noteq> [] \<and> \<not> f_le F (eta s) (float64 F 0)
   \<and> sMax s \<noteq> - 1 \<and> \<not> f_eq F (b_l s) (float64 F (- 1)) \<and> hb_n s \<noteq> - 1
   \<and> currentS s \<noteq> - 1 \<and> shloopitr s \<noteq> - 1 \<and> \<not> f_eq F (hb_r s) (float64 F (- 1))
   \<and> ParseFloat F (FormatFloat F (eta s)) = eta s
   \<and> ParseFloat F (FormatFloat F (b_l s)) = b_l s
   \<and> ParseFloat F (FormatFloat F (r_l s)) = r_l s
   \<and> ParseFloat F (FormatFloat F (hb_r s)) = hb_r s
   \<and> (\<forall>i\<in>{sMax s, hb_n s, shloopitr s, currentS s}. - (2 ^ 63) \<le> i \<and> i < 2 ^ 63)
   \<and> evaluatingTrials s \<noteq> []
   \<and> (\<forall>t\<in>set (evaluatingTrials s). CHR '','' \<notin> set t)"

section \<open>Concrete inputs\<close>

text \<open>A study with a learning rate and the resource parameter \<^verbatim>\<open>epochs\<close>; three trials
  of a first bracket; the request of every run.\<close>

definition study_of :: "OptimizationType \<Rightarrow> StudyConfig" where
  "study_of opt =
    \<lparr> Configs = [\<lparr> pc_Name = ''lr'', pc_Type = ParameterType_DOUBLE,
                    pc_Feasible = \<lparr> fs_Max = ''0.5'', fs_Min = ''0.1'', fs_List = [] \<rparr> \<rparr>,
                  \<lparr> pc_Name = ''epochs'', pc_Type = ParameterType_INT,
                    pc_Feasible = \<lparr> fs_Max = ''9'', fs_Min = ''1'', fs_List = [] \<rparr> \<rparr>],
      sc_ObjectiveValueName = ''score'', OptimizationType = opt \<rparr>"

definition trial_of :: "string \<Rightarrow> string \<Rightarrow> string \<Rightarrow> Trial" where
  "trial_of tid lr epochs =
    \<lparr> TrialId = tid, StudyId = ''s'',
      ParameterSet = [\<lparr> p_Name = ''lr'', p_Type = ParameterType_DOUBLE, p_Value = lr \<rparr>,
                      \<lparr> p_Name = ''epochs'', p_Type = ParameterType_INT, p_Value = epochs \<rparr>] \<rparr>"

definition trials3 :: "Trial list" where
  "trials3 = [trial_of ''t1'' ''0.1000'' ''1'', trial_of ''t2'' ''0.2000'' ''1'',
              trial_of ''t3'' ''0.3000'' ''1'']"

definition request :: GetSuggestionsRequest where
  "request = \<lparr> in_StudyId = ''s'', in_SuggestionAlgorithm = ''hyperband'', in_ParamId = ''p'' \<rparr>"

text \<open>The parameters persisted after the first bracket of three trials, and the state
  the decoder loads from them.\<close>

definition sparam_round1 :: "SuggestionParameter list" where
  "sparam_round1 =
    [\<lparr> sp_Name = ''eta'', sp_Value = ''3.0000'' \<rparr>, \<lparr> sp_Name = ''sMax'', sp_Value = ''2'' \<rparr>,
     \<lparr> sp_Name = ''b_l'', sp_Value = ''27.0000'' \<rparr>, \<lparr> sp_Name = ''r_l'', sp_Value = ''9.0000'' \<rparr>,
     \<lparr> sp_Name = ''r'', sp_Value = ''1.0000'' \<rparr>, \<lparr> sp_Name = ''shloopitr'', sp_Value = ''1'' \<rparr>,
     \<lparr> sp_Name = ''n'', sp_Value = ''3'' \<rparr>, \<lparr> sp_Name = ''currentS'', sp_Value = ''2'' \<rparr>,
     \<lparr> sp_Name = ''ResourceName'', sp_Value = ''epochs'' \<rparr>,
     \<lparr> sp_Name = ''evaluatingTrials'', sp_Value = ''t1,t2,t3'' \<rparr>]"

definition hb_round1 :: "real HyperBandParameters" where
  "hb_round1 =
    \<lparr> eta = 3, sMax = 2, b_l = 27, r_l = 9, hb_r = 1, hb_n = 3, shloopitr = 1, currentS = 2,
      ResourceName = ''epochs'', ObjectiveValueName = ''score'',
      evaluatingTrials = [''t1'', ''t2'', ''t3''] \<rparr>"

text \<open>One worker for each trial.  The last values of the metric are 0.1 for \<^verbatim>\<open>t1\<close>,
  0.3 for \<^verbatim>\<open>t2\<close> and 0.2 for \<^verbatim>\<open>t3\<close>.\<close>

definition worker_of :: "State \<Rightarrow> string \<Rightarrow> Worker" where
  "worker_of st tid = \<lparr> WorkerId = ''w-'' @ tid, w_TrialId = tid, Status = st \<rparr>"

definition logs_of :: "State \<Rightarrow> string \<Rightarrow> MetricsLogSet" where
  "logs_of st wid =
    \<lparr> mls_WorkerId = wid,
      MetricsLogs = [\<lparr> ml_Name = ''score'',
                       Values = (if wid = ''w-t1'' then [''0.9000'', ''0.1000'']
                                 else if wid = ''w-t2'' then [''0.3000'']
                                 else [''0.2000'']) \<rparr>],
      WorkerStatus = st \<rparr>"

definition workers_done :: "string \<Rightarrow> go_error + Worker list" where
  "workers_done tid = Inr [worker_of State_COMPLETED tid]"

definition metrics_done :: "string list \<Rightarrow> go_error + MetricsLogSet list" where
  "metrics_done wids = Inr (map (logs_of State_COMPLETED) wids)"

text \<open>The same with the worker of \<^verbatim>\<open>t2\<close> still running, and with a Manager that
  fails to list the workers of \<^verbatim>\<open>t1\<close>.\<close>

definition workers_mixed :: "string \<Rightarrow> go_error + Worker list" where
  "workers_mixed tid =
     Inr [worker_of (if tid = ''t2'' then State_RUNNING else State_COMPLETED) tid]"

definition metrics_mixed :: "string list \<Rightarrow> go_error + MetricsLogSet list" where
  "metrics_mixed wids =
     Inr (map (\<lambda>wid. logs_of (if wid = ''w-t2'' then State_RUNNING else State_COMPLETED) wid) wids)"

definition workers_failing :: "string \<Rightarrow> go_error + Worker list" where
  "workers_failing tid =
     (if tid = ''t1'' then Inl (Error ''connection refused'') else workers_mixed tid)"

definition manager_round1 :: "OptimizationType \<Rightarrow> (nat, real) manager" where
  "manager_round1 opt = plain_manager (study_of opt) trials3 workers_done metrics_done sparam_round1"

definition manager_unready :: "(nat, real) manager" where
  "manager_unready =
     plain_manager (study_of OptimizationType_MAXIMIZE) trials3 workers_mixed metrics_mixed sparam_round1"

definition manager_failing :: "(nat, real) manager" where
  "manager_failing =
     plain_manager (study_of OptimizationType_MAXIMIZE) trials3 workers_failing metrics_mixed
       sparam_round1"

text \<open>The bracket \<^verbatim>\<open>evalWorkers\<close> builds from the three completed trials: descending by
  value, with the one spare element that three appends leave.\<close>

definition parent_round1 :: "real Bracket" where
  "parent_round1 =
    \<lparr> items = [\<lparr> ev_id = ''t2'', ev_value = 3 / 10 \<rparr>, \<lparr> ev_id = ''t3'', ev_value = 1 / 5 \<rparr>,
                \<lparr> ev_id = ''t1'', ev_value = 1 / 10 \<rparr>],
      spare = [\<lparr> ev_id = [], ev_value = 0 \<rparr>] \<rparr>"

text \<open>The state after the second round, as \<^verbatim>\<open>GetSuggestions\<close> persists it.\<close>

definition hb_round2 :: "real HyperBandParameters" where
  "hb_round2 = hb_round1 \<lparr> shloopitr := 2, evaluatingTrials := [''trial-0''] \<rparr>"

text \<open>A state whose schedule has ended, and the parameters it is loaded from.\<close>

definition sparam_done :: "SuggestionParameter list" where
  "sparam_done =
    [\<lparr> sp_Name = ''eta'', sp_Value = ''3.0000'' \<rparr>, \<lparr> sp_Name = ''sMax'', sp_Value = ''2'' \<rparr>,
     \<lparr> sp_Name = ''b_l'', sp_Value = ''27.0000'' \<rparr>, \<lparr> sp_Name = ''r_l'', sp_Value = ''9.0000'' \<rparr>,
     \<lparr> sp_Name = ''r'', sp_Value = ''9.0000'' \<rparr>, \<lparr> sp_Name = ''shloopitr'', sp_Value = ''1'' \<rparr>,
     \<lparr> sp_Name = ''n'', sp_Value = ''3'' \<rparr>, \<lparr> sp_Name = ''currentS'', sp_Value = ''0'' \<rparr>,
     \<lparr> sp_Name = ''ResourceName'', sp_Value = ''epochs'' \<rparr>,
     \<lparr> sp_Name = ''evaluatingTrials'', sp_Value = ''trial-12'' \<rparr>]"

definition hb_done :: "real HyperBandParameters" where
  "hb_done =
    \<lparr> eta = 3, sMax = 2, b_l = 27, r_l = 9, hb_r = 9, hb_n = 3, shloopitr = 1, currentS = 0,
      ResourceName = ''epochs'', ObjectiveValueName = ''score'',
      evaluatingTrials = [''trial-12''] \<rparr>"

definition manager_done :: "(nat, real) manager" where
  "manager_done =
     plain_manager (study_of OptimizationType_MAXIMIZE) [] (\<lambda>tid. Inr []) (\<lambda>wids. Inr []) sparam_done"

text \<open>A Manager whose metric series are empty for completed workers.\<close>

definition metrics_missing :: "string list \<Rightarrow> go_error + MetricsLogSet list" where
  "metrics_missing wids =
     Inr (map (\<lambda>wid. \<lparr> mls_WorkerId = wid, MetricsLogs = [\<lparr> ml_Name = ''score'', Values = [] \<rparr>],
                        WorkerStatus = State_COMPLETED \<rparr>) wids)"

definition manager_missing :: "(nat, real) manager" where
  "manager_missing =
     plain_manager (study_of OptimizationType_MAXIMIZE) trials3 workers_done metrics_missing sparam_round1"

text \<open>The worker of \<^verbatim>\<open>t2\<close> is running, and the completed worker of \<^verbatim>\<open>t1\<close> has
  an empty series.\<close>

definition metrics_mixed_missing :: "string list \<Rightarrow> go_error + MetricsLogSet list" where
  "metrics_mixed_missing wids =
     Inr (map (\<lambda>wid. \<lparr> mls_WorkerId = wid, MetricsLogs = [\<lparr> ml_Name = ''score'', Values = [] \<rparr>],
                        WorkerStatus = (if wid = ''w-t2'' then State_RUNNING else State_COMPLETED) \<rparr>)
            wids)"

definition manager_mixed_missing :: "(nat, real) manager" where
  "manager_mixed_missing =
     plain_manager (study_of OptimizationType_MAXIMIZE) trials3 workers_mixed metrics_mixed_missing
       sparam_round1"

text \<open>The state the decoder derives from \<^verbatim>\<open>r_l = 100\<close>, \<^verbatim>\<open>eta = 3\<close> and the resource
  name alone: \<open>sMax = 4\<close>, \<open>b_l = 500\<close>, \<open>n = 81\<close>, \<open>r = 100 / 81\<close>, no trial under
  evaluation.\<close>

definition hb_first :: "real HyperBandParameters" where
  "hb_first =
    \<lparr> eta = 3, sMax = 4, b_l = 500, r_l = 100, hb_r = 100 / 81, hb_n = 81, shloopitr = 0,
      currentS = 4, ResourceName = ''epochs'', ObjectiveValueName = ''score'',
      evaluatingTrials = [] \<rparr>"

section \<open>Properties\<close>

subsection \<open>Evaluation of the library functions and of the concrete surroundings\<close>

declare utoa.simps [simp del]

lemma utoa_digit: "n < 10 \<Longrightarrow> utoa n = [''0123456789'' ! n]"
  by (simp add: utoa.simps)

lemma utoa_more: "\<not> n < 10 \<Longrightarrow> utoa n = utoa (n div 10) @ [''0123456789'' ! (n mod 10)]"
  by (subst utoa.simps) simp

lemma plain_cluster_sel:
  "pods_List (plain_cluster pods logs ws) = (\<lambda>selector w. ((pods, None), w))"
  "pods_GetLogs (plain_cluster pods logs ws) = (\<lambda>name since w. (Inr logs, w))"
  "pods_Delete (plain_cluster pods logs ws) = (\<lambda>name w. (None, w))"
  "jobs_Get (plain_cluster pods logs ws) = (\<lambda>wid w. (Inr 1, w))"
  "jobs_Delete (plain_cluster pods logs ws) = (\<lambda>wid w. (None, w))"
  "jobs_Create (plain_cluster pods logs ws) = (\<lambda>job w. (Inr (job_Name job), w))"
  "db_GetWorkerList (plain_cluster pods logs ws) = (\<lambda>studyId trialId w. (Inr ws, w))"
  "db_UpdateWorker (plain_cluster pods logs ws) = (\<lambda>wid st w. (None, w))"
  "db_GetWorkerTimestamp (plain_cluster pods logs ws) = (\<lambda>wid w. (Inr None, w))"
  "db_StoreWorkerLogs (plain_cluster pods logs ws) = (\<lambda>wid ls w. (None, w))"
  by (simp_all add: plain_cluster_def)

subsection \<open>Requests are only ever added to the record\<close>

lemma invoke_record: "invoke c f s = (r, s') \<Longrightarrow> snd s' = snd s @ [c]"
  by (auto simp: invoke_def split: prod.splits)

lemma quietly_record: "quietly f s = (r, s') \<Longrightarrow> snd s' = snd s"
  by (auto simp: quietly_def split: prod.splits)

lemma StoreWorkerLog_record:
  "StoreWorkerLog d wID s = (r, s') \<Longrightarrow> prefix (snd s) (snd s')"
  unfolding StoreWorkerLog_def
  by (auto split: prod.splits list.splits sum.splits if_splits dest!: invoke_record simp: prefix_def)

lemma IsWorkerComplete_record:
  "IsWorkerComplete d wID s = (r, s') \<Longrightarrow> prefix (snd s) (snd s')"
  unfolding IsWorkerComplete_def
  by (auto split: prod.splits list.splits sum.splits if_splits dest!: invoke_record simp: prefix_def)

lemma deleteJobAndPod_record:
  "deleteJobAndPod d wid s = (r, s') \<Longrightarrow> prefix (snd s) (snd s')"
  unfolding deleteJobAndPod_def
  by (auto split: prod.splits list.splits sum.splits if_splits dest!: invoke_record simp: prefix_def)

lemma updateWorker_record:
  assumes "updateWorker d w s = (r, s')"
  shows "prefix (snd s) (snd s')"
proof (cases "Status w = State_PENDING")
  case True
  with assms show ?thesis
    by (auto simp: updateWorker_def split: prod.splits option.splits
          dest!: invoke_record StoreWorkerLog_record simp: prefix_def)
next
  case False
  note np = this
  show ?thesis
  proof (cases "Status w = State_RUNNING")
    case True
    with assms np show ?thesis
      by (auto simp: updateWorker_def split: prod.splits option.splits sum.splits if_splits
          dest!: invoke_record StoreWorkerLog_record IsWorkerComplete_record deleteJobAndPod_record
          simp: prefix_def)
  next
    case False
    with assms np show ?thesis by (simp add: updateWorker_def)
  qed
qed

lemma forEach_record:
  assumes "\<And>x s r s'. body x s = (r, s') \<Longrightarrow> prefix (snd s) (snd s')"
  shows "forEach body xs s = (r, s') \<Longrightarrow> prefix (snd s) (snd s')"
proof (induction xs arbitrary: s)
  case Nil
  then show ?case by simp
next
  case (Cons x xs)
  obtain r1 s1 where b: "body x s = (r1, s1)" by (cases "body x s")
  have p1: "prefix (snd s) (snd s1)" using assms b by blast
  show ?case
  proof (cases r1)
    case (Inl e)
    with Cons.prems b p1 show ?thesis by simp
  next
    case (Inr u)
    with Cons.prems b have "forEach body xs s1 = (r, s')" by simp
    then have "prefix (snd s1) (snd s')" by (rule Cons.IH)
    with p1 show ?thesis by (rule prefix_order.trans)
  qed
qed

lemma forEach_append:
  "forEach body (xs @ ys) s =
     (case forEach body xs s of (Inl e, s') \<Rightarrow> (Inl e, s') | (Inr u, s') \<Rightarrow> forEach body ys s')"
  by (induction xs arbitrary: s) (auto split: prod.splits sum.splits)

subsection \<open>The generated manifest\<close>

lemma genJobManifest_limits:
  assumes "genJobManifest PQ wid conf = Inr job"
  shows "\<exists>c cpuReq memoryReq. spec_Containers job = [c]
        \<and> PQ (Itoa (Cpu conf)) = Inr cpuReq \<and> c_Limits c ''cpu'' = Some cpuReq
        \<and> PQ (Memory conf) = Inr memoryReq \<and> c_Limits c ''memory'' = Some memoryReq
        \<and> (''nvidia.com/gpu'' \<in> dom (c_Limits c) \<longleftrightarrow> 0 < Gpu conf)"
  using assms
  by (auto simp: genJobManifest_def Let_def split: sum.splits if_splits option.splits)

text \<open>
  Claim C8.  The Job manifest that \<^verbatim>\<open>SpawnWorker\<close> generates and submits has one
  container whose resource limits hold, under \<^verbatim>\<open>cpu\<close>, the quantity parsed from the
  decimal rendering of \<open>Cpu\<close> and, under \<^verbatim>\<open>memory\<close>, the quantity parsed from the
  \<open>Memory\<close> string; the key \<^verbatim>\<open>nvidia.com/gpu\<close> is among the limits if and only if
  \<open>Gpu > 0\<close>.
\<close>

theorem SpawnWorker_manifest_limits:
  assumes "genJobManifest ParseQuantity wid conf = Inr job"
  shows "snd (snd (SpawnWorker d ParseQuantity wid conf s)) = snd s @ [Jobs_Create job] \<and>
     (\<exists>c cpuReq memoryReq. spec_Containers job = [c]
        \<and> ParseQuantity (Itoa (Cpu conf)) = Inr cpuReq \<and> c_Limits c ''cpu'' = Some cpuReq
        \<and> ParseQuantity (Memory conf) = Inr memoryReq \<and> c_Limits c ''memory'' = Some memoryReq
        \<and> (''nvidia.com/gpu'' \<in> dom (c_Limits c) \<longleftrightarrow> 0 < Gpu conf))"
proof
  show "snd (snd (SpawnWorker d ParseQuantity wid conf s)) = snd s @ [Jobs_Create job]"
    using assms by (simp add: SpawnWorker_def invoke_def split: prod.splits sum.splits)
next
  show "\<exists>c cpuReq memoryReq. spec_Containers job = [c]
        \<and> ParseQuantity (Itoa (Cpu conf)) = Inr cpuReq \<and> c_Limits c ''cpu'' = Some cpuReq
        \<and> ParseQuantity (Memory conf) = Inr memoryReq \<and> c_Limits c ''memory'' = Some memoryReq
        \<and> (''nvidia.com/gpu'' \<in> dom (c_Limits c) \<longleftrightarrow> 0 < Gpu conf)"
    using assms by (rule genJobManifest_limits)
qed

lemma genJobManifest_W1: "genJobManifest text_quantity ''w1'' conf_W1 = Inr job_W1"
  by (simp add: genJobManifest_def conf_W1_def job_W1_def text_quantity_def Itoa_def utoa_digit Let_def)


text \<open>Scenario W1: \<open>Cpu = 2\<close>, \<open>Memory = "4Gi"\<close>, \<open>Gpu = 1\<close>.\<close>

theorem SpawnWorker_manifest_limits_witness:
  "genJobManifest text_quantity ''w1'' conf_W1 = Inr job_W1 \<and>
   snd (snd (SpawnWorker (plain_cluster [] [] []) text_quantity ''w1'' conf_W1 ((), [])))
     = [Jobs_Create job_W1] \<and>
   (\<exists>c cpuReq memoryReq. spec_Containers job_W1 = [c]
        \<and> text_quantity (Itoa (Cpu conf_W1)) = Inr cpuReq \<and> c_Limits c ''cpu'' = Some cpuReq
        \<and> text_quantity (Memory conf_W1) = Inr memoryReq \<and> c_Limits c ''memory'' = Some memoryReq
        \<and> (''nvidia.com/gpu'' \<in> dom (c_Limits c) \<longleftrightarrow> 0 < Gpu conf_W1))"
  using SpawnWorker_manifest_limits [OF genJobManifest_W1, of "plain_cluster [] [] []" "((), [])"]
    genJobManifest_W1
  by simp

subsection \<open>A pending worker with an empty log\<close>

text \<open>
  Claim C9.  In \<^verbatim>\<open>UpdateWorkerStatus\<close>, when the loop reaches a PENDING worker whose
  pod list is not empty, whose timestamp lookup succeeds and whose log fetch succeeds
  with an empty log, \<^verbatim>\<open>StoreWorkerLog\<close> returns nil after the three reads, without a
  \<^verbatim>\<open>StoreWorkerLogs\<close> request to the database, and the next request of the run is
  the update of the worker to RUNNING.
\<close>

theorem UpdateWorkerStatus_pending_empty_log:
  assumes ws: "db_GetWorkerList d studyId [] x0 = (Inr (pre @ w # post), xa)"
      and pre: "forEach (updateWorker d) pre (xa, tr0 @ [DB_GetWorkerList studyId []]) = (Inr (), (x, tr))"
      and pending: "Status w = State_PENDING"
      and pods: "pods_List d (''job-name='' @ WorkerId w) x = ((pod # pods, e), x1)"
      and stamp: "db_GetWorkerTimestamp d (WorkerId w) x1 = (Inr mt, x2)"
      and logs: "pods_GetLogs d (pod_Name pod) mt x2 = (Inr [], x3)"
  shows "StoreWorkerLog d (WorkerId w) (x, tr) =
           (None, (x3, tr @ [Pods_List (''job-name='' @ WorkerId w),
                             DB_GetWorkerTimestamp (WorkerId w),
                             Pods_GetLogs (pod_Name pod) mt]))
       \<and> prefix (tr @ [Pods_List (''job-name='' @ WorkerId w),
                       DB_GetWorkerTimestamp (WorkerId w),
                       Pods_GetLogs (pod_Name pod) mt,
                       DB_UpdateWorker (WorkerId w) State_RUNNING])
                (snd (snd (UpdateWorkerStatus d studyId (x0, tr0))))"
proof -
  let ?tr3 = "tr @ [Pods_List (''job-name='' @ WorkerId w), DB_GetWorkerTimestamp (WorkerId w),
                    Pods_GetLogs (pod_Name pod) mt]"
  have store: "StoreWorkerLog d (WorkerId w) (x, tr) = (None, (x3, ?tr3))"
    using pods stamp logs by (simp add: StoreWorkerLog_def invoke_def)
  obtain ur x4 where upd: "db_UpdateWorker d (WorkerId w) State_RUNNING x3 = (ur, x4)"
    by (cases "db_UpdateWorker d (WorkerId w) State_RUNNING x3")
  let ?tr4 = "?tr3 @ [DB_UpdateWorker (WorkerId w) State_RUNNING]"
  have one: "updateWorker d w (x, tr) =
               ((case ur of Some err \<Rightarrow> Inl (Returned err) | None \<Rightarrow> Inr ()), (x4, ?tr4))"
    using upd by (simp add: updateWorker_def pending store invoke_def split: option.splits)
  obtain r s' where rest: "forEach (updateWorker d) (w # post) (x, tr) = (r, s')"
    by (cases "forEach (updateWorker d) (w # post) (x, tr)")
  have "prefix ?tr4 (snd s')"
  proof (cases ur)
    case (Some err)
    with rest one show ?thesis by auto
  next
    case None
    with rest one have "forEach (updateWorker d) post (x4, ?tr4) = (r, s')" by simp
    from forEach_record [OF updateWorker_record this] show ?thesis by simp
  qed
  moreover have "UpdateWorkerStatus d studyId (x0, tr0) = (r, s')"
    using ws rest by (simp add: UpdateWorkerStatus_def invoke_def forEach_append pre)
  ultimately show ?thesis using store by simp
qed

text \<open>One PENDING worker with one pod and an empty log.\<close>

theorem UpdateWorkerStatus_pending_empty_log_witness:
  "StoreWorkerLog (plain_cluster [\<lparr>pod_Name = ''w1-abcde'', pod_Phase = ''Running''\<rparr>] []
       [\<lparr>WorkerId = ''w1'', w_TrialId = ''t1'', Status = State_PENDING\<rparr>]) ''w1'' ((), [DB_GetWorkerList ''study'' []])
     = (None, ((), [DB_GetWorkerList ''study'' [], Pods_List ''job-name=w1'',
                    DB_GetWorkerTimestamp ''w1'', Pods_GetLogs ''w1-abcde'' None]))
   \<and> prefix [DB_GetWorkerList ''study'' [], Pods_List ''job-name=w1'', DB_GetWorkerTimestamp ''w1'',
             Pods_GetLogs ''w1-abcde'' None, DB_UpdateWorker ''w1'' State_RUNNING]
        (snd (snd (UpdateWorkerStatus
           (plain_cluster [\<lparr>pod_Name = ''w1-abcde'', pod_Phase = ''Running''\<rparr>] []
              [\<lparr>WorkerId = ''w1'', w_TrialId = ''t1'', Status = State_PENDING\<rparr>]) ''study'' ((), []))))"
  using UpdateWorkerStatus_pending_empty_log
    [of "plain_cluster [\<lparr>pod_Name = ''w1-abcde'', pod_Phase = ''Running''\<rparr>] []
              [\<lparr>WorkerId = ''w1'', w_TrialId = ''t1'', Status = State_PENDING\<rparr>]"
        "''study''" "()" "[]" "\<lparr>WorkerId = ''w1'', w_TrialId = ''t1'', Status = State_PENDING\<rparr>" "[]" "()" "[]"
        "()" "[DB_GetWorkerList ''study'' []]" "\<lparr>pod_Name = ''w1-abcde'', pod_Phase = ''Running''\<rparr>" "[]" None "()"
        None "()" "()"]
  by (simp add: plain_cluster_sel)

subsection \<open>Teardown with an empty pod list\<close>

text \<open>
  Claim C10 says that the teardown paths never read the pod list out of bounds and, for a
  worker whose pod list is empty, still go on to the status update.  The code reads
  \<^verbatim>\<open>pl.Items[0]\<close> without a check: \<^verbatim>\<open>CleanWorkers\<close> on one RUNNING worker whose
  pod list is empty panics after the job deletion and the pod listing, and the database
  receives no status update.
\<close>

theorem CleanWorkers_empty_pod_list_panics:
  "CleanWorkers (plain_cluster [] [] [\<lparr>WorkerId = ''w1'', w_TrialId = ''t1'', Status = State_RUNNING\<rparr>])
       ''study'' ((), [])
     = (Inl (Panic ''index out of range''),
        ((), [DB_GetWorkerList ''study'' [], Jobs_Delete ''w1'', Pods_List ''job-name=w1'']))"
  by (simp add: CleanWorkers_def cleanWorker_def deleteJobAndPod_def invoke_def plain_cluster_sel)

text \<open>\<^verbatim>\<open>StopWorkers\<close> does the same, and so does the shared teardown sequence for every
  cluster that answers the pod listing with an empty list.\<close>

lemma StopWorkers_empty_pod_list_panics:
  "StopWorkers (plain_cluster [] [] [\<lparr>WorkerId = ''w1'', w_TrialId = ''t1'', Status = State_RUNNING\<rparr>])
       ''study'' [''w1''] True ((), [])
     = (Inl (Panic ''index out of range''),
        ((), [DB_GetWorkerList ''study'' [], Jobs_Delete ''w1'', Pods_List ''job-name=w1'']))"
  by (simp add: StopWorkers_def stopWorker_def invoke_def plain_cluster_sel)

lemma deleteJobAndPod_empty_pod_list:
  assumes "jobs_Delete d wid x = (e, x1)" and "pods_List d (''job-name='' @ wid) x1 = (([], e'), x2)"
  shows "deleteJobAndPod d wid (x, tr) =
           (Inl (Panic ''index out of range''), (x2, tr @ [Jobs_Delete wid, Pods_List (''job-name='' @ wid)]))"
  using assms by (simp add: deleteJobAndPod_def invoke_def)



subsection \<open>The record of requests\<close>


lemma plain_manager_sel:
  "Dial (plain_manager sconf trials workers metrics sparam) = (\<lambda>w. (None, w))"
  "GetStudy (plain_manager sconf trials workers metrics sparam) = (\<lambda>studyId w. (Inr sconf, w))"
  "CreateTrial (plain_manager sconf trials workers metrics sparam) = (\<lambda>t w. (Inr (''trial-'' @ utoa w), Suc w))"
  "GetTrials (plain_manager sconf trials workers metrics sparam) = (\<lambda>studyId w. (Inr trials, w))"
  "GetWorkers (plain_manager sconf trials workers metrics sparam) = (\<lambda>studyId trialId w. (workers trialId, w))"
  "GetMetrics (plain_manager sconf trials workers metrics sparam) = (\<lambda>studyId workerIds names w. (metrics workerIds, w))"
  "GetSuggestionParameters (plain_manager sconf trials workers metrics sparam) = (\<lambda>paramId w. (Inr sparam, w))"
  "SetSuggestionParameters (plain_manager sconf trials workers metrics sparam) = (\<lambda>studyId algorithm paramId sp w. (None, w))"
  "IntRandom (plain_manager sconf trials workers metrics sparam) = (\<lambda>lo hi w. (lo, w))"
  "DoubelRandom (plain_manager sconf trials workers metrics sparam) = (\<lambda>lo hi w. (lo, w))"
  by (simp_all add: plain_manager_def)

lemma exact_stdlib_sel:
  "ParseFloat exact_stdlib = parse_decimal"
  "FormatFloat exact_stdlib = format_f4"
  "float64 exact_stdlib = of_int"
  "to_int exact_stdlib = (\<lambda>x. if 0 \<le> x then \<lfloor>x\<rfloor> else \<lceil>x\<rceil>)"
  "f_add exact_stdlib = (+)"
  "f_mul exact_stdlib = (*)"
  "f_div exact_stdlib = (/)"
  "f_le exact_stdlib = (\<le>)"
  "f_eq exact_stdlib = (=)"
  "f_gt exact_stdlib = (>)"
  "math_Log exact_stdlib = ln"
  "math_Trunc exact_stdlib = (\<lambda>x. if 0 \<le> x then of_int \<lfloor>x\<rfloor> else of_int \<lceil>x\<rceil>)"
  "math_Ceil exact_stdlib = (\<lambda>x. of_int \<lceil>x\<rceil>)"
  "math_Pow exact_stdlib = (\<lambda>x y. if y = of_int \<lfloor>y\<rfloor> then x powi \<lfloor>y\<rfloor> else x powr y)"
  "sort_Sort exact_stdlib = sort_by"
  "append_spare exact_stdlib = (\<lambda>k. k - 1)"
  by (simp_all add: exact_stdlib_def)

lemma replicate_numeral: "replicate (numeral k) x = x # replicate (pred_numeral k) x"
  by (simp add: numeral_eq_Suc)

lemmas run_simps = utoa_digit utoa_more Itoa_def Atoi_def atou_def digit_val_def is_digit_def
  format_f4_def round_half_even_def parse_decimal_def sort_by_def
  exact_stdlib_sel plain_manager_sel invoke_def quietly_def
  resourceValue_def rewriteResource_def slice_from_def slice_to_def bracket_append_def Less_def
  Let_def upt_rec replicate_numeral

lemma createdTrials_append: "createdTrials (xs @ ys) = createdTrials xs @ createdTrials ys"
  by (induction xs rule: createdTrials.induct) simp_all

lemma persisted_append: "persisted (xs @ ys) = persisted xs @ persisted ys"
  by (induction xs rule: persisted.induct) simp_all

lemma purseSuggestionParameters_record:
  assumes "purseSuggestionParameters M F studyId sparam s = (r, s')"
  shows "snd s' = snd s \<or> snd s' = snd s @ [M_GetStudy studyId]"
  using assms unfolding purseSuggestionParameters_def Let_def
  by (auto split: if_splits prod.splits sum.splits dest!: invoke_record)


subsection \<open>The bracket generators\<close>


subsection \<open>The child loop\<close>

lemma lastMatch_Some:
  "lastMatch trials tid = Some j \<Longrightarrow> j < length trials \<and> TrialId (trials ! j) = tid"
  by (induction trials arbitrary: j) (auto split: option.splits if_splits)

lemma lastMatch_None:
  "lastMatch trials tid = None \<Longrightarrow> \<forall>pt\<in>set trials. TrialId pt \<noteq> tid"
  by (induction trials) (auto split: option.splits if_splits)

lemma lastMatch_ids:
  "map TrialId a = map TrialId b \<Longrightarrow> lastMatch a tid = lastMatch b tid"
proof (induction a arbitrary: b)
  case Nil
  then show ?case by simp
next
  case (Cons x a)
  then obtain y b' where b: "b = y # b'" by (cases b) auto
  with Cons.prems have "TrialId x = TrialId y" "map TrialId a = map TrialId b'" by auto
  with Cons.IH [of b'] b show ?case by simp
qed

lemma rewriteResource_idem:
  "rewriteResource F resName rtype r_i (rewriteResource F resName rtype r_i ps)
     = rewriteResource F resName rtype r_i ps"
  by (induction ps) (auto simp: rewriteResource_def)

lemma rewriteResource_pointwise:
  "length (rewriteResource F resName rtype r_i ps) = length ps \<and>
   (\<forall>k<length ps.
      p_Name (rewriteResource F resName rtype r_i ps ! k) = p_Name (ps ! k) \<and>
      p_Type (rewriteResource F resName rtype r_i ps ! k) = p_Type (ps ! k) \<and>
      p_Value (rewriteResource F resName rtype r_i ps ! k) =
        (if p_Name (ps ! k) = resName
         then (if rtype = ParameterType_INT then Itoa (to_int F r_i) else FormatFloat F r_i)
         else p_Value (ps ! k)))"
  by (simp add: rewriteResource_def resourceValue_def)

lemma same_upto_rewrite_refl: "same_upto_rewrite F resName rtype r_i a a"
  by (simp add: same_upto_rewrite_def)

lemma same_upto_rewrite_inherited:
  assumes "same_upto_rewrite F resName rtype r_i a b"
  shows "inherited F resName rtype r_i a e = inherited F resName rtype r_i b e"
proof -
  from assms have ids: "map TrialId a = map TrialId b"
    and ps: "map (\<lambda>t. rewriteResource F resName rtype r_i (ParameterSet t)) a
             = map (\<lambda>t. rewriteResource F resName rtype r_i (ParameterSet t)) b"
    by (simp_all add: same_upto_rewrite_def)
  have lm: "lastMatch a (ev_id e) = lastMatch b (ev_id e)" by (rule lastMatch_ids [OF ids])
  show ?thesis
  proof (cases "lastMatch b (ev_id e)")
    case None
    with lm show ?thesis by (simp add: inherited_def)
  next
    case (Some j)
    from lastMatch_Some [OF Some] have jb: "j < length b" by simp
    from ids have "length a = length b" by (rule map_eq_imp_length_eq)
    with jb have ja: "j < length a" by simp
    from ps have "map (\<lambda>t. rewriteResource F resName rtype r_i (ParameterSet t)) a ! j
                = map (\<lambda>t. rewriteResource F resName rtype r_i (ParameterSet t)) b ! j" by simp
    with ja jb have "rewriteResource F resName rtype r_i (ParameterSet (a ! j))
                   = rewriteResource F resName rtype r_i (ParameterSet (b ! j))" by simp
    with lm Some show ?thesis by (simp add: inherited_def)
  qed
qed

lemma same_upto_rewrite_step:
  assumes "same_upto_rewrite F resName rtype r_i a b" and "j < length a"
  shows "same_upto_rewrite F resName rtype r_i
           (a[j := (a ! j) \<lparr> ParameterSet := rewriteResource F resName rtype r_i (ParameterSet (a ! j)) \<rparr>]) b"
proof -
  have "map TrialId (a[j := (a ! j) \<lparr> ParameterSet := rewriteResource F resName rtype r_i (ParameterSet (a ! j)) \<rparr>])
        = map TrialId a"
    using assms(2) by (simp add: map_update list_update_same_conv)
  moreover have "map (\<lambda>t. rewriteResource F resName rtype r_i (ParameterSet t))
          (a[j := (a ! j) \<lparr> ParameterSet := rewriteResource F resName rtype r_i (ParameterSet (a ! j)) \<rparr>])
        = map (\<lambda>t. rewriteResource F resName rtype r_i (ParameterSet t)) a"
    using assms(2) by (simp add: map_update list_update_same_conv rewriteResource_idem)
  ultimately show ?thesis using assms(1) by (simp add: same_upto_rewrite_def)
qed

lemma childLoop_step:
  "childLoop M F studyId resName rtype r_i i (e # child) trials tids ts s =
    (case invoke (M_CreateTrial \<lparr> TrialId = [], StudyId = studyId,
                    ParameterSet = inherited F resName rtype r_i trials e \<rparr>)
            (CreateTrial M \<lparr> TrialId = [], StudyId = studyId,
                    ParameterSet = inherited F resName rtype r_i trials e \<rparr>) s of
       (Inl err, s) \<Rightarrow> (Inl (Returned err), s)
     | (Inr ret, s) \<Rightarrow>
         if i < length tids
         then childLoop M F studyId resName rtype r_i (Suc i) child
                (case lastMatch trials (ev_id e) of
                   None \<Rightarrow> trials
                 | Some j \<Rightarrow> trials[j := (trials ! j)
                       \<lparr> ParameterSet := rewriteResource F resName rtype r_i (ParameterSet (trials ! j)) \<rparr>])
                (tids[i := ret])
                (ts[i := Some \<lparr> TrialId = ret, StudyId = studyId,
                               ParameterSet = inherited F resName rtype r_i trials e \<rparr>]) s
         else (Inl (Panic ''index out of range''), s))"
  unfolding inherited_def
  by (cases "lastMatch trials (ev_id e)") (simp_all add: Let_def split: prod.splits sum.splits)

lemma childLoop_run:
  assumes "same_upto_rewrite F resName rtype r_i trials trials0"
      and "length tids = length ts"
      and "childLoop M F studyId resName rtype r_i i child trials tids ts s = (res, s')"
  shows "\<exists>k\<le>length child.
           snd s' = snd s @ map (\<lambda>e. M_CreateTrial \<lparr> TrialId = [], StudyId = studyId,
                       ParameterSet = inherited F resName rtype r_i trials0 e \<rparr>) (take k child)
         \<and> (\<forall>tids' ts'. res = Inr (tids', ts') \<longrightarrow>
               k = length child \<and> length tids' = length tids \<and> length ts' = length ts
             \<and> (child \<noteq> [] \<longrightarrow> i + length child \<le> length ts)
             \<and> (\<forall>j<length ts.
                   (j < i \<or> i + length child \<le> j \<longrightarrow> tids' ! j = tids ! j \<and> ts' ! j = ts ! j)
                 \<and> (i \<le> j \<and> j < i + length child \<longrightarrow>
                      ts' ! j = Some \<lparr> TrialId = tids' ! j, StudyId = studyId,
                        ParameterSet = inherited F resName rtype r_i trials0 (child ! (j - i)) \<rparr>)))"
  using assms
proof (induction child arbitrary: i trials tids ts s)
  case Nil
  then show ?case by auto
next
  case (Cons e child)
  let ?new = "\<lambda>e. \<lparr> TrialId = [], StudyId = studyId,
                    ParameterSet = inherited F resName rtype r_i trials0 e \<rparr>"
  have inh: "inherited F resName rtype r_i trials e = inherited F resName rtype r_i trials0 e"
    by (rule same_upto_rewrite_inherited [OF Cons.prems(1)])
  obtain rr s1 where inv: "invoke (M_CreateTrial (?new e)) (CreateTrial M (?new e)) s = (rr, s1)"
    by (cases "invoke (M_CreateTrial (?new e)) (CreateTrial M (?new e)) s")
  from invoke_record [OF inv] have rec1: "snd s1 = snd s @ [M_CreateTrial (?new e)]" .
  show ?case
  proof (cases rr)
    case (Inl err)
    with Cons.prems(3) inv inh have "s' = s1" "res = Inl (Returned err)"
      by (simp_all add: childLoop_step del: childLoop.simps)
    with rec1 show ?thesis by (intro exI [of _ 1]) simp
  next
    case (Inr ret)
    show ?thesis
    proof (cases "i < length tids")
      case False
      with Cons.prems(3) inv Inr inh have "s' = s1" "res = Inl (Panic ''index out of range'')"
        by (simp_all add: childLoop_step del: childLoop.simps)
      with rec1 show ?thesis by (intro exI [of _ 1]) simp
    next
      case True
      let ?trials' = "case lastMatch trials (ev_id e) of
                   None \<Rightarrow> trials
                 | Some j \<Rightarrow> trials[j := (trials ! j)
                       \<lparr> ParameterSet := rewriteResource F resName rtype r_i (ParameterSet (trials ! j)) \<rparr>]"
      let ?tids1 = "tids[i := ret]"
      let ?ts1 = "ts[i := Some \<lparr> TrialId = ret, StudyId = studyId,
                               ParameterSet = inherited F resName rtype r_i trials0 e \<rparr>]"
      have same: "same_upto_rewrite F resName rtype r_i ?trials' trials0"
      proof (cases "lastMatch trials (ev_id e)")
        case None
        with Cons.prems(1) show ?thesis by simp
      next
        case (Some j)
        from lastMatch_Some [OF Some] have "j < length trials" by simp
        from same_upto_rewrite_step [OF Cons.prems(1) this] Some show ?thesis by simp
      qed
      have len1: "length ?tids1 = length ?ts1" using Cons.prems(2) by simp
      from Cons.prems(3) inv Inr True inh
      have run1: "childLoop M F studyId resName rtype r_i (Suc i) child ?trials' ?tids1 ?ts1 s1 = (res, s')"
        by (simp add: childLoop_step del: childLoop.simps)
      from Cons.IH [OF same len1 run1] obtain k where k: "k \<le> length child"
        and rk: "snd s' = snd s1 @ map (\<lambda>e. M_CreateTrial (?new e)) (take k child)"
        and ok: "\<forall>tids' ts'. res = Inr (tids', ts') \<longrightarrow>
               k = length child \<and> length tids' = length ?tids1 \<and> length ts' = length ?ts1
             \<and> (child \<noteq> [] \<longrightarrow> Suc i + length child \<le> length ?ts1)
             \<and> (\<forall>j<length ?ts1.
                   (j < Suc i \<or> Suc i + length child \<le> j \<longrightarrow> tids' ! j = ?tids1 ! j \<and> ts' ! j = ?ts1 ! j)
                 \<and> (Suc i \<le> j \<and> j < Suc i + length child \<longrightarrow>
                      ts' ! j = Some \<lparr> TrialId = tids' ! j, StudyId = studyId,
                        ParameterSet = inherited F resName rtype r_i trials0 (child ! (j - Suc i)) \<rparr>))"
        by blast
      have rec: "snd s' = snd s @ map (\<lambda>e. M_CreateTrial (?new e)) (take (Suc k) (e # child))"
        using rk rec1 by simp
      have "\<forall>tids' ts'. res = Inr (tids', ts') \<longrightarrow>
               Suc k = length (e # child) \<and> length tids' = length tids \<and> length ts' = length ts
             \<and> (e # child \<noteq> [] \<longrightarrow> i + length (e # child) \<le> length ts)
             \<and> (\<forall>j<length ts.
                   (j < i \<or> i + length (e # child) \<le> j \<longrightarrow> tids' ! j = tids ! j \<and> ts' ! j = ts ! j)
                 \<and> (i \<le> j \<and> j < i + length (e # child) \<longrightarrow>
                      ts' ! j = Some \<lparr> TrialId = tids' ! j, StudyId = studyId,
                        ParameterSet = inherited F resName rtype r_i trials0 ((e # child) ! (j - i)) \<rparr>))"
      proof (intro allI impI)
        fix tids' ts'
        assume res: "res = Inr (tids', ts')"
        from ok res have kk: "k = length child" and l1: "length tids' = length tids"
          and l2: "length ts' = length ts"
          and fit: "child \<noteq> [] \<longrightarrow> Suc i + length child \<le> length ts"
          and pt: "\<forall>j<length ts.
                   (j < Suc i \<or> Suc i + length child \<le> j \<longrightarrow> tids' ! j = ?tids1 ! j \<and> ts' ! j = ?ts1 ! j)
                 \<and> (Suc i \<le> j \<and> j < Suc i + length child \<longrightarrow>
                      ts' ! j = Some \<lparr> TrialId = tids' ! j, StudyId = studyId,
                        ParameterSet = inherited F resName rtype r_i trials0 (child ! (j - Suc i)) \<rparr>)"
          by simp_all
        have ilen: "i < length ts" using True Cons.prems(2) by simp
        have fit': "i + length (e # child) \<le> length ts"
          using fit ilen by (cases child) auto
        have "\<forall>j<length ts.
                   (j < i \<or> i + length (e # child) \<le> j \<longrightarrow> tids' ! j = tids ! j \<and> ts' ! j = ts ! j)
                 \<and> (i \<le> j \<and> j < i + length (e # child) \<longrightarrow>
                      ts' ! j = Some \<lparr> TrialId = tids' ! j, StudyId = studyId,
                        ParameterSet = inherited F resName rtype r_i trials0 ((e # child) ! (j - i)) \<rparr>)"
        proof (intro allI impI)
          fix j assume j: "j < length ts"
          show "(j < i \<or> i + length (e # child) \<le> j \<longrightarrow> tids' ! j = tids ! j \<and> ts' ! j = ts ! j)
                 \<and> (i \<le> j \<and> j < i + length (e # child) \<longrightarrow>
                      ts' ! j = Some \<lparr> TrialId = tids' ! j, StudyId = studyId,
                        ParameterSet = inherited F resName rtype r_i trials0 ((e # child) ! (j - i)) \<rparr>)"
          proof (cases "j = i")
            case True
            with pt j ilen Cons.prems(2) show ?thesis by simp
          next
            case False
            with pt j Cons.prems(2) show ?thesis
              by (auto simp: nth_Cons' Suc_diff_Suc)
          qed
        qed
        with kk l1 l2 fit' show "Suc k = length (e # child) \<and> length tids' = length tids \<and> length ts' = length ts
             \<and> (e # child \<noteq> [] \<longrightarrow> i + length (e # child) \<le> length ts)
             \<and> (\<forall>j<length ts.
                   (j < i \<or> i + length (e # child) \<le> j \<longrightarrow> tids' ! j = tids ! j \<and> ts' ! j = ts ! j)
                 \<and> (i \<le> j \<and> j < i + length (e # child) \<longrightarrow>
                      ts' ! j = Some \<lparr> TrialId = tids' ! j, StudyId = studyId,
                        ParameterSet = inherited F resName rtype r_i trials0 ((e # child) ! (j - i)) \<rparr>))"
          by simp
      qed
      with rec k show ?thesis by (intro exI [of _ "Suc k"]) simp
    qed
  qed
qed



lemma filled_ids:
  assumes "filled reqs tids ts" and "i < length ts"
  shows "tids ! i = (case ts ! i of None \<Rightarrow> [] | Some t \<Rightarrow> TrialId t)"
  using assms by (auto simp: filled_def split: if_splits)

lemma filled_shape:
  assumes "filled reqs tids ts"
  shows "ts = map (\<lambda>j. Some ((reqs ! j) \<lparr> TrialId := tids ! j \<rparr>)) [0..<length reqs]
              @ replicate (length ts - length reqs) None"
proof (rule nth_equalityI)
  show "length ts = length (map (\<lambda>j. Some ((reqs ! j) \<lparr> TrialId := tids ! j \<rparr>)) [0..<length reqs]
              @ replicate (length ts - length reqs) None)"
    using assms by (simp add: filled_def)
next
  fix i assume "i < length ts"
  with assms show "ts ! i = (map (\<lambda>j. Some ((reqs ! j) \<lparr> TrialId := tids ! j \<rparr>)) [0..<length reqs]
              @ replicate (length ts - length reqs) None) ! i"
    by (auto simp: filled_def nth_append split: if_splits)
qed

lemma filled_requests:
  assumes "filled reqs tids ts" and "\<forall>q\<in>set reqs. TrialId q = []"
  shows "map (\<lambda>t. t \<lparr> TrialId := [] \<rparr>) (map the (filter (\<lambda>x. x \<noteq> None) ts)) = reqs"
proof -
  have "map (\<lambda>t. t \<lparr> TrialId := [] \<rparr>) (map the (filter (\<lambda>x. x \<noteq> None)
          (map (\<lambda>j. Some ((reqs ! j) \<lparr> TrialId := tids ! j \<rparr>)) [0..<length reqs]
              @ replicate (length ts - length reqs) None)))
        = map (\<lambda>j. reqs ! j) [0..<length reqs]"
    using assms(2) by (simp add: filter_map comp_def)
  also have "\<dots> = reqs" by (rule map_nth)
  finally show ?thesis using filled_shape [OF assms(1)] by simp
qed

lemma sampleParameters_record:
  "sampleParameters M F resName r pcs s = (res, s') \<Longrightarrow> snd s' = snd s"
proof (induction pcs arbitrary: s res s')
  case Nil
  then show ?case by simp
next
  case (Cons pc pcs)
  then show ?case
    by (auto split: if_splits prod.splits sum.splits ParameterType.splits
             dest!: quietly_record)
qed

lemma masterLoop_run:
  assumes "length tids = length ts" and "m \<le> length ts"
      and "masterLoop M F studyId sconf r resName [i..<m] tids ts s = (res, s')"
  shows "\<exists>reqs. length reqs \<le> m - i \<and> (\<forall>q\<in>set reqs. TrialId q = [])
         \<and> snd s' = snd s @ map M_CreateTrial reqs
         \<and> (\<forall>tids' ts'. res = Inr (tids', ts') \<longrightarrow>
               length reqs = m - i \<and> length tids' = length tids \<and> length ts' = length ts
             \<and> (\<forall>j<length ts.
                   (j < i \<or> m \<le> j \<longrightarrow> tids' ! j = tids ! j \<and> ts' ! j = ts ! j)
                 \<and> (i \<le> j \<and> j < m \<longrightarrow>
                      ts' ! j = Some ((reqs ! (j - i)) \<lparr> TrialId := tids' ! j \<rparr>))))"
  using assms
proof (induction "m - i" arbitrary: i tids ts s)
  case 0
  then have "[i..<m] = []" by simp
  with "0.prems" show ?case by (intro exI [of _ "[]"]) auto
next
  case (Suc d)
  then have im: "i < m" and up: "[i..<m] = i # [Suc i..<m]" and d: "d = m - Suc i"
    by (auto simp: upt_conv_Cons)
  obtain pr s0 where sp: "sampleParameters M F resName r (Configs sconf) s = (pr, s0)"
    by (cases "sampleParameters M F resName r (Configs sconf) s")
  from sampleParameters_record [OF sp] have rec0: "snd s0 = snd s" .
  show ?case
  proof (cases pr)
    case (Inl e)
    with Suc.prems(3) up sp rec0 show ?thesis by (intro exI [of _ "[]"]) auto
  next
    case (Inr ps)
    let ?t = "\<lparr> TrialId = [], StudyId = studyId, ParameterSet = ps \<rparr>"
    obtain rr s1 where inv: "invoke (M_CreateTrial ?t) (CreateTrial M ?t) s0 = (rr, s1)"
      by (cases "invoke (M_CreateTrial ?t) (CreateTrial M ?t) s0")
    from invoke_record [OF inv] rec0 have rec1: "snd s1 = snd s @ [M_CreateTrial ?t]" by simp
    show ?thesis
    proof (cases rr)
      case (Inl err)
      with Suc.prems(3) up sp Inr inv rec1 show ?thesis by (intro exI [of _ "[?t]"]) (use im in auto)
    next
      case ret: (Inr tid)
      let ?tids1 = "tids[i := tid]"
      let ?ts1 = "ts[i := Some \<lparr> TrialId = tid, StudyId = studyId, ParameterSet = ps \<rparr>]"
      from Suc.prems(3) up sp Inr inv ret
      have run1: "masterLoop M F studyId sconf r resName [Suc i..<m] ?tids1 ?ts1 s1 = (res, s')"
        by simp
      have len1: "length ?tids1 = length ?ts1" "m \<le> length ?ts1" using Suc.prems by simp_all
      from Suc.hyps(1) [OF d len1 run1] obtain reqs where
        l: "length reqs \<le> m - Suc i" and ids: "\<forall>q\<in>set reqs. TrialId q = []"
        and rk: "snd s' = snd s1 @ map M_CreateTrial reqs"
        and ok: "\<forall>tids' ts'. res = Inr (tids', ts') \<longrightarrow>
               length reqs = m - Suc i \<and> length tids' = length ?tids1 \<and> length ts' = length ?ts1
             \<and> (\<forall>j<length ?ts1.
                   (j < Suc i \<or> m \<le> j \<longrightarrow> tids' ! j = ?tids1 ! j \<and> ts' ! j = ?ts1 ! j)
                 \<and> (Suc i \<le> j \<and> j < m \<longrightarrow>
                      ts' ! j = Some ((reqs ! (j - Suc i)) \<lparr> TrialId := tids' ! j \<rparr>)))"
        by blast
      have ilen: "i < length ts" using im Suc.prems(2) by simp
      have "\<forall>tids' ts'. res = Inr (tids', ts') \<longrightarrow>
               length (?t # reqs) = m - i \<and> length tids' = length tids \<and> length ts' = length ts
             \<and> (\<forall>j<length ts.
                   (j < i \<or> m \<le> j \<longrightarrow> tids' ! j = tids ! j \<and> ts' ! j = ts ! j)
                 \<and> (i \<le> j \<and> j < m \<longrightarrow>
                      ts' ! j = Some (((?t # reqs) ! (j - i)) \<lparr> TrialId := tids' ! j \<rparr>)))"
      proof (intro allI impI)
        fix tids' ts'
        assume res: "res = Inr (tids', ts')"
        from ok res have kk: "length reqs = m - Suc i" and l1: "length tids' = length tids"
          and l2: "length ts' = length ts"
          and pt: "\<forall>j<length ts.
                   (j < Suc i \<or> m \<le> j \<longrightarrow> tids' ! j = ?tids1 ! j \<and> ts' ! j = ?ts1 ! j)
                 \<and> (Suc i \<le> j \<and> j < m \<longrightarrow>
                      ts' ! j = Some ((reqs ! (j - Suc i)) \<lparr> TrialId := tids' ! j \<rparr>))"
          by simp_all
        have "\<forall>j<length ts.
                   (j < i \<or> m \<le> j \<longrightarrow> tids' ! j = tids ! j \<and> ts' ! j = ts ! j)
                 \<and> (i \<le> j \<and> j < m \<longrightarrow>
                      ts' ! j = Some (((?t # reqs) ! (j - i)) \<lparr> TrialId := tids' ! j \<rparr>))"
        proof (intro allI impI)
          fix j assume j: "j < length ts"
          show "(j < i \<or> m \<le> j \<longrightarrow> tids' ! j = tids ! j \<and> ts' ! j = ts ! j)
                 \<and> (i \<le> j \<and> j < m \<longrightarrow>
                      ts' ! j = Some (((?t # reqs) ! (j - i)) \<lparr> TrialId := tids' ! j \<rparr>))"
          proof (cases "j = i")
            case True
            with pt j ilen im Suc.prems(1) show ?thesis by simp
          next
            case False
            with pt j Suc.prems(1) show ?thesis
              by (auto simp: nth_Cons' Suc_diff_Suc)
          qed
        qed
        with kk l1 l2 im show "length (?t # reqs) = m - i \<and> length tids' = length tids \<and> length ts' = length ts
             \<and> (\<forall>j<length ts.
                   (j < i \<or> m \<le> j \<longrightarrow> tids' ! j = tids ! j \<and> ts' ! j = ts ! j)
                 \<and> (i \<le> j \<and> j < m \<longrightarrow>
                      ts' ! j = Some (((?t # reqs) ! (j - i)) \<lparr> TrialId := tids' ! j \<rparr>)))"
          by simp
      qed
      moreover have "snd s' = snd s @ map M_CreateTrial (?t # reqs)" using rk rec1 by simp
      moreover have "length (?t # reqs) \<le> m - i" using l im by simp
      moreover have "\<forall>q\<in>set (?t # reqs). TrialId q = []" using ids by simp
      ultimately show ?thesis by blast
    qed
  qed
qed



lemma makeMasterBracket_run:
  assumes "makeMasterBracket M F studyId n r hbparam s = (res, s')"
  shows "\<exists>reqs. snd s' = snd s @ M_GetStudy studyId # map M_CreateTrial reqs
         \<and> (\<forall>q\<in>set reqs. TrialId q = [])
         \<and> (\<forall>tids ts. res = Inr (tids, ts) \<longrightarrow> filled reqs tids ts \<and> int (length ts) = n)"
proof -
  obtain gr s1 where gs: "invoke (M_GetStudy studyId) (GetStudy M studyId) s = (gr, s1)"
    by (cases "invoke (M_GetStudy studyId) (GetStudy M studyId) s")
  from invoke_record [OF gs] have rec1: "snd s1 = snd s @ [M_GetStudy studyId]" .
  show ?thesis
  proof (cases gr)
    case (Inl err)
    with assms gs have "s' = s1" "res = Inl (Returned err)" by (simp_all add: makeMasterBracket_def)
    with rec1 show ?thesis by (intro exI [of _ "[]"]) simp
  next
    case (Inr sconf)
    show ?thesis
    proof (cases "n < 0")
      case True
      with assms gs Inr have "s' = s1" "res = Inl (Panic ''makeslice: len out of range'')"
        by (simp_all add: makeMasterBracket_def)
      with rec1 show ?thesis by (intro exI [of _ "[]"]) simp
    next
      case False
      with assms gs Inr
      have run: "masterLoop M F studyId sconf r (ResourceName hbparam) [0..<nat n]
                   (replicate (nat n) []) (replicate (nat n) None) s1 = (res, s')"
        by (simp add: makeMasterBracket_def)
      have "length (replicate (nat n) ([]::string)) = length (replicate (nat n) (None::Trial option))"
        "nat n \<le> length (replicate (nat n) (None::Trial option))" by simp_all
      from masterLoop_run [OF this run] obtain reqs where
        l: "length reqs \<le> nat n" and ids: "\<forall>q\<in>set reqs. TrialId q = []"
        and rk: "snd s' = snd s1 @ map M_CreateTrial reqs"
        and ok: "\<forall>tids' ts'. res = Inr (tids', ts') \<longrightarrow>
               length reqs = nat n \<and> length tids' = nat n \<and> length ts' = nat n
             \<and> (\<forall>j<nat n. ts' ! j = Some ((reqs ! j) \<lparr> TrialId := tids' ! j \<rparr>))"
        by auto
      have "\<forall>tids ts. res = Inr (tids, ts) \<longrightarrow> filled reqs tids ts \<and> int (length ts) = n"
        using ok False by (auto simp: filled_def)
      with rk rec1 ids show ?thesis by auto
    qed
  qed
qed

text \<open>The result type of the resource parameter, as \<^verbatim>\<open>makeChildBracket\<close> finds it.\<close>

lemma rtype_found:
  "(\<exists>pc\<in>set pcs. pc_Name pc = resName \<and>
       pc_Type pc = foldl (\<lambda>rtype pc. if pc_Name pc = resName then pc_Type pc else rtype) t0 pcs)
   \<or> ((\<forall>pc\<in>set pcs. pc_Name pc \<noteq> resName) \<and>
       foldl (\<lambda>rtype pc. if pc_Name pc = resName then pc_Type pc else rtype) t0 pcs = t0)"
proof (induction pcs rule: rev_induct)
  case Nil
  show ?case by simp
next
  case (snoc pc pcs)
  show ?case
  proof (cases "pc_Name pc = resName")
    case True
    then show ?thesis by simp
  next
    case False
    with snoc show ?thesis by auto
  qed
qed

lemma slice_from_items: "slice_from parent n = Inr child \<Longrightarrow> set child \<subseteq> set (items parent)"
  by (auto simp: slice_from_def split: if_splits dest: in_set_dropD)

lemma slice_to_items:
  "slice_to parent n = Inr child \<Longrightarrow> set child \<subseteq> set (items parent @ spare parent)"
  by (auto simp: slice_to_def split: if_splits dest: in_set_takeD)

lemma makeChildBracket_run:
  assumes "makeChildBracket M F parent studyId n r_i hbparam s = (res, s')"
  shows "((\<exists>e. res = Inl e) \<and> snd s' = snd s @ [M_GetStudy studyId]) \<or>
    (\<exists>sconf w1 trials w2 child reqs.
        GetStudy M studyId (fst s) = (Inr sconf, w1)
      \<and> (if OptimizationType sconf = OptimizationType_MINIMIZE then slice_from parent n
          else if OptimizationType sconf = OptimizationType_MAXIMIZE then slice_to parent n
          else Inr []) = Inr child
      \<and> GetTrials M studyId w1 = (Inr trials, w2)
      \<and> reqs = map (\<lambda>e. \<lparr> TrialId = [], StudyId = studyId,
                  ParameterSet = inherited F (ResourceName hbparam)
                    (foldl (\<lambda>rtype pc. if pc_Name pc = ResourceName hbparam then pc_Type pc else rtype)
                       ParameterType_UNKNOWN_TYPE (Configs sconf)) r_i trials e \<rparr>) child
      \<and> (\<exists>k\<le>length child.
            snd s' = snd s @ M_GetStudy studyId # M_GetTrials studyId # map M_CreateTrial (take k reqs))
      \<and> (\<forall>tids ts. res = Inr (tids, ts) \<longrightarrow>
            snd s' = snd s @ M_GetStudy studyId # M_GetTrials studyId # map M_CreateTrial reqs
          \<and> filled reqs tids ts \<and> int (length ts) = n))
    \<or> (\<exists>err. res = Inl err \<and> snd s' = snd s @ [M_GetStudy studyId, M_GetTrials studyId])"
proof -
  obtain gr s1 where gs: "invoke (M_GetStudy studyId) (GetStudy M studyId) s = (gr, s1)"
    by (cases "invoke (M_GetStudy studyId) (GetStudy M studyId) s")
  from invoke_record [OF gs] have rec1: "snd s1 = snd s @ [M_GetStudy studyId]" .
  show ?thesis
  proof (cases gr)
    case (Inl err)
    with assms gs have "s' = s1" "res = Inl (Returned err)" by (simp_all add: makeChildBracket_def)
    with rec1 show ?thesis by simp
  next
    case (Inr sconf)
    from gs Inr obtain w1 where gs': "GetStudy M studyId (fst s) = (Inr sconf, w1)" and s1: "fst s1 = w1"
      by (auto simp: invoke_def split: prod.splits)
    let ?sl = "if OptimizationType sconf = OptimizationType_MINIMIZE then slice_from parent n
          else if OptimizationType sconf = OptimizationType_MAXIMIZE then slice_to parent n
          else Inr []"
    show ?thesis
    proof (cases ?sl)
      case (Inl e)
      with assms gs Inr have "s' = s1" "res = Inl e" by (simp_all add: makeChildBracket_def)
      with rec1 show ?thesis by simp
    next
      case child: (Inr child)
      obtain tr s2 where gt: "invoke (M_GetTrials studyId) (GetTrials M studyId) s1 = (tr, s2)"
        by (cases "invoke (M_GetTrials studyId) (GetTrials M studyId) s1")
      from invoke_record [OF gt] rec1
      have rec2: "snd s2 = snd s @ [M_GetStudy studyId, M_GetTrials studyId]" by simp
      show ?thesis
      proof (cases tr)
        case (Inl err)
        with assms gs Inr child gt have "s' = s2" "res = Inl (Returned err)"
          by (simp_all add: makeChildBracket_def)
        with rec2 show ?thesis by simp
      next
        case trials: (Inr trials)
        from gt trials s1 obtain w2 where gt': "GetTrials M studyId w1 = (Inr trials, w2)"
          by (auto simp: invoke_def split: prod.splits)
        show ?thesis
        proof (cases "n < 0")
          case True
          with assms gs Inr child gt trials
          have "s' = s2" "res = Inl (Panic ''makeslice: len out of range'')"
            by (simp_all add: makeChildBracket_def)
          with rec2 show ?thesis by simp
        next
          case False
          let ?rtype = "foldl (\<lambda>rtype pc. if pc_Name pc = ResourceName hbparam then pc_Type pc else rtype)
                       ParameterType_UNKNOWN_TYPE (Configs sconf)"
          let ?new = "\<lambda>e. \<lparr> TrialId = [], StudyId = studyId,
                  ParameterSet = inherited F (ResourceName hbparam) ?rtype r_i trials e \<rparr>"
          from assms gs Inr child gt trials False
          have run: "childLoop M F studyId (ResourceName hbparam) ?rtype r_i 0 child trials
                       (replicate (nat n) []) (replicate (nat n) None) s2 = (res, s')"
            by (simp add: makeChildBracket_def)
          have len: "length (replicate (nat n) ([]::string)) = length (replicate (nat n) (None::Trial option))"
            by simp
          from childLoop_run [OF same_upto_rewrite_refl len run] obtain k where
            k: "k \<le> length child"
            and rk: "snd s' = snd s2 @ map (\<lambda>e. M_CreateTrial (?new e)) (take k child)"
            and ok: "\<forall>tids' ts'. res = Inr (tids', ts') \<longrightarrow>
               k = length child \<and> length tids' = nat n \<and> length ts' = nat n
             \<and> (child \<noteq> [] \<longrightarrow> length child \<le> nat n)
             \<and> (\<forall>j<nat n.
                   (length child \<le> j \<longrightarrow> tids' ! j = [] \<and> ts' ! j = None)
                 \<and> (j < length child \<longrightarrow>
                      ts' ! j = Some \<lparr> TrialId = tids' ! j, StudyId = studyId,
                        ParameterSet = inherited F (ResourceName hbparam) ?rtype r_i trials (child ! j) \<rparr>))"
            by auto
          have part: "snd s' = snd s @ M_GetStudy studyId # M_GetTrials studyId
                        # map M_CreateTrial (take k (map ?new child))"
            using rk rec2 by (simp add: take_map comp_def)
          have full: "\<forall>tids ts. res = Inr (tids, ts) \<longrightarrow>
            snd s' = snd s @ M_GetStudy studyId # M_GetTrials studyId # map M_CreateTrial (map ?new child)
          \<and> filled (map ?new child) tids ts \<and> int (length ts) = n"
          proof (intro allI impI)
            fix tids ts assume res: "res = Inr (tids, ts)"
            with ok have kk: "k = length child" and l1: "length tids = nat n" and l2: "length ts = nat n"
              and fit: "child \<noteq> [] \<longrightarrow> length child \<le> nat n"
              and pt: "\<forall>j<nat n.
                   (length child \<le> j \<longrightarrow> tids ! j = [] \<and> ts ! j = None)
                 \<and> (j < length child \<longrightarrow>
                      ts ! j = Some \<lparr> TrialId = tids ! j, StudyId = studyId,
                        ParameterSet = inherited F (ResourceName hbparam) ?rtype r_i trials (child ! j) \<rparr>)"
              by simp_all
            have fit': "length child \<le> nat n" using fit by (cases child) auto
            have "filled (map ?new child) tids ts"
              using l1 l2 fit' pt by (auto simp: filled_def)
            with part kk l2 False
            show "snd s' = snd s @ M_GetStudy studyId # M_GetTrials studyId # map M_CreateTrial (map ?new child)
                \<and> filled (map ?new child) tids ts \<and> int (length ts) = n"
              by simp
          qed
          have "\<exists>sconf w1 trials w2 child reqs.
        GetStudy M studyId (fst s) = (Inr sconf, w1)
      \<and> (if OptimizationType sconf = OptimizationType_MINIMIZE then slice_from parent n
          else if OptimizationType sconf = OptimizationType_MAXIMIZE then slice_to parent n
          else Inr []) = Inr child
      \<and> GetTrials M studyId w1 = (Inr trials, w2)
      \<and> reqs = map (\<lambda>e. \<lparr> TrialId = [], StudyId = studyId,
                  ParameterSet = inherited F (ResourceName hbparam)
                    (foldl (\<lambda>rtype pc. if pc_Name pc = ResourceName hbparam then pc_Type pc else rtype)
                       ParameterType_UNKNOWN_TYPE (Configs sconf)) r_i trials e \<rparr>) child
      \<and> (\<exists>k\<le>length child.
            snd s' = snd s @ M_GetStudy studyId # M_GetTrials studyId # map M_CreateTrial (take k reqs))
      \<and> (\<forall>tids ts. res = Inr (tids, ts) \<longrightarrow>
            snd s' = snd s @ M_GetStudy studyId # M_GetTrials studyId # map M_CreateTrial reqs
          \<and> filled reqs tids ts \<and> int (length ts) = n)"
            apply (rule exI [of _ sconf], rule exI [of _ w1], rule exI [of _ trials],
                   rule exI [of _ w2], rule exI [of _ child], rule exI [of _ "map ?new child"])
            apply (intro conjI)
                 apply (rule gs')
                apply (rule child)
               apply (rule gt')
              apply (rule refl)
             apply (rule exI [of _ k], rule conjI, rule k, rule part)
            apply (rule full)
            done
          then show ?thesis by (rule disjI2 [OF disjI1])
        qed
      qed
    qed
  qed
qed

lemma makeChildBracket_success:
  assumes "makeChildBracket M F parent studyId n r_i hbparam s = (Inr (tids, ts), s')"
  shows "\<exists>reqs. snd s' = snd s @ M_GetStudy studyId # M_GetTrials studyId # map M_CreateTrial reqs
           \<and> filled reqs tids ts \<and> (\<forall>q\<in>set reqs. TrialId q = [])"
proof -
  from makeChildBracket_run [OF assms] obtain reqs :: "Trial list" and new :: "'b Evals \<Rightarrow> Parameter list"
    and child :: "'b Evals list" where
    "reqs = map (\<lambda>e. \<lparr> TrialId = [], StudyId = studyId, ParameterSet = new e \<rparr>) child"
    "snd s' = snd s @ M_GetStudy studyId # M_GetTrials studyId # map M_CreateTrial reqs"
    "filled reqs tids ts"
    by (elim disjE exE conjE) simp_all
  moreover from this(1) have "\<forall>q\<in>set reqs. TrialId q = []" by simp
  ultimately show ?thesis by (intro exI [of _ reqs]) simp
qed

text \<open>For a MINIMIZE study the survivors are the entries of the parent from index \<open>n\<close>
  on.\<close>

lemma makeChildBracket_minimize:
  assumes "GetStudy M studyId w = (Inr sconf, w1)"
      and "OptimizationType sconf = OptimizationType_MINIMIZE"
      and "0 \<le> n" and "n \<le> int (length (items parent))"
      and "GetTrials M studyId w1 = (Inr trials, w2)"
  shows "makeChildBracket M F parent studyId n r_i hbparam (w, tr) =
           childLoop M F studyId (ResourceName hbparam)
             (foldl (\<lambda>rtype pc. if pc_Name pc = ResourceName hbparam then pc_Type pc else rtype)
                ParameterType_UNKNOWN_TYPE (Configs sconf))
             r_i 0 (drop (nat n) (items parent)) trials
             (replicate (nat n) []) (replicate (nat n) None)
             (w2, tr @ [M_GetStudy studyId, M_GetTrials studyId])"
  using assms by (simp add: makeChildBracket_def invoke_def slice_from_def)



text \<open>When the survivors outnumber the \<open>n\<close> allocated entries and the Manager registers
  every trial, the child loop registers one trial more than there are entries left and
  panics.\<close>

lemma childLoop_overflow:
  assumes "\<forall>t x. \<exists>tid x'. CreateTrial M t x = (Inr tid, x')"
      and "length tids = length ts" and "i \<le> length tids" and "length tids - i < length child"
  shows "\<exists>s'. childLoop M F studyId resName rtype r_i i child trials tids ts s
                 = (Inl (Panic ''index out of range''), s')
             \<and> length (createdTrials (snd s')) = length (createdTrials (snd s)) + (length tids - i) + 1"
  using assms(2-4)
proof (induction child arbitrary: i trials tids ts s)
  case Nil
  then show ?case by simp
next
  case (Cons e child)
  let ?t = "\<lparr> TrialId = [], StudyId = studyId, ParameterSet = inherited F resName rtype r_i trials e \<rparr>"
  from assms(1) obtain ret x' where ct: "CreateTrial M ?t (fst s) = (Inr ret, x')" by blast
  then have inv: "invoke (M_CreateTrial ?t) (CreateTrial M ?t) s = (Inr ret, (x', snd s @ [M_CreateTrial ?t]))"
    by (simp add: invoke_def)
  show ?case
  proof (cases "i < length tids")
    case False
    with Cons.prems have "i = length tids" by simp
    with inv show ?thesis
      by (simp add: childLoop_step createdTrials_append del: childLoop.simps)
  next
    case True
    let ?trials' = "case lastMatch trials (ev_id e) of
                   None \<Rightarrow> trials
                 | Some j \<Rightarrow> trials[j := (trials ! j)
                       \<lparr> ParameterSet := rewriteResource F resName rtype r_i (ParameterSet (trials ! j)) \<rparr>]"
    let ?tids1 = "tids[i := ret]"
    let ?ts1 = "ts[i := Some \<lparr> TrialId = ret, StudyId = studyId,
                               ParameterSet = inherited F resName rtype r_i trials e \<rparr>]"
    let ?s1 = "(x', snd s @ [M_CreateTrial ?t])"
    have "length ?tids1 = length ?ts1" "Suc i \<le> length ?tids1" "length ?tids1 - Suc i < length child"
      using Cons.prems True by simp_all
    from Cons.IH [OF this, of ?trials' ?s1] obtain s' where
      run: "childLoop M F studyId resName rtype r_i (Suc i) child ?trials' ?tids1 ?ts1 ?s1
                 = (Inl (Panic ''index out of range''), s')"
      and cnt: "length (createdTrials (snd s')) = length (createdTrials (snd ?s1)) + (length ?tids1 - Suc i) + 1"
      by blast
    have "childLoop M F studyId resName rtype r_i i (e # child) trials tids ts s
            = (Inl (Panic ''index out of range''), s')"
      using inv True run by (simp add: childLoop_step del: childLoop.simps)
    moreover have "length (createdTrials (snd s')) = length (createdTrials (snd s)) + (length tids - i) + 1"
      using cnt True by (simp add: createdTrials_append)
    ultimately show ?thesis by blast
  qed
qed

lemma makeChildBracket_minimize_overflow:
  assumes "GetStudy M studyId w = (Inr sconf, w1)"
      and "OptimizationType sconf = OptimizationType_MINIMIZE"
      and "GetTrials M studyId w1 = (Inr trials, w2)"
      and "\<forall>t x. \<exists>tid x'. CreateTrial M t x = (Inr tid, x')"
      and "0 \<le> n" and "2 * n < int (length (items parent))"
  shows "\<exists>s'. makeChildBracket M F parent studyId n r_i hbparam (w, tr)
                 = (Inl (Panic ''index out of range''), s')
             \<and> length (createdTrials (snd s')) = length (createdTrials tr) + nat n + 1"
proof -
  have n: "n \<le> int (length (items parent))" using assms(5,6) by simp
  have fit: "length (replicate (nat n) ([]::string)) = length (replicate (nat n) (None::Trial option))"
    "0 \<le> length (replicate (nat n) ([]::string))"
    "length (replicate (nat n) ([]::string)) - 0 < length (drop (nat n) (items parent))"
    using assms(5,6) by simp_all
  from childLoop_overflow [OF assms(4) fit, of F studyId "ResourceName hbparam"
      "foldl (\<lambda>rtype pc. if pc_Name pc = ResourceName hbparam then pc_Type pc else rtype)
         ParameterType_UNKNOWN_TYPE (Configs sconf)"
      r_i trials "(w2, tr @ [M_GetStudy studyId, M_GetTrials studyId])"]
  show ?thesis
    unfolding makeChildBracket_minimize [OF assms(1,2,5) n assms(3)]
    by (simp add: createdTrials_append)
qed


subsection \<open>The controller\<close>


text \<open>A completed worker without a series, or with a series without a value, ends the
  evaluation in a panic; with a value present its contribution is the value that
  \<^verbatim>\<open>ParseFloat\<close> returns for the last one.\<close>

lemma sumLastValues_missing:
  assumes "WorkerStatus ml = State_COMPLETED"
      and "MetricsLogs ml = [] \<or> Values (hd (MetricsLogs ml)) = []"
  shows "sumLastValues F (ml # mls) vs = Inl (Panic ''index out of range'')"
  using assms by (cases "MetricsLogs ml") auto

lemma sumLastValues_completed:
  assumes "\<forall>ml\<in>set sets. WorkerStatus ml = State_COMPLETED \<and> MetricsLogs ml \<noteq> []
              \<and> Values (hd (MetricsLogs ml)) \<noteq> []"
  shows "sumLastValues F sets vs =
           Inr (Some (foldl (\<lambda>a ml. f_add F a (ParseFloat F (last (Values (hd (MetricsLogs ml))))))
                        vs sets))"
  using assms
proof (induction sets arbitrary: vs)
  case Nil
  show ?case by simp
next
  case (Cons ml sets)
  then obtain ml0 rest where "MetricsLogs ml = ml0 # rest" by (cases "MetricsLogs ml") auto
  with Cons show ?case by simp
qed



lemma createdTrials_requests [simp]: "createdTrials (map M_CreateTrial reqs) = reqs"
  by (induction reqs) simp_all

lemma persisted_requests [simp]: "persisted (map M_CreateTrial reqs) = []"
  by (induction reqs) simp_all

lemma evalLoop_reads:
  "evalLoop M F studyId objName tids bracket s = (res, s') \<Longrightarrow>
     \<exists>ext. snd s' = snd s @ ext \<and> createdTrials ext = [] \<and> persisted ext = []"
proof (induction tids arbitrary: bracket s)
  case Nil
  then show ?case by simp
next
  case (Cons tid tids)
  obtain gw s1 where gw: "invoke (M_GetWorkers studyId tid) (GetWorkers M studyId tid) s = (gw, s1)"
    by (cases "invoke (M_GetWorkers studyId tid) (GetWorkers M studyId tid) s")
  from invoke_record [OF gw] have rec1: "snd s1 = snd s @ [M_GetWorkers studyId tid]" .
  show ?case
  proof (cases gw)
    case (Inl err)
    with Cons.prems gw have "s' = s1" by simp
    with rec1 show ?thesis by simp
  next
    case (Inr workers)
    obtain gm s2 where gm: "invoke (M_GetMetrics studyId (map WorkerId workers) [objName])
            (GetMetrics M studyId (map WorkerId workers) [objName]) s1 = (gm, s2)"
      by (cases "invoke (M_GetMetrics studyId (map WorkerId workers) [objName])
            (GetMetrics M studyId (map WorkerId workers) [objName]) s1")
    from invoke_record [OF gm] rec1
    have rec2: "snd s2 = snd s @ [M_GetWorkers studyId tid, M_GetMetrics studyId (map WorkerId workers) [objName]]"
      by simp
    show ?thesis
    proof (cases gm)
      case (Inl err)
      with Cons.prems gw Inr gm have "s' = s2" by simp
      with rec2 show ?thesis by simp
    next
      case sets: (Inr sets)
      show ?thesis
      proof (cases "\<exists>vs w0 ws. sumLastValues F sets (float64 F 0) = Inr (Some vs) \<and> workers = w0 # ws")
        case False
        with Cons.prems gw Inr gm sets have "s' = s2"
          by (auto split: sum.splits option.splits list.splits)
        with rec2 show ?thesis by simp
      next
        case True
        then obtain vs w0 ws where "sumLastValues F sets (float64 F 0) = Inr (Some vs)" "workers = w0 # ws"
          by blast
        with Cons.prems gw Inr gm sets
        have "evalLoop M F studyId objName tids
           (bracket_append F bracket
              \<lparr> ev_id = w_TrialId w0,
                ev_value = f_div F vs (float64 F (int (length workers))) \<rparr>) s2 = (res, s')"
          by simp
        from Cons.IH [OF this] obtain ext where "snd s' = snd s2 @ ext" "createdTrials ext = []"
          "persisted ext = []" by blast
        with rec2 show ?thesis by simp
      qed
    qed
  qed
qed

lemma evalWorkers_reads:
  assumes "evalWorkers M F studyId hbparam s = (res, s')"
  shows "\<exists>ext. snd s' = snd s @ ext \<and> createdTrials ext = [] \<and> persisted ext = []"
proof -
  obtain r1 s1 where el: "evalLoop M F studyId (ObjectiveValueName hbparam) (evaluatingTrials hbparam)
            \<lparr> items = [], spare = [] \<rparr> s = (r1, s1)"
    by (cases "evalLoop M F studyId (ObjectiveValueName hbparam) (evaluatingTrials hbparam)
            \<lparr> items = [], spare = [] \<rparr> s")
  with assms have "s' = s1" by (auto simp: evalWorkers_def split: sum.splits option.splits)
  with evalLoop_reads [OF el] show ?thesis by simp
qed

lemma makeBracket_run:
  assumes "makeBracket M F studyId n r hbparam s = (Inr (Some (tids, ts)), s')"
  shows "\<exists>ext reqs. snd s' = snd s @ ext \<and> createdTrials ext = reqs \<and> persisted ext = []
           \<and> filled reqs tids ts \<and> (\<forall>q\<in>set reqs. TrialId q = [])"
proof (cases "length (evaluatingTrials hbparam) = 0 \<or> shloopitr hbparam = 0")
  case True
  with assms have "makeMasterBracket M F studyId n r hbparam s = (Inr (tids, ts), s')"
    by (auto simp: makeBracket_def split: prod.splits sum.splits)
  from makeMasterBracket_run [OF this] obtain reqs where
    "snd s' = snd s @ M_GetStudy studyId # map M_CreateTrial reqs"
    "\<forall>q\<in>set reqs. TrialId q = []" "filled reqs tids ts" by blast
  then show ?thesis
    by (intro exI [of _ "M_GetStudy studyId # map M_CreateTrial reqs"] exI [of _ reqs]) simp
next
  case False
  obtain er s1 where ev: "evalWorkers M F studyId hbparam s = (er, s1)"
    by (cases "evalWorkers M F studyId hbparam s")
  from evalWorkers_reads [OF ev] obtain ext1 where
    e1: "snd s1 = snd s @ ext1" "createdTrials ext1 = []" "persisted ext1 = []" by blast
  from assms False ev obtain b where
    "makeChildBracket M F b studyId n r hbparam s1 = (Inr (tids, ts), s')"
    by (auto simp: makeBracket_def split: prod.splits sum.splits option.splits)
  from makeChildBracket_success [OF this] obtain reqs where
    "snd s' = snd s1 @ M_GetStudy studyId # M_GetTrials studyId # map M_CreateTrial reqs"
    "filled reqs tids ts" "\<forall>q\<in>set reqs. TrialId q = []"
    by blast
  then show ?thesis using e1
    by (intro exI [of _ "ext1 @ M_GetStudy studyId # M_GetTrials studyId # map M_CreateTrial reqs"]
          exI [of _ reqs]) (simp add: createdTrials_append persisted_append)
qed




text \<open>A run that has loaded a state with \<open>currentS > 0\<close> is the bracket step followed, when
  trials were made, by the commit.\<close>

lemma GetSuggestions_live:
  assumes dial: "Dial M w = (None, w1)"
      and get: "GetSuggestionParameters M (in_ParamId req) w1 = (Inr sparam, w2)"
      and load: "purseSuggestionParameters M F (in_StudyId req) sparam
                   (w2, tr @ [M_GetSuggestionParameters (in_ParamId req)]) = (Inr hbparam, s1)"
      and live: "0 < currentS hbparam"
      and hb0: "hb0 = (if shloopitr hbparam > currentS hbparam
                       then hbLoopParamUpdate F hbparam else hbparam)"
      and mb: "makeBracket M F (in_StudyId req) (fst (getLoopParam F hb0))
                 (snd (getLoopParam F hb0)) hb0 s1 = (br, s2)"
  shows "GetSuggestions M F req (w, tr) =
     (case br of
        Inl e \<Rightarrow> (Inl e, s2)
      | Inr None \<Rightarrow>
          (Inl (Returned (FailedPrecondition ''Previous workers are not completed.'')), s2)
      | Inr (Some (tids, ts)) \<Rightarrow>
          (Inr ts, snd (saveSuggestionParameters M F (in_StudyId req) (in_SuggestionAlgorithm req)
                          (in_ParamId req)
                          (shLoopParamUpdate (hb0 \<lparr> evaluatingTrials := tids \<rparr>)) s2)))"
proof -
  have step: "GetSuggestions M F req (w, tr) =
     (let hbparam = (if shloopitr hbparam > currentS hbparam
                          then hbLoopParamUpdate F hbparam else hbparam)
           in case makeBracket M F (in_StudyId req) (fst (getLoopParam F hbparam))
                     (snd (getLoopParam F hbparam)) hbparam s1 of
                (Inl e, s) \<Rightarrow> (Inl e, s)
              | (Inr None, s) \<Rightarrow>
                  (Inl (Returned (FailedPrecondition ''Previous workers are not completed.'')), s)
              | (Inr (Some (tids, ts)), s) \<Rightarrow>
                  (case saveSuggestionParameters M F (in_StudyId req) (in_SuggestionAlgorithm req)
                          (in_ParamId req)
                          (shLoopParamUpdate (hbparam \<lparr> evaluatingTrials := tids \<rparr>)) s of
                     (_, s) \<Rightarrow> (Inr ts, s)))"
    using dial get load live
    by (simp add: GetSuggestions_def quietly_def invoke_def del: Let_def split del: if_split)
  show ?thesis
    unfolding step Let_def hb0 [symmetric] mb
    by (cases br) (simp_all split: option.splits prod.splits)
qed



lemma shLoopParamUpdate_trials [simp]:
  "evaluatingTrials (shLoopParamUpdate p) = evaluatingTrials p"
  by (simp add: shLoopParamUpdate_def Let_def)

text \<open>
  Claim C3, amended.  For every \<^verbatim>\<open>GetSuggestions\<close> call that has loaded a state with
  \<open>currentS > 0\<close> and returns \<open>k\<close> trials with a nil error, the requests of the call end
  with the one \<^verbatim>\<open>SetSuggestionParameters\<close> request of the call.  The state it encodes
  has an \<open>evaluatingTrials\<close> list of length \<open>k\<close> that holds, at each position, the id of
  the trial returned at that position (the empty id where the returned entry is nil),
  and the returned trials are, in order, the trials the call has registered with the
  Manager.
\<close>

theorem GetSuggestions_persists_returned_ids:
  assumes dial: "Dial M w = (None, w1)"
      and get: "GetSuggestionParameters M (in_ParamId req) w1 = (Inr sparam, w2)"
      and load: "purseSuggestionParameters M F (in_StudyId req) sparam
                   (w2, tr @ [M_GetSuggestionParameters (in_ParamId req)]) = (Inr hbparam, s1)"
      and live: "0 < currentS hbparam"
      and ret: "GetSuggestions M F req (w, tr) = (Inr ts, (w', tr'))"
  shows "\<exists>hb new. tr' = tr @ new
           \<and> last new = M_SetSuggestionParameters (in_StudyId req) (in_SuggestionAlgorithm req)
                           (in_ParamId req) (encodeParameters F hb)
           \<and> persisted new = [encodeParameters F hb]
           \<and> \<lparr> sp_Name = ''evaluatingTrials'', sp_Value = Join (evaluatingTrials hb) '','' \<rparr>
                \<in> set (encodeParameters F hb)
           \<and> length (evaluatingTrials hb) = length ts
           \<and> (\<forall>i<length ts. evaluatingTrials hb ! i = (case ts ! i of None \<Rightarrow> [] | Some t \<Rightarrow> TrialId t))
           \<and> createdTrials new = map (\<lambda>t. t \<lparr> TrialId := [] \<rparr>) (map the (filter (\<lambda>x. x \<noteq> None) ts))"
proof -
  define hb0 where "hb0 = (if shloopitr hbparam > currentS hbparam
                           then hbLoopParamUpdate F hbparam else hbparam)"
  let ?sid = "in_StudyId req"
  obtain br s2 where mb: "makeBracket M F ?sid (fst (getLoopParam F hb0)) (snd (getLoopParam F hb0)) hb0 s1
                            = (br, s2)"
    by (cases "makeBracket M F ?sid (fst (getLoopParam F hb0)) (snd (getLoopParam F hb0)) hb0 s1")
  note unf = GetSuggestions_live [OF dial get load live hb0_def mb]
  from ret unf obtain tids where br: "br = Inr (Some (tids, ts))"
    by (cases br) (auto split: option.splits)
  let ?hb = "shLoopParamUpdate (hb0 \<lparr> evaluatingTrials := tids \<rparr>)"
  let ?set = "M_SetSuggestionParameters ?sid (in_SuggestionAlgorithm req) (in_ParamId req)
                (encodeParameters F ?hb)"
  from ret unf br have tr': "tr' = snd s2 @ [?set]"
    by (simp add: saveSuggestionParameters_def invoke_def split: prod.splits)
  from mb br have "makeBracket M F ?sid (fst (getLoopParam F hb0)) (snd (getLoopParam F hb0)) hb0 s1
                     = (Inr (Some (tids, ts)), s2)" by simp
  from makeBracket_run [OF this] obtain ext reqs where
    ext: "snd s2 = snd s1 @ ext" "createdTrials ext = reqs" "persisted ext = []"
    and fl: "filled reqs tids ts" and ids: "\<forall>q\<in>set reqs. TrialId q = []"
    by (elim exE conjE)
  from purseSuggestionParameters_record [OF load] obtain pre where
    pre: "snd s1 = tr @ pre" "createdTrials pre = []" "persisted pre = []"
    by (auto simp: createdTrials_append persisted_append)
  let ?new = "pre @ ext @ [?set]"
  have "tr' = tr @ ?new" using tr' ext pre by simp
  moreover have "last ?new = ?set" by simp
  moreover have "persisted ?new = [encodeParameters F ?hb]"
    using ext pre by (simp add: persisted_append)
  moreover have "\<lparr> sp_Name = ''evaluatingTrials'', sp_Value = Join (evaluatingTrials ?hb) '','' \<rparr>
                \<in> set (encodeParameters F ?hb)"
    by (simp add: encodeParameters_def)
  moreover have "length (evaluatingTrials ?hb) = length ts"
    using fl by (simp add: filled_def)
  moreover have "\<forall>i<length ts. evaluatingTrials ?hb ! i = (case ts ! i of None \<Rightarrow> [] | Some t \<Rightarrow> TrialId t)"
    using filled_ids [OF fl] by simp
  moreover have "createdTrials ?new = map (\<lambda>t. t \<lparr> TrialId := [] \<rparr>) (map the (filter (\<lambda>x. x \<noteq> None) ts))"
    using ext pre filled_requests [OF fl ids] by (simp add: createdTrials_append)
  ultimately show ?thesis by (intro exI [of _ ?hb] exI [of _ ?new] conjI)
qed



text \<open>
  Claim C7.  Every trial that \<^verbatim>\<open>makeChildBracket\<close> registers with the Manager comes from
  a survivor \<open>e\<close> of the parent bracket.  If the reply of \<^verbatim>\<open>GetTrials\<close> has a trial with
  the id of \<open>e\<close>, the new trial has as many parameters as that parent trial, each with the
  name and type of the parent's parameter at the same position; the value is the
  parent's for every parameter whose name differs from the resource name, and for the
  resource parameter it is \<open>r_i\<close>, written as an integer if the type of the resource
  parameter in the study config is INT and with four decimals otherwise.  If the reply
  has no trial with that id, the new trial has no parameters.
\<close>

theorem makeChildBracket_preserves_parameters:
  assumes run: "makeChildBracket M F parent studyId n r_i hbparam (w, tr) = (res, (w', tr'))"
      and t: "t \<in> set (createdTrials (drop (length tr) tr'))"
  shows "\<exists>sconf w1 trials w2 rtype.
           GetStudy M studyId w = (Inr sconf, w1) \<and> GetTrials M studyId w1 = (Inr trials, w2)
         \<and> ((\<exists>pc\<in>set (Configs sconf). pc_Name pc = ResourceName hbparam \<and> pc_Type pc = rtype)
            \<or> ((\<forall>pc\<in>set (Configs sconf). pc_Name pc \<noteq> ResourceName hbparam)
                 \<and> rtype = ParameterType_UNKNOWN_TYPE))
         \<and> (\<exists>e\<in>set (items parent @ spare parent).
               (\<exists>pt\<in>set trials. TrialId pt = ev_id e
                  \<and> length (ParameterSet t) = length (ParameterSet pt)
                  \<and> (\<forall>k<length (ParameterSet pt).
                        p_Name (ParameterSet t ! k) = p_Name (ParameterSet pt ! k)
                      \<and> p_Type (ParameterSet t ! k) = p_Type (ParameterSet pt ! k)
                      \<and> p_Value (ParameterSet t ! k) =
                          (if p_Name (ParameterSet pt ! k) = ResourceName hbparam
                           then (if rtype = ParameterType_INT then Itoa (to_int F r_i)
                                 else FormatFloat F r_i)
                           else p_Value (ParameterSet pt ! k))))
             \<or> ((\<forall>pt\<in>set trials. TrialId pt \<noteq> ev_id e) \<and> ParameterSet t = []))"
proof -
  from makeChildBracket_run [OF run]
  consider (study) "tr' = tr @ [M_GetStudy studyId]"
    | (trials) "tr' = tr @ [M_GetStudy studyId, M_GetTrials studyId]"
    | (loop) sconf w1 trials w2 child k where
        "GetStudy M studyId w = (Inr sconf, w1)"
        "(if OptimizationType sconf = OptimizationType_MINIMIZE then slice_from parent n
          else if OptimizationType sconf = OptimizationType_MAXIMIZE then slice_to parent n
          else Inr []) = Inr child"
        "GetTrials M studyId w1 = (Inr trials, w2)"
        "tr' = tr @ M_GetStudy studyId # M_GetTrials studyId
                 # map M_CreateTrial (take k (map (\<lambda>e. \<lparr> TrialId = [], StudyId = studyId,
                  ParameterSet = inherited F (ResourceName hbparam)
                    (foldl (\<lambda>rtype pc. if pc_Name pc = ResourceName hbparam then pc_Type pc else rtype)
                       ParameterType_UNKNOWN_TYPE (Configs sconf)) r_i trials e \<rparr>) child))"
    by (elim disjE exE conjE) simp_all
  then show ?thesis
  proof cases
    case study
    with t show ?thesis by simp
  next
    case trials
    with t show ?thesis by simp
  next
    case (loop sconf w1 trials w2 child k)
    let ?rtype = "foldl (\<lambda>rtype pc. if pc_Name pc = ResourceName hbparam then pc_Type pc else rtype)
                       ParameterType_UNKNOWN_TYPE (Configs sconf)"
    from t loop(4) have "t \<in> set (take k (map (\<lambda>e. \<lparr> TrialId = [], StudyId = studyId,
                  ParameterSet = inherited F (ResourceName hbparam) ?rtype r_i trials e \<rparr>) child))"
      by simp
    then have "t \<in> set (map (\<lambda>e. \<lparr> TrialId = [], StudyId = studyId,
                  ParameterSet = inherited F (ResourceName hbparam) ?rtype r_i trials e \<rparr>) child)"
      by (rule in_set_takeD)
    then obtain e where e: "e \<in> set child"
      and ps: "ParameterSet t = inherited F (ResourceName hbparam) ?rtype r_i trials e"
      by auto
    have "set child \<subseteq> set (items parent @ spare parent)"
      using loop(2) slice_from_items [of parent n child] slice_to_items [of parent n child]
      by (auto split: if_splits)
    with e have e': "e \<in> set (items parent @ spare parent)" by blast
    have rt: "(\<exists>pc\<in>set (Configs sconf). pc_Name pc = ResourceName hbparam \<and> pc_Type pc = ?rtype)
            \<or> ((\<forall>pc\<in>set (Configs sconf). pc_Name pc \<noteq> ResourceName hbparam)
                 \<and> ?rtype = ParameterType_UNKNOWN_TYPE)"
      by (rule rtype_found)
    have par: "(\<exists>pt\<in>set trials. TrialId pt = ev_id e
                  \<and> length (ParameterSet t) = length (ParameterSet pt)
                  \<and> (\<forall>k<length (ParameterSet pt).
                        p_Name (ParameterSet t ! k) = p_Name (ParameterSet pt ! k)
                      \<and> p_Type (ParameterSet t ! k) = p_Type (ParameterSet pt ! k)
                      \<and> p_Value (ParameterSet t ! k) =
                          (if p_Name (ParameterSet pt ! k) = ResourceName hbparam
                           then (if ?rtype = ParameterType_INT then Itoa (to_int F r_i)
                                 else FormatFloat F r_i)
                           else p_Value (ParameterSet pt ! k))))
             \<or> ((\<forall>pt\<in>set trials. TrialId pt \<noteq> ev_id e) \<and> ParameterSet t = [])"
    proof (cases "lastMatch trials (ev_id e)")
      case None
      with ps lastMatch_None [OF None] show ?thesis by (simp add: inherited_def)
    next
      case (Some j)
      from lastMatch_Some [OF Some] have j: "j < length trials" "TrialId (trials ! j) = ev_id e"
        by simp_all
      from ps Some have "ParameterSet t
          = rewriteResource F (ResourceName hbparam) ?rtype r_i (ParameterSet (trials ! j))"
        by (simp add: inherited_def)
      with rewriteResource_pointwise [of F "ResourceName hbparam" ?rtype r_i "ParameterSet (trials ! j)"]
      have "length (ParameterSet t) = length (ParameterSet (trials ! j))
                  \<and> (\<forall>k<length (ParameterSet (trials ! j)).
                        p_Name (ParameterSet t ! k) = p_Name (ParameterSet (trials ! j) ! k)
                      \<and> p_Type (ParameterSet t ! k) = p_Type (ParameterSet (trials ! j) ! k)
                      \<and> p_Value (ParameterSet t ! k) =
                          (if p_Name (ParameterSet (trials ! j) ! k) = ResourceName hbparam
                           then (if ?rtype = ParameterType_INT then Itoa (to_int F r_i)
                                 else FormatFloat F r_i)
                           else p_Value (ParameterSet (trials ! j) ! k)))"
        by simp
      with j have "\<exists>pt\<in>set trials. TrialId pt = ev_id e
                  \<and> length (ParameterSet t) = length (ParameterSet pt)
                  \<and> (\<forall>k<length (ParameterSet pt).
                        p_Name (ParameterSet t ! k) = p_Name (ParameterSet pt ! k)
                      \<and> p_Type (ParameterSet t ! k) = p_Type (ParameterSet pt ! k)
                      \<and> p_Value (ParameterSet t ! k) =
                          (if p_Name (ParameterSet pt ! k) = ResourceName hbparam
                           then (if ?rtype = ParameterType_INT then Itoa (to_int F r_i)
                                 else FormatFloat F r_i)
                           else p_Value (ParameterSet pt ! k)))"
        by (intro bexI [of _ "trials ! j"]) simp_all
      then show ?thesis ..
    qed
    show ?thesis
      apply (rule exI [of _ sconf], rule exI [of _ w1], rule exI [of _ trials],
             rule exI [of _ w2], rule exI [of _ ?rtype])
      apply (intro conjI)
         apply (rule loop(1))
        apply (rule loop(3))
       apply (rule rt)
      apply (rule bexI [of _ e])
       apply (rule par)
      apply (rule e')
      done
  qed
qed



lemma invoke_reply: "invoke c f s = (r, s') \<Longrightarrow> f (fst s) = (r, fst s')"
  by (auto simp: invoke_def split: prod.splits)

lemma sumLastValues_unready:
  "\<exists>ml\<in>set sets. WorkerStatus ml \<noteq> State_COMPLETED \<Longrightarrow> sumLastValues F sets vs \<noteq> Inr (Some v)"
proof (induction sets arbitrary: vs)
  case Nil
  then show ?case by simp
next
  case (Cons ml sets)
  show ?case
  proof (cases "WorkerStatus ml \<noteq> State_COMPLETED")
    case True
    then show ?thesis by simp
  next
    case False
    with Cons.prems have "\<exists>ml\<in>set sets. WorkerStatus ml \<noteq> State_COMPLETED" by simp
    from Cons.IH [OF this] False show ?thesis
      by (cases "MetricsLogs ml") simp_all
  qed
qed

lemma sumLastValues_present:
  "\<forall>ml\<in>set sets. WorkerStatus ml = State_COMPLETED \<longrightarrow>
       MetricsLogs ml \<noteq> [] \<and> Values (hd (MetricsLogs ml)) \<noteq> [] \<Longrightarrow>
     sumLastValues F sets vs \<noteq> Inl e"
proof (induction sets arbitrary: vs)
  case Nil
  then show ?case by simp
next
  case (Cons ml sets)
  show ?case
  proof (cases "WorkerStatus ml = State_COMPLETED")
    case False
    then show ?thesis by simp
  next
    case True
    with Cons.prems have "MetricsLogs ml \<noteq> []" "Values (hd (MetricsLogs ml)) \<noteq> []"
      and "\<forall>ml\<in>set sets. WorkerStatus ml = State_COMPLETED \<longrightarrow>
             MetricsLogs ml \<noteq> [] \<and> Values (hd (MetricsLogs ml)) \<noteq> []" by simp_all
    with Cons.IH True show ?thesis by (cases "MetricsLogs ml") simp_all
  qed
qed

text \<open>One trial of the evaluation loop: either the loop ends there, or it goes on with
  the next trial.\<close>

lemma evalLoop_Cons:
  assumes "evalLoop M F studyId objName (tid # tids) bracket s = (res, s')"
  shows "(\<forall>b. res \<noteq> Inr (Some b))
       \<or> (\<exists>workers x1 sets s2 b2.
             GetWorkers M studyId tid (fst s) = (Inr workers, x1)
           \<and> GetMetrics M studyId (map WorkerId workers) [objName] x1 = (Inr sets, fst s2)
           \<and> (\<exists>vs. sumLastValues F sets (float64 F 0) = Inr (Some vs))
           \<and> evalLoop M F studyId objName tids b2 s2 = (res, s'))"
proof -
  obtain gw s1 where gw: "invoke (M_GetWorkers studyId tid) (GetWorkers M studyId tid) s = (gw, s1)"
    by (cases "invoke (M_GetWorkers studyId tid) (GetWorkers M studyId tid) s")
  show ?thesis
  proof (cases gw)
    case (Inl err)
    with assms gw have "res = Inl (Returned err)" by simp
    then show ?thesis by simp
  next
    case (Inr workers)
    obtain gm s2 where gm: "invoke (M_GetMetrics studyId (map WorkerId workers) [objName])
            (GetMetrics M studyId (map WorkerId workers) [objName]) s1 = (gm, s2)"
      by (cases "invoke (M_GetMetrics studyId (map WorkerId workers) [objName])
            (GetMetrics M studyId (map WorkerId workers) [objName]) s1")
    show ?thesis
    proof (cases gm)
      case (Inl err)
      with assms gw Inr gm have "res = Inl (Returned err)" by simp
      then show ?thesis by simp
    next
      case sets: (Inr sets)
      show ?thesis
      proof (cases "sumLastValues F sets (float64 F 0)")
        case (Inl e)
        with assms gw Inr gm sets have "res = Inl e" by simp
        then show ?thesis by simp
      next
        case sum: (Inr ov)
        show ?thesis
        proof (cases ov)
          case None
          with assms gw Inr gm sets sum have "res = Inr None" by simp
          then show ?thesis by simp
        next
          case (Some vs)
          show ?thesis
          proof (cases workers)
            case Nil
            with assms gw Inr gm sets sum Some have "res = Inr None" by simp
            then show ?thesis by simp
          next
            case (Cons w0 ws)
            let ?b2 = "bracket_append F bracket
              \<lparr> ev_id = w_TrialId w0,
                ev_value = f_div F vs (float64 F (int (length workers))) \<rparr>"
            from assms gw Inr gm sets sum Some Cons
            have "evalLoop M F studyId objName tids ?b2 s2 = (res, s')" by simp
            moreover from invoke_reply [OF gw] Inr
            have "GetWorkers M studyId tid (fst s) = (Inr workers, fst s1)" by simp
            moreover from invoke_reply [OF gm] sets
            have "GetMetrics M studyId (map WorkerId workers) [objName] (fst s1) = (Inr sets, fst s2)"
              by simp
            ultimately show ?thesis using sum Some by blast
          qed
        qed
      qed
    qed
  qed
qed

lemma evalLoop_unready:
  assumes "tid \<in> set tids" and "unready M studyId objName tid"
      and "evalLoop M F studyId objName tids bracket s = (res, s')"
  shows "res \<noteq> Inr (Some b)"
  using assms(1,3)
proof (induction tids arbitrary: bracket s)
  case Nil
  then show ?case by simp
next
  case (Cons t tids)
  from evalLoop_Cons [OF Cons.prems(2)]
  show ?case
  proof (elim disjE exE conjE)
    assume "\<forall>b. res \<noteq> Inr (Some b)"
    then show ?thesis by simp
  next
    fix workers x1 sets s2 b2 vs
    assume gw: "GetWorkers M studyId t (fst s) = (Inr workers, x1)"
      and gm: "GetMetrics M studyId (map WorkerId workers) [objName] x1 = (Inr sets, fst s2)"
      and sum: "sumLastValues F sets (float64 F 0) = Inr (Some vs)"
      and rest: "evalLoop M F studyId objName tids b2 s2 = (res, s')"
    show ?thesis
    proof (cases "t = tid")
      case True
      with assms(2) gw gm have "\<exists>ml\<in>set sets. WorkerStatus ml \<noteq> State_COMPLETED"
        unfolding unready_def by blast
      from sumLastValues_unready [OF this, of F "float64 F 0" vs] sum show ?thesis by simp
    next
      case False
      with Cons.prems(1) have "tid \<in> set tids" by simp
      from Cons.IH [OF this rest] show ?thesis .
    qed
  qed
qed

lemma series_present_Cons:
  "series_present M studyId objName (t # tids) \<Longrightarrow> series_present M studyId objName tids"
  by (simp add: series_present_def)

text \<open>With a value in every completed series the evaluation loop ends without a panic:
  a failure of the loop is an error that a request returned.\<close>

lemma evalLoop_returned:
  assumes "series_present M studyId objName tids"
      and "evalLoop M F studyId objName tids bracket s = (Inl e, s')"
  shows "\<exists>err. e = Returned err"
  using assms
proof (induction tids arbitrary: bracket s)
  case Nil
  then show ?case by simp
next
  case (Cons t tids)
  note rest = series_present_Cons [OF Cons.prems(1)]
  obtain gw s1 where gw: "invoke (M_GetWorkers studyId t) (GetWorkers M studyId t) s = (gw, s1)"
    by (cases "invoke (M_GetWorkers studyId t) (GetWorkers M studyId t) s")
  show ?case
  proof (cases gw)
    case (Inl err)
    with Cons.prems(2) gw show ?thesis by auto
  next
    case (Inr workers)
    obtain gm s2 where gm: "invoke (M_GetMetrics studyId (map WorkerId workers) [objName])
            (GetMetrics M studyId (map WorkerId workers) [objName]) s1 = (gm, s2)"
      by (cases "invoke (M_GetMetrics studyId (map WorkerId workers) [objName])
            (GetMetrics M studyId (map WorkerId workers) [objName]) s1")
    show ?thesis
    proof (cases gm)
      case (Inl err)
      with Cons.prems(2) gw Inr gm show ?thesis by auto
    next
      case sets: (Inr sets)
      from invoke_reply [OF gw] Inr
      have rw: "GetWorkers M studyId t (fst s) = (Inr workers, fst s1)" by simp
      from invoke_reply [OF gm] sets
      have rm: "GetMetrics M studyId (map WorkerId workers) [objName] (fst s1) = (Inr sets, fst s2)"
        by simp
      from Cons.prems(1) rw rm
      have ok: "\<forall>ml\<in>set sets. WorkerStatus ml = State_COMPLETED \<longrightarrow>
                  MetricsLogs ml \<noteq> [] \<and> Values (hd (MetricsLogs ml)) \<noteq> []"
        unfolding series_present_def by (metis list.set_intros(1))
      show ?thesis
      proof (cases "sumLastValues F sets (float64 F 0)")
        case (Inl e')
        with sumLastValues_present [OF ok, of F "float64 F 0" e'] show ?thesis by simp
      next
        case sum: (Inr ov)
        show ?thesis
        proof (cases ov)
          case None
          with Cons.prems(2) gw Inr gm sets sum show ?thesis by simp
        next
          case (Some vs)
          show ?thesis
          proof (cases workers)
            case Nil
            with Cons.prems(2) gw Inr gm sets sum Some show ?thesis by simp
          next
            case (Cons w0 ws)
            with Cons.prems(2) gw Inr gm sets sum Some obtain b2 where
              "evalLoop M F studyId objName tids b2 s2 = (Inl e, s')" by simp
            from Cons.IH [OF rest this] show ?thesis .
          qed
        qed
      qed
    qed
  qed
qed

text \<open>If moreover the two requests never fail, the loop does not fail at all.\<close>

lemma evalLoop_reads_succeed:
  assumes "reads_succeed M studyId objName tids"
      and "series_present M studyId objName tids"
      and "evalLoop M F studyId objName tids bracket s = (res, s')"
  shows "res \<noteq> Inl e"
  using assms
proof (induction tids arbitrary: bracket s)
  case Nil
  then show ?case by auto
next
  case (Cons t tids)
  from Cons.prems(1) have rest: "reads_succeed M studyId objName tids"
    by (simp add: reads_succeed_def)
  note rest' = series_present_Cons [OF Cons.prems(2)]
  from Cons.prems(1) obtain workers x' where
    gw: "GetWorkers M studyId t (fst s) = (Inr workers, x')"
    and gm: "\<forall>y. \<exists>sets y'. GetMetrics M studyId (map WorkerId workers) [objName] y = (Inr sets, y')"
    unfolding reads_succeed_def by (metis list.set_intros(1))
  from gm obtain sets y' where
    gm': "GetMetrics M studyId (map WorkerId workers) [objName] x' = (Inr sets, y')"
    by blast
  from Cons.prems(2) gw gm'
  have ok: "\<forall>ml\<in>set sets. WorkerStatus ml = State_COMPLETED \<longrightarrow>
              MetricsLogs ml \<noteq> [] \<and> Values (hd (MetricsLogs ml)) \<noteq> []"
    unfolding series_present_def by (metis list.set_intros(1))
  have iw: "invoke (M_GetWorkers studyId t) (GetWorkers M studyId t) s
              = (Inr workers, (x', snd s @ [M_GetWorkers studyId t]))"
    using gw by (simp add: invoke_def)
  have im: "invoke (M_GetMetrics studyId (map WorkerId workers) [objName])
            (GetMetrics M studyId (map WorkerId workers) [objName]) (x', snd s @ [M_GetWorkers studyId t])
              = (Inr sets, (y', snd s @ [M_GetWorkers studyId t,
                                        M_GetMetrics studyId (map WorkerId workers) [objName]]))"
    using gm' by (simp add: invoke_def)
  show ?case
  proof (cases "sumLastValues F sets (float64 F 0)")
    case (Inl e')
    with sumLastValues_present [OF ok, of F "float64 F 0" e'] show ?thesis by simp
  next
    case sum: (Inr ov)
    show ?thesis
    proof (cases ov)
      case None
      with Cons.prems(3) iw im sum show ?thesis by auto
    next
      case (Some vs)
      show ?thesis
      proof (cases workers)
        case Nil
        with Cons.prems(3) iw im sum Some show ?thesis by auto
      next
        case (Cons w0 ws)
        with Cons.prems(3) iw im sum Some obtain b2 s2 where
          "evalLoop M F studyId objName tids b2 s2 = (res, s')" by auto
        from Cons.IH [OF rest rest' this] show ?thesis .
      qed
    qed
  qed
qed

text \<open>
  Claim C2, amended.  Let the loaded state have \<open>currentS > 0\<close>, a non-empty
  \<open>evaluatingTrials\<close> and an inner index \<open>shloopitr\<close> that is neither 0 nor beyond
  \<open>currentS\<close>, so that the step evaluates the previous bracket, and let every log set
  that is reported as COMPLETED for an evaluating trial have a first series with at least
  one value.  If some evaluating trial has a worker whose reported status is not
  COMPLETED, then \<^verbatim>\<open>GetSuggestions\<close> returns: its result is an error value, it is not a
  panic and not a fatal exit; it registers no trial and sends no
  \<^verbatim>\<open>SetSuggestionParameters\<close> request.  The error is FAILED_PRECONDITION whenever the
  \<^verbatim>\<open>GetWorkers\<close> and \<^verbatim>\<open>GetMetrics\<close> requests for the evaluating trials succeed.
\<close>

theorem GetSuggestions_unready:
  assumes dial: "Dial M w = (None, w1)"
      and get: "GetSuggestionParameters M (in_ParamId req) w1 = (Inr sparam, w2)"
      and load: "purseSuggestionParameters M F (in_StudyId req) sparam
                   (w2, tr @ [M_GetSuggestionParameters (in_ParamId req)]) = (Inr hbparam, s1)"
      and live: "0 < currentS hbparam"
      and trials: "evaluatingTrials hbparam \<noteq> []"
      and inner: "shloopitr hbparam \<noteq> 0" "shloopitr hbparam \<le> currentS hbparam"
      and tid: "tid \<in> set (evaluatingTrials hbparam)"
      and unready: "unready M (in_StudyId req) (ObjectiveValueName hbparam) tid"
      and present: "series_present M (in_StudyId req) (ObjectiveValueName hbparam)
                      (evaluatingTrials hbparam)"
  shows "\<exists>err w' new. GetSuggestions M F req (w, tr) = (Inl (Returned err), (w', tr @ new))
           \<and> createdTrials new = [] \<and> persisted new = []
           \<and> (reads_succeed M (in_StudyId req) (ObjectiveValueName hbparam) (evaluatingTrials hbparam)
                \<longrightarrow> err = FailedPrecondition ''Previous workers are not completed.'')"
proof -
  let ?sid = "in_StudyId req"
  let ?fp = "FailedPrecondition ''Previous workers are not completed.''"
  have hb0: "hbparam = (if shloopitr hbparam > currentS hbparam
                       then hbLoopParamUpdate F hbparam else hbparam)"
    using inner by simp
  obtain er s2 where el: "evalLoop M F ?sid (ObjectiveValueName hbparam) (evaluatingTrials hbparam)
            \<lparr> items = [], spare = [] \<rparr> s1 = (er, s2)"
    by (cases "evalLoop M F ?sid (ObjectiveValueName hbparam) (evaluatingTrials hbparam)
            \<lparr> items = [], spare = [] \<rparr> s1")
  from evalLoop_unready [OF tid unready el] have nb: "\<forall>b. er \<noteq> Inr (Some b)" by blast
  from evalLoop_reads [OF el] obtain ext where
    ext: "snd s2 = snd s1 @ ext" "createdTrials ext = []" "persisted ext = []" by blast
  from purseSuggestionParameters_record [OF load] obtain pre where
    pre: "snd s1 = tr @ pre" "createdTrials pre = []" "persisted pre = []"
    by (auto simp: createdTrials_append persisted_append)
  define br where "br = (case er of Inl e \<Rightarrow> Inl e | Inr b \<Rightarrow> (Inr None :: failure + (string list \<times> Trial option list) option))"
  have mb: "makeBracket M F ?sid (fst (getLoopParam F hbparam)) (snd (getLoopParam F hbparam)) hbparam s1
              = (br, s2)"
    using trials inner(1) el nb
    by (auto simp: makeBracket_def evalWorkers_def br_def split: sum.splits option.splits)
  note run = GetSuggestions_live [OF dial get load live hb0 mb]
  have "\<exists>err. (er = Inl (Returned err) \<or> (er = Inr None \<and> err = ?fp))"
  proof (cases er)
    case (Inl e)
    with el evalLoop_returned [OF present, of F "\<lparr> items = [], spare = [] \<rparr>" s1 e s2]
    show ?thesis by auto
  next
    case (Inr ob)
    with nb show ?thesis by (cases ob) simp_all
  qed
  then obtain err where err: "er = Inl (Returned err) \<or> (er = Inr None \<and> err = ?fp)" ..
  have "GetSuggestions M F req (w, tr) = (Inl (Returned err), (fst s2, tr @ (pre @ ext)))"
    using run ext pre err by (auto simp: br_def prod_eq_iff)
  moreover have "createdTrials (pre @ ext) = []" "persisted (pre @ ext) = []"
    using ext pre by (simp_all add: createdTrials_append persisted_append)
  moreover have "reads_succeed M ?sid (ObjectiveValueName hbparam) (evaluatingTrials hbparam)
                \<longrightarrow> err = ?fp"
  proof
    assume "reads_succeed M ?sid (ObjectiveValueName hbparam) (evaluatingTrials hbparam)"
    from evalLoop_reads_succeed [OF this present el] err show "err = ?fp" by auto
  qed
  ultimately show ?thesis
    by (intro exI [of _ err] exI [of _ "fst s2"] exI [of _ "pre @ ext"] conjI)
qed


subsection \<open>The parameter codec\<close>


subsection \<open>Decimal integers\<close>

lemma decimal_digit:
  assumes "m < 10"
  shows "digit_val (''0123456789'' ! m) = m" and "is_digit (''0123456789'' ! m)"
    and "''0123456789'' ! m \<noteq> CHR ''-''" and "''0123456789'' ! m \<noteq> CHR ''+''"
proof -
  from assms have "m = 0 \<or> m = 1 \<or> m = 2 \<or> m = 3 \<or> m = 4 \<or> m = 5 \<or> m = 6 \<or> m = 7 \<or> m = 8 \<or> m = 9"
    by arith
  then show "digit_val (''0123456789'' ! m) = m" and "is_digit (''0123456789'' ! m)"
    and "''0123456789'' ! m \<noteq> CHR ''-''" and "''0123456789'' ! m \<noteq> CHR ''+''"
    by (auto simp: digit_val_def is_digit_def)
qed

lemma utoa_digits: "list_all is_digit (utoa k) \<and> utoa k \<noteq> []"
proof (induction k rule: utoa.induct)
  case (1 n)
  show ?case
  proof (cases "n < 10")
    case True
    then show ?thesis by (simp add: utoa_digit decimal_digit)
  next
    case False
    with 1 show ?thesis by (simp add: utoa_more decimal_digit)
  qed
qed

lemma atou_snoc: "atou (ds @ [d]) = 10 * atou ds + digit_val d"
  by (simp add: atou_def)

lemma atou_utoa: "atou (utoa k) = k"
proof (induction k rule: utoa.induct)
  case (1 n)
  show ?case
  proof (cases "n < 10")
    case True
    then show ?thesis by (simp add: utoa_digit atou_def decimal_digit)
  next
    case False
    with 1 have "atou (utoa (n div 10)) = n div 10" by simp
    with False show ?thesis by (simp add: utoa_more atou_snoc decimal_digit)
  qed
qed

lemma utoa_first: "\<exists>c cs. utoa k = c # cs \<and> c \<noteq> CHR ''-'' \<and> c \<noteq> CHR ''+''"
proof (induction k rule: utoa.induct)
  case (1 n)
  show ?case
  proof (cases "n < 10")
    case True
    then show ?thesis by (simp add: utoa_digit decimal_digit)
  next
    case False
    with 1 obtain c cs where "utoa (n div 10) = c # cs" "c \<noteq> CHR ''-''" "c \<noteq> CHR ''+''" by blast
    with False show ?thesis by (simp add: utoa_more)
  qed
qed

lemma Atoi_Itoa:
  assumes "- (2 ^ 63) \<le> i" and "i < 2 ^ 63"
  shows "Atoi (Itoa i) = i"
proof (cases "i < 0")
  case True
  have "Atoi (CHR ''-'' # utoa (nat (- i))) = max (- (2 ^ 63)) (- int (atou (utoa (nat (- i)))))"
    using utoa_digits [of "nat (- i)"] by (simp add: Atoi_def)
  with True assms show ?thesis by (simp add: Itoa_def atou_utoa)
next
  case False
  obtain c cs where u: "utoa (nat i) = c # cs" "c \<noteq> CHR ''-''" "c \<noteq> CHR ''+''"
    using utoa_first [of "nat i"] by blast
  have "Atoi (utoa (nat i)) = min (2 ^ 63 - 1) (int (atou (utoa (nat i))))"
    using utoa_digits [of "nat i"] u by (simp add: Atoi_def)
  with False assms show ?thesis by (simp add: Itoa_def atou_utoa)
qed

subsection \<open>Joining and splitting\<close>

lemma Split_plain: "c \<notin> set x \<Longrightarrow> Split x c = [x]"
  by (induction x) auto

lemma Split_piece: "c \<notin> set x \<Longrightarrow> Split (x @ c # rest) c = x # Split rest c"
  by (induction x) auto

lemma Split_Join:
  assumes "xs \<noteq> []" and "\<forall>x\<in>set xs. c \<notin> set x"
  shows "Split (Join xs [c]) c = xs"
  using assms
proof (induction xs "[c]" rule: Join.induct)
  case 1
  then show ?case by simp
next
  case (2 x)
  then show ?case by (simp add: Split_plain)
next
  case (3 x y ys)
  then show ?case by (simp add: Split_piece)
qed



lemma decode_fields:
  "foldl (setParameter F) (unsetParameters F) (encodeParameters F s) =
     \<lparr> eta = ParseFloat F (FormatFloat F (eta s)), sMax = Atoi (Itoa (sMax s)),
       b_l = ParseFloat F (FormatFloat F (b_l s)), r_l = ParseFloat F (FormatFloat F (r_l s)),
       hb_r = ParseFloat F (FormatFloat F (hb_r s)), hb_n = Atoi (Itoa (hb_n s)),
       shloopitr = Atoi (Itoa (shloopitr s)), currentS = Atoi (Itoa (currentS s)),
       ResourceName = ResourceName s, ObjectiveValueName = [],
       evaluatingTrials = Split (Join (evaluatingTrials s) '','') CHR '','' \<rparr>"
  by (simp add: encodeParameters_def setParameter_def unsetParameters_def)

text \<open>
  Claim C4, amended.  For every Hyperband state \<open>s\<close> that the wire format carries exactly
  (\<open>wire_exact\<close>: \<open>r_l > 0\<close>, \<open>eta > 0\<close>, a non-empty resource name, no numeric field at
  the sentinel \<open>-1\<close>, floating-point fields that survive the four-decimal text, 64-bit
  integers, a non-empty list of trial ids without commas) and whose objective name is the
  one of the study, decoding the encoded parameter list yields \<open>s\<close>; the decoder reads
  the objective name, which is not encoded, from the study.  An empty list of trial ids
  is encoded as the empty text.
\<close>

theorem decode_encode_roundtrip:
  assumes exact: "wire_exact F s"
      and study: "GetStudy M studyId w = (Inr sconf, w')"
      and objective: "sc_ObjectiveValueName sconf = ObjectiveValueName s"
  shows "purseSuggestionParameters M F studyId (encodeParameters F s) (w, tr)
           = (Inr s, (w', tr @ [M_GetStudy studyId]))
       \<and> (evaluatingTrials s0 = [] \<longrightarrow>
            \<lparr> sp_Name = ''evaluatingTrials'', sp_Value = [] \<rparr> \<in> set (encodeParameters F s0))"
proof -
  from exact have ints: "Atoi (Itoa (sMax s)) = sMax s" "Atoi (Itoa (hb_n s)) = hb_n s"
    "Atoi (Itoa (shloopitr s)) = shloopitr s" "Atoi (Itoa (currentS s)) = currentS s"
    by (simp_all add: wire_exact_def Atoi_Itoa)
  from exact have trials: "Split (Join (evaluatingTrials s) '','') CHR '','' = evaluatingTrials s"
    by (simp add: wire_exact_def Split_Join)
  from exact have floats: "ParseFloat F (FormatFloat F (eta s)) = eta s"
    "ParseFloat F (FormatFloat F (b_l s)) = b_l s" "ParseFloat F (FormatFloat F (r_l s)) = r_l s"
    "ParseFloat F (FormatFloat F (hb_r s)) = hb_r s"
    by (simp_all add: wire_exact_def)
  have dec: "foldl (setParameter F) (unsetParameters F) (encodeParameters F s)
               = s \<lparr> ObjectiveValueName := [] \<rparr>"
    unfolding decode_fields ints trials floats by (cases s) simp
  from exact have keep: "deriveDefaults F s = s"
    by (simp add: deriveDefaults_def wire_exact_def Let_def)
  have same: "s \<lparr> ObjectiveValueName := ObjectiveValueName s \<rparr> = s" by simp
  from exact have req: "\<not> f_le F (r_l s) (float64 F 0)" "ResourceName s \<noteq> []"
    "\<not> f_le F (eta s) (float64 F 0)"
    by (simp_all add: wire_exact_def)
  have "purseSuggestionParameters M F studyId (encodeParameters F s) (w, tr)
           = (Inr s, (w', tr @ [M_GetStudy studyId]))"
    unfolding purseSuggestionParameters_def dec
    using req study by (simp add: invoke_def objective same keep)
  moreover have "evaluatingTrials s0 = [] \<longrightarrow>
            \<lparr> sp_Name = ''evaluatingTrials'', sp_Value = [] \<rparr> \<in> set (encodeParameters F s0)"
    by (simp add: encodeParameters_def)
  ultimately show ?thesis by simp
qed



section \<open>Runs on the concrete inputs\<close>


lemmas input_simps = study_of_def trial_of_def trials3_def request_def sparam_round1_def hb_round1_def
  worker_of_def logs_of_def workers_done_def metrics_done_def workers_mixed_def metrics_mixed_def
  workers_failing_def manager_round1_def manager_unready_def manager_failing_def parent_round1_def
  hb_round2_def sparam_done_def hb_done_def manager_done_def hb_first_def
  metrics_missing_def manager_missing_def metrics_mixed_missing_def manager_mixed_missing_def

lemmas codec_simps = purseSuggestionParameters_def setParameter_def unsetParameters_def
  deriveDefaults_def encodeParameters_def saveSuggestionParameters_def

lemma load_round1:
  "purseSuggestionParameters (manager_round1 opt) exact_stdlib ''s'' sparam_round1
     (0, [M_GetSuggestionParameters ''p''])
     = (Inr hb_round1, (0, [M_GetSuggestionParameters ''p'', M_GetStudy ''s'']))"
  by (simp add: codec_simps run_simps input_simps)

lemma eval_round1:
  "evalWorkers (manager_round1 opt) exact_stdlib ''s'' hb_round1 (0, tr)
     = (Inr (Some parent_round1),
        (0, tr @ [M_GetWorkers ''s'' ''t1'', M_GetMetrics ''s'' [''w-t1''] [''score''],
                  M_GetWorkers ''s'' ''t2'', M_GetMetrics ''s'' [''w-t2''] [''score''],
                  M_GetWorkers ''s'' ''t3'', M_GetMetrics ''s'' [''w-t3''] [''score'']]))"
  by (simp add: evalWorkers_def run_simps input_simps)

text \<open>
  Claim C1 says that for a MINIMIZE study the child bracket is made of exactly the last
  \<open>n\<close> entries of the parent bracket and that exactly \<open>n\<close> trials are created and
  returned.  The code takes \<^verbatim>\<open>parent[n:]\<close>, the entries from index \<open>n\<close> on.  With the
  parent bracket of three entries and \<open>n = 1\<close> the survivors are \<^verbatim>\<open>t3\<close> and \<^verbatim>\<open>t1\<close>:
  two trials are registered, the first of them from \<^verbatim>\<open>t3\<close>, which has not the lowest
  score, and writing the second id into the result slice of length 1 panics, so nothing
  is returned.
\<close>

theorem makeChildBracket_minimize_from_n:
  "makeChildBracket (manager_round1 OptimizationType_MINIMIZE) exact_stdlib parent_round1
     ''s'' 1 3 hb_round1 (0, [])
   = (Inl (Panic ''index out of range''),
      (2, [M_GetStudy ''s'', M_GetTrials ''s'',
           M_CreateTrial (trial_of [] ''0.3000'' ''3''),
           M_CreateTrial (trial_of [] ''0.1000'' ''3'')]))"
  by (simp add: makeChildBracket_def run_simps input_simps)

lemma child_round1:
  "makeChildBracket (manager_round1 OptimizationType_MAXIMIZE) exact_stdlib parent_round1
     ''s'' 1 3 hb_round1 (0, [])
   = (Inr ([''trial-0''], [Some (trial_of ''trial-0'' ''0.2000'' ''3'')]),
      (1, [M_GetStudy ''s'', M_GetTrials ''s'', M_CreateTrial (trial_of [] ''0.2000'' ''3'')]))"
  by (simp add: makeChildBracket_def run_simps input_simps)

text \<open>
  Claim C5 says that a completed worker whose metric series is missing contributes 0 to
  the score of its trial, with no error and no abnormal termination.  The code reads the
  last value of the first series without a check of the lengths: for one completed
  worker whose series has no value, \<^verbatim>\<open>evalWorkers\<close> panics after the two reads of the
  first trial.
\<close>

theorem evalWorkers_missing_series_panics:
  "evalWorkers manager_missing exact_stdlib ''s'' hb_round1 (0, [])
   = (Inl (Panic ''index out of range''),
      (0, [M_GetWorkers ''s'' ''t1'', M_GetMetrics ''s'' [''w-t1''] [''score'']]))"
  by (simp add: evalWorkers_def run_simps input_simps)

lemma run_round1:
  "GetSuggestions (manager_round1 OptimizationType_MAXIMIZE) exact_stdlib request (0, [])
   = (Inr [Some (trial_of ''trial-0'' ''0.2000'' ''3'')],
      (1, [M_GetSuggestionParameters ''p'', M_GetStudy ''s'',
           M_GetWorkers ''s'' ''t1'', M_GetMetrics ''s'' [''w-t1''] [''score''],
           M_GetWorkers ''s'' ''t2'', M_GetMetrics ''s'' [''w-t2''] [''score''],
           M_GetWorkers ''s'' ''t3'', M_GetMetrics ''s'' [''w-t3''] [''score''],
           M_GetStudy ''s'', M_GetTrials ''s'', M_CreateTrial (trial_of [] ''0.2000'' ''3''),
           M_SetSuggestionParameters ''s'' ''hyperband'' ''p'' (encodeParameters exact_stdlib hb_round2)]))"
  by (simp add: GetSuggestions_def makeBracket_def getLoopParam_def hbLoopParamUpdate_def
        shLoopParamUpdate_def evalWorkers_def makeChildBracket_def codec_simps run_simps input_simps)


text \<open>
  Claim C6.  If the state loaded at the start of a \<^verbatim>\<open>GetSuggestions\<close> call has
  \<open>currentS \<le> 0\<close>, the call returns the empty list of trials with a nil error, in the
  state the load has left; it registers no trial and sends no
  \<^verbatim>\<open>SetSuggestionParameters\<close> request.
\<close>

theorem GetSuggestions_terminated:
  assumes dial: "Dial M w = (None, w1)"
      and get: "GetSuggestionParameters M (in_ParamId req) w1 = (Inr sparam, w2)"
      and load: "purseSuggestionParameters M F (in_StudyId req) sparam
                   (w2, tr @ [M_GetSuggestionParameters (in_ParamId req)]) = (Inr hbparam, s1)"
      and stop: "currentS hbparam \<le> 0"
  shows "GetSuggestions M F req (w, tr) = (Inr [], s1)
       \<and> createdTrials (snd s1) = createdTrials tr
       \<and> persisted (snd s1) = persisted tr"
proof -
  have "GetSuggestions M F req (w, tr) = (Inr [], s1)"
    using dial get load stop by (simp add: GetSuggestions_def quietly_def invoke_def)
  moreover from purseSuggestionParameters_record [OF load]
  have "createdTrials (snd s1) = createdTrials tr \<and> persisted (snd s1) = persisted tr"
    by (auto simp: createdTrials_append persisted_append)
  ultimately show ?thesis by simp
qed



lemma dial_plain: "Dial (plain_manager sconf trials workers metrics sparam) w = (None, w)"
  by (simp add: plain_manager_sel)

lemma load_done:
  "purseSuggestionParameters manager_done exact_stdlib (in_StudyId request) sparam_done
     (0, [] @ [M_GetSuggestionParameters (in_ParamId request)])
   = (Inr hb_done, (0, [M_GetSuggestionParameters ''p'', M_GetStudy ''s'']))"
  by (simp add: codec_simps run_simps input_simps)

text \<open>
  The ended schedule: the stored parameters have \<open>currentS = 0\<close>.
\<close>

theorem GetSuggestions_terminated_witness:
  "currentS hb_done \<le> 0
   \<and> GetSuggestions manager_done exact_stdlib request (0, [])
       = (Inr [], (0, [M_GetSuggestionParameters ''p'', M_GetStudy ''s'']))
   \<and> createdTrials (snd (0::nat, [M_GetSuggestionParameters ''p'', M_GetStudy ''s''])) = createdTrials []
   \<and> persisted (snd (0::nat, [M_GetSuggestionParameters ''p'', M_GetStudy ''s''])) = persisted []"
proof -
  have stop: "currentS hb_done \<le> 0" by (simp add: hb_done_def)
  have dial: "Dial manager_done 0 = (None, 0)" by (simp add: manager_done_def dial_plain)
  have get: "GetSuggestionParameters manager_done (in_ParamId request) 0 = (Inr sparam_done, 0)"
    by (simp add: manager_done_def plain_manager_sel)
  from GetSuggestions_terminated [OF dial get load_done stop] stop show ?thesis by simp
qed

text \<open>
  Claim C3 as stated fails for a call on an ended schedule: the call returns no trial
  with a nil error and sends no \<^verbatim>\<open>SetSuggestionParameters\<close> request, while the stored
  parameters still name the trial \<^verbatim>\<open>trial-12\<close> under \<^verbatim>\<open>evaluatingTrials\<close>.
\<close>

theorem GetSuggestions_terminal_call_persists_nothing:
  "fst (GetSuggestions manager_done exact_stdlib request (0, [])) = Inr []
   \<and> persisted (snd (snd (GetSuggestions manager_done exact_stdlib request (0, [])))) = []
   \<and> \<lparr> sp_Name = ''evaluatingTrials'', sp_Value = ''trial-12'' \<rparr> \<in> set sparam_done"
  by (simp add: GetSuggestions_def codec_simps run_simps input_simps)

lemma load_round1_request:
  "purseSuggestionParameters (manager_round1 opt) exact_stdlib (in_StudyId request) sparam_round1
     (0, [] @ [M_GetSuggestionParameters (in_ParamId request)])
   = (Inr hb_round1, (0, [M_GetSuggestionParameters ''p'', M_GetStudy ''s'']))"
  by (simp add: request_def load_round1)

text \<open>
  The second round of a MAXIMIZE study: the three trials are ranked, \<^verbatim>\<open>t2\<close> is
  promoted with \<^verbatim>\<open>epochs = 3\<close>, and the persisted state names the new trial.
\<close>

theorem GetSuggestions_persists_returned_ids_witness:
  "GetSuggestions (manager_round1 OptimizationType_MAXIMIZE) exact_stdlib request (0, [])
   = (Inr [Some (trial_of ''trial-0'' ''0.2000'' ''3'')],
      (1, [M_GetSuggestionParameters ''p'', M_GetStudy ''s'',
           M_GetWorkers ''s'' ''t1'', M_GetMetrics ''s'' [''w-t1''] [''score''],
           M_GetWorkers ''s'' ''t2'', M_GetMetrics ''s'' [''w-t2''] [''score''],
           M_GetWorkers ''s'' ''t3'', M_GetMetrics ''s'' [''w-t3''] [''score''],
           M_GetStudy ''s'', M_GetTrials ''s'', M_CreateTrial (trial_of [] ''0.2000'' ''3''),
           M_SetSuggestionParameters ''s'' ''hyperband'' ''p'' (encodeParameters exact_stdlib hb_round2)]))
   \<and> (\<exists>hb new.
        [M_GetSuggestionParameters ''p'', M_GetStudy ''s'',
           M_GetWorkers ''s'' ''t1'', M_GetMetrics ''s'' [''w-t1''] [''score''],
           M_GetWorkers ''s'' ''t2'', M_GetMetrics ''s'' [''w-t2''] [''score''],
           M_GetWorkers ''s'' ''t3'', M_GetMetrics ''s'' [''w-t3''] [''score''],
           M_GetStudy ''s'', M_GetTrials ''s'', M_CreateTrial (trial_of [] ''0.2000'' ''3''),
           M_SetSuggestionParameters ''s'' ''hyperband'' ''p'' (encodeParameters exact_stdlib hb_round2)]
          = [] @ new
        \<and> last new = M_SetSuggestionParameters (in_StudyId request) (in_SuggestionAlgorithm request)
                           (in_ParamId request) (encodeParameters exact_stdlib hb)
        \<and> persisted new = [encodeParameters exact_stdlib hb]
        \<and> \<lparr> sp_Name = ''evaluatingTrials'', sp_Value = Join (evaluatingTrials hb) '','' \<rparr>
                \<in> set (encodeParameters exact_stdlib hb)
        \<and> length (evaluatingTrials hb) = length [Some (trial_of ''trial-0'' ''0.2000'' ''3'')]
        \<and> (\<forall>i<length [Some (trial_of ''trial-0'' ''0.2000'' ''3'')].
              evaluatingTrials hb ! i =
                (case [Some (trial_of ''trial-0'' ''0.2000'' ''3'')] ! i of
                   None \<Rightarrow> [] | Some t \<Rightarrow> TrialId t))
        \<and> createdTrials new = map (\<lambda>t. t \<lparr> TrialId := [] \<rparr>)
              (map the (filter (\<lambda>x. x \<noteq> None) [Some (trial_of ''trial-0'' ''0.2000'' ''3'')])))"
proof -
  have dial: "Dial (manager_round1 OptimizationType_MAXIMIZE) 0 = (None, 0)"
    by (simp add: manager_round1_def dial_plain)
  have get: "GetSuggestionParameters (manager_round1 OptimizationType_MAXIMIZE) (in_ParamId request) 0
               = (Inr sparam_round1, 0)"
    by (simp add: manager_round1_def plain_manager_sel)
  have live: "0 < currentS hb_round1" by (simp add: hb_round1_def)
  from GetSuggestions_persists_returned_ids [OF dial get load_round1_request live run_round1] run_round1
  show ?thesis by (intro conjI)
qed

text \<open>
  The trial promoted from \<^verbatim>\<open>t2\<close> keeps the learning rate of \<^verbatim>\<open>t2\<close>.
\<close>

theorem makeChildBracket_preserves_parameters_witness:
  "\<exists>sconf w1 trials w2 rtype.
       GetStudy (manager_round1 OptimizationType_MAXIMIZE) ''s'' 0 = (Inr sconf, w1)
     \<and> GetTrials (manager_round1 OptimizationType_MAXIMIZE) ''s'' w1 = (Inr trials, w2)
     \<and> ((\<exists>pc\<in>set (Configs sconf). pc_Name pc = ResourceName hb_round1 \<and> pc_Type pc = rtype)
        \<or> ((\<forall>pc\<in>set (Configs sconf). pc_Name pc \<noteq> ResourceName hb_round1)
             \<and> rtype = ParameterType_UNKNOWN_TYPE))
     \<and> (\<exists>e\<in>set (items parent_round1 @ spare parent_round1).
           (\<exists>pt\<in>set trials. TrialId pt = ev_id e
              \<and> length (ParameterSet (trial_of [] ''0.2000'' ''3'')) = length (ParameterSet pt)
              \<and> (\<forall>k<length (ParameterSet pt).
                    p_Name (ParameterSet (trial_of [] ''0.2000'' ''3'') ! k) = p_Name (ParameterSet pt ! k)
                  \<and> p_Type (ParameterSet (trial_of [] ''0.2000'' ''3'') ! k) = p_Type (ParameterSet pt ! k)
                  \<and> p_Value (ParameterSet (trial_of [] ''0.2000'' ''3'') ! k) =
                      (if p_Name (ParameterSet pt ! k) = ResourceName hb_round1
                       then (if rtype = ParameterType_INT then Itoa (to_int exact_stdlib 3)
                             else FormatFloat exact_stdlib 3)
                       else p_Value (ParameterSet pt ! k))))
         \<or> ((\<forall>pt\<in>set trials. TrialId pt \<noteq> ev_id e)
              \<and> ParameterSet (trial_of [] ''0.2000'' ''3'') = []))"
proof -
  have made: "trial_of [] ''0.2000'' ''3''
      \<in> set (createdTrials (drop (length ([]::mgr_call list))
           [M_GetStudy ''s'', M_GetTrials ''s'', M_CreateTrial (trial_of [] ''0.2000'' ''3'')]))"
    by simp
  from makeChildBracket_preserves_parameters [OF child_round1 made] show ?thesis .
qed



lemma load_unready:
  "purseSuggestionParameters manager_unready exact_stdlib (in_StudyId request) sparam_round1
     (0, [] @ [M_GetSuggestionParameters (in_ParamId request)])
   = (Inr hb_round1, (0, [M_GetSuggestionParameters ''p'', M_GetStudy ''s'']))"
  by (simp add: codec_simps run_simps input_simps)

lemma unready_t2: "unready manager_unready (in_StudyId request) (ObjectiveValueName hb_round1) ''t2''"
  by (simp add: unready_def manager_unready_def plain_manager_sel workers_mixed_def metrics_mixed_def
        worker_of_def logs_of_def)

lemma reads_succeed_round1:
  "reads_succeed manager_unready (in_StudyId request) (ObjectiveValueName hb_round1)
     (evaluatingTrials hb_round1)"
  by (simp add: reads_succeed_def manager_unready_def plain_manager_sel workers_mixed_def
        metrics_mixed_def)

lemma series_present_round1:
  "series_present manager_unready (in_StudyId request) (ObjectiveValueName hb_round1)
     (evaluatingTrials hb_round1)"
  by (auto simp: series_present_def manager_unready_def plain_manager_sel workers_mixed_def
        metrics_mixed_def worker_of_def logs_of_def)

text \<open>
  The worker of \<^verbatim>\<open>t2\<close> is still running: the call returns FAILED_PRECONDITION after
  the reads of \<^verbatim>\<open>t1\<close> and \<^verbatim>\<open>t2\<close>.
\<close>

theorem GetSuggestions_unready_witness:
  "unready manager_unready ''s'' ''score'' ''t2''
   \<and> series_present manager_unready ''s'' ''score'' [''t1'', ''t2'', ''t3'']
   \<and> reads_succeed manager_unready ''s'' ''score'' [''t1'', ''t2'', ''t3'']
   \<and> GetSuggestions manager_unready exact_stdlib request (0, [])
       = (Inl (Returned (FailedPrecondition ''Previous workers are not completed.'')),
          (0, [M_GetSuggestionParameters ''p'', M_GetStudy ''s'',
               M_GetWorkers ''s'' ''t1'', M_GetMetrics ''s'' [''w-t1''] [''score''],
               M_GetWorkers ''s'' ''t2'', M_GetMetrics ''s'' [''w-t2''] [''score'']]))
   \<and> (\<exists>err w' new. GetSuggestions manager_unready exact_stdlib request (0, [])
                       = (Inl (Returned err), (w', [] @ new))
           \<and> createdTrials new = [] \<and> persisted new = []
           \<and> (reads_succeed manager_unready (in_StudyId request) (ObjectiveValueName hb_round1)
                  (evaluatingTrials hb_round1)
                \<longrightarrow> err = FailedPrecondition ''Previous workers are not completed.''))"
proof -
  have dial: "Dial manager_unready 0 = (None, 0)" by (simp add: manager_unready_def dial_plain)
  have get: "GetSuggestionParameters manager_unready (in_ParamId request) 0 = (Inr sparam_round1, 0)"
    by (simp add: manager_unready_def plain_manager_sel)
  have live: "0 < currentS hb_round1" and trials: "evaluatingTrials hb_round1 \<noteq> []"
    and inner: "shloopitr hb_round1 \<noteq> 0" "shloopitr hb_round1 \<le> currentS hb_round1"
    and tid: "''t2'' \<in> set (evaluatingTrials hb_round1)"
    by (simp_all add: hb_round1_def)
  have run: "GetSuggestions manager_unready exact_stdlib request (0, [])
       = (Inl (Returned (FailedPrecondition ''Previous workers are not completed.'')),
          (0, [M_GetSuggestionParameters ''p'', M_GetStudy ''s'',
               M_GetWorkers ''s'' ''t1'', M_GetMetrics ''s'' [''w-t1''] [''score''],
               M_GetWorkers ''s'' ''t2'', M_GetMetrics ''s'' [''w-t2''] [''score'']]))"
    by (simp add: GetSuggestions_def makeBracket_def getLoopParam_def evalWorkers_def
          codec_simps run_simps input_simps)
  have facts: "unready manager_unready ''s'' ''score'' ''t2''"
    "series_present manager_unready ''s'' ''score'' [''t1'', ''t2'', ''t3'']"
    "reads_succeed manager_unready ''s'' ''score'' [''t1'', ''t2'', ''t3'']"
    using unready_t2 series_present_round1 reads_succeed_round1
    by (simp_all add: request_def hb_round1_def)
  from GetSuggestions_unready [OF dial get load_unready live trials inner tid unready_t2
         series_present_round1] run facts
  show ?thesis by (intro conjI)
qed

text \<open>
  The run that the condition on the series leaves out: the worker of \<^verbatim>\<open>t2\<close> is
  running, the completed worker of \<^verbatim>\<open>t1\<close> has no value, and the call ends in the
  panic of \<^verbatim>\<open>evalWorkers\<close> at \<^verbatim>\<open>t1\<close>, before the worker of \<^verbatim>\<open>t2\<close> is read.
\<close>

lemma unready_after_missing_series_panics:
  "unready manager_mixed_missing ''s'' ''score'' ''t2''
   \<and> \<not> series_present manager_mixed_missing ''s'' ''score'' [''t1'', ''t2'', ''t3'']
   \<and> GetSuggestions manager_mixed_missing exact_stdlib request (0, [])
       = (Inl (Panic ''index out of range''),
          (0, [M_GetSuggestionParameters ''p'', M_GetStudy ''s'',
               M_GetWorkers ''s'' ''t1'', M_GetMetrics ''s'' [''w-t1''] [''score'']]))"
proof (intro conjI)
  show "unready manager_mixed_missing ''s'' ''score'' ''t2''"
    by (simp add: unready_def manager_mixed_missing_def plain_manager_sel workers_mixed_def
          metrics_mixed_missing_def worker_of_def)
  show "\<not> series_present manager_mixed_missing ''s'' ''score'' [''t1'', ''t2'', ''t3'']"
    by (simp add: series_present_def manager_mixed_missing_def plain_manager_sel workers_mixed_def
          metrics_mixed_missing_def worker_of_def)
  show "GetSuggestions manager_mixed_missing exact_stdlib request (0, [])
       = (Inl (Panic ''index out of range''),
          (0, [M_GetSuggestionParameters ''p'', M_GetStudy ''s'',
               M_GetWorkers ''s'' ''t1'', M_GetMetrics ''s'' [''w-t1''] [''score'']]))"
    by (simp add: GetSuggestions_def makeBracket_def getLoopParam_def evalWorkers_def
          codec_simps run_simps input_simps)
qed

text \<open>
  Claim C2 as stated fails when a read of the Manager fails before the running worker is
  seen: the worker of \<^verbatim>\<open>t2\<close> is running, the listing of the workers of \<^verbatim>\<open>t1\<close>
  fails, and the call returns that error, not FAILED_PRECONDITION.
\<close>

theorem GetSuggestions_unready_read_error:
  "GetWorkers manager_failing ''s'' ''t2'' 0 = (Inr [worker_of State_RUNNING ''t2''], 0)
   \<and> GetMetrics manager_failing ''s'' [''w-t2''] [''score''] 0
       = (Inr [logs_of State_RUNNING ''w-t2''], 0)
   \<and> fst (purseSuggestionParameters manager_failing exact_stdlib ''s'' sparam_round1
            (0, [M_GetSuggestionParameters ''p''])) = Inr hb_round1
   \<and> GetSuggestions manager_failing exact_stdlib request (0, [])
       = (Inl (Returned (Error ''connection refused'')),
          (0, [M_GetSuggestionParameters ''p'', M_GetStudy ''s'', M_GetWorkers ''s'' ''t1'']))"
proof (intro conjI)
  show "GetWorkers manager_failing ''s'' ''t2'' 0 = (Inr [worker_of State_RUNNING ''t2''], 0)"
    by (simp add: manager_failing_def plain_manager_sel workers_failing_def workers_mixed_def)
  show "GetMetrics manager_failing ''s'' [''w-t2''] [''score''] 0
       = (Inr [logs_of State_RUNNING ''w-t2''], 0)"
    by (simp add: manager_failing_def plain_manager_sel metrics_mixed_def)
  show "fst (purseSuggestionParameters manager_failing exact_stdlib ''s'' sparam_round1
            (0, [M_GetSuggestionParameters ''p''])) = Inr hb_round1"
    by (simp add: codec_simps run_simps input_simps)
  show "GetSuggestions manager_failing exact_stdlib request (0, [])
       = (Inl (Returned (Error ''connection refused'')),
          (0, [M_GetSuggestionParameters ''p'', M_GetStudy ''s'', M_GetWorkers ''s'' ''t1'']))"
    by (simp add: GetSuggestions_def makeBracket_def getLoopParam_def evalWorkers_def
          codec_simps run_simps input_simps)
qed

lemma wire_exact_round1: "wire_exact exact_stdlib hb_round1"
  by (simp add: wire_exact_def hb_round1_def run_simps)

text \<open>
  The state of round 1 is carried exactly.
\<close>

theorem decode_encode_roundtrip_witness:
  "wire_exact exact_stdlib hb_round1
   \<and> evaluatingTrials hb_first = []
   \<and> purseSuggestionParameters (manager_round1 OptimizationType_MAXIMIZE) exact_stdlib ''s''
        (encodeParameters exact_stdlib hb_round1) (0, [])
       = (Inr hb_round1, (0, [] @ [M_GetStudy ''s'']))
   \<and> \<lparr> sp_Name = ''evaluatingTrials'', sp_Value = [] \<rparr> \<in> set (encodeParameters exact_stdlib hb_first)"
proof -
  have empty: "evaluatingTrials hb_first = []" by (simp add: hb_first_def)
  have study: "GetStudy (manager_round1 OptimizationType_MAXIMIZE) ''s'' 0
                 = (Inr (study_of OptimizationType_MAXIMIZE), 0)"
    by (simp add: manager_round1_def plain_manager_sel)
  have objective: "sc_ObjectiveValueName (study_of OptimizationType_MAXIMIZE) = ObjectiveValueName hb_round1"
    by (simp add: study_of_def hb_round1_def)
  from decode_encode_roundtrip [OF wire_exact_round1 study objective, of "[]" hb_first]
    wire_exact_round1 empty
  show ?thesis by simp
qed

text \<open>
  Claim C4 as stated fails for the state derived from \<^verbatim>\<open>r_l = 100\<close> and \<^verbatim>\<open>eta = 3\<close>:
  its empty list of trial ids is encoded as the empty text and decoded as the list of one
  empty id, and its \<open>r = 100 / 81\<close> is encoded as \<^verbatim>\<open>1.2346\<close>.
\<close>

theorem decode_encode_changes_state:
  "evaluatingTrials hb_first = []
   \<and> \<lparr> sp_Name = ''evaluatingTrials'', sp_Value = [] \<rparr> \<in> set (encodeParameters exact_stdlib hb_first)
   \<and> fst (purseSuggestionParameters (manager_round1 OptimizationType_MAXIMIZE) exact_stdlib ''s''
            (encodeParameters exact_stdlib hb_first) (0, []))
       = Inr (hb_first \<lparr> hb_r := 6173 / 5000, evaluatingTrials := [[]] \<rparr>)
   \<and> hb_first \<lparr> hb_r := 6173 / 5000, evaluatingTrials := [[]] \<rparr> \<noteq> hb_first"
  by (simp add: codec_simps run_simps input_simps)


end
